theory Spec2Isabelle
  imports Main "HOL-Library.Word"
begin

section \<open>Identifiers, diagnostics and the elaboration state\<close>

text \<open>
  Identifiers are interned strings: two identifiers are the same pointer exactly when
  they spell the same text, so an identifier is modelled by its text and pointer
  equality by equality of strings. A null identifier is \<open>None\<close>.
\<close>

type_synonym ident = string

text \<open>
  Modelled from the spec: \<open>ident_prefix\<close>, \<open>ident_until\<close> and \<open>ident_rfrom\<close> belong to
  the identifier service, which is not part of the elaboration source. A qualified
  name is the prefix, the separator and the suffix; a null prefix leaves the suffix
  alone. \<open>ident_until\<close> keeps the text before the first separator (the whole
  identifier when there is none) and \<open>ident_rfrom\<close> the text after the last one.
\<close>

definition ident_prefix :: "ident option \<Rightarrow> ident \<Rightarrow> char \<Rightarrow> ident" where
  "ident_prefix a b sep = (case a of None \<Rightarrow> b | Some p \<Rightarrow> p @ [sep] @ b)"

definition ident_until :: "ident \<Rightarrow> char \<Rightarrow> ident" where
  "ident_until i c = takeWhile (\<lambda>x. x \<noteq> c) i"

definition ident_rfrom :: "ident \<Rightarrow> char \<Rightarrow> ident" where
  "ident_rfrom i c = rev (takeWhile (\<lambda>x. x \<noteq> c) (rev i))"

text \<open>
  A call of \<open>fatal\<close>, \<open>fatal_at\<close> or \<open>fatal_trace\<close>, and a failed \<open>assert\<close>, end the
  process: the function that reaches one returns \<open>Inl\<close> of the message and nothing
  after it runs. Of a source location \<open>loc_t\<close> the model keeps the file and the first
  line. The result \<open>Unmodelled\<close> marks a path of the source that this model does not
  follow (components, configurations, Verilog, if- and case-generate); no theorem
  below is about an input that reaches one.
\<close>

record loc =
  file_ref :: nat
  first_line :: nat

datatype fatal =
    Fatal string | Fatal_at loc string | Fatal_trace string | Assert_failed string
  | Unmodelled string

datatype diag_level = DIAG_WARN | DIAG_ERROR

record diag =
  level :: diag_level
  text_of :: string

text \<open>
  The process-wide state elaboration reads and writes: the diagnostics emitted so far
  (oldest first) and the list \<open>generic_override\<close> of \<open>generic_list_t\<close> nodes, whose
  \<open>next\<close> pointers are the list structure.
\<close>

record generic_list =
  gl_name :: ident
  gl_value :: string

record elab_state =
  diags :: "diag list"
  generic_override :: "generic_list list"

definition error_count :: "elab_state \<Rightarrow> nat" where
  "error_count s = length (filter (\<lambda>d. level d = DIAG_ERROR) (diags s))"

definition diag_emit :: "diag_level \<Rightarrow> string \<Rightarrow> elab_state \<Rightarrow> elab_state" where
  "diag_emit l m s = s\<lparr>diags := diags s @ [\<lparr>level = l, text_of = m\<rparr>]\<rparr>"

definition error_at :: "string \<Rightarrow> elab_state \<Rightarrow> elab_state" where
  "error_at m s = diag_emit DIAG_ERROR m s"

definition warnf :: "string \<Rightarrow> elab_state \<Rightarrow> elab_state" where
  "warnf m s = diag_emit DIAG_WARN m s"

section \<open>Registering generic overrides\<close>

text \<open>
  \<open>elab_set_generic\<close> walks the list from its head and is fatal at the first node
  with the new name; otherwise the new node becomes the head.
\<close>

definition elab_set_generic ::
  "string \<Rightarrow> string \<Rightarrow> generic_list list \<Rightarrow> fatal + generic_list list" where
  "elab_set_generic nm val go =
     (case find (\<lambda>it. gl_name it = nm) go of
        Some it \<Rightarrow>
          Inl (Fatal (''generic '' @ nm @ '' already has value '' @ [CHR 0x27]
                      @ gl_value it @ [CHR 0x27]))
      | None \<Rightarrow> Inr (\<lparr>gl_name = nm, gl_value = val\<rparr> # go))"

text \<open>
  A sequence of registrations, as the command line makes them, starting from a given
  table; it stops at the first fatal one.
\<close>

fun set_generics :: "(string \<times> string) list \<Rightarrow> generic_list list \<Rightarrow> fatal + generic_list list" where
  "set_generics [] go = Inr go"
| "set_generics ((n, v) # rest) go =
     (case elab_set_generic n v go of
        Inl e \<Rightarrow> Inl e
      | Inr go' \<Rightarrow> set_generics rest go')"

definition matching_overrides :: "ident \<Rightarrow> generic_list list \<Rightarrow> generic_list list" where
  "matching_overrides q go = filter (\<lambda>it. gl_name it = q) go"


section \<open>Paths\<close>

text \<open>
  \<open>simple_name\<close> strips any library or entity prefix: the result starts after the last
  dot or dash.
\<close>

definition simple_name :: "string \<Rightarrow> string" where
  "simple_name full = rev (takeWhile (\<lambda>c. c \<noteq> CHR ''.'' \<and> c \<noteq> CHR ''-'') (rev full))"

text \<open>
  Modelled from the spec: \<open>tolower_iso88591\<close> is a utility that is not part of the
  elaboration source; instance paths are lowercased, letters of ISO 8859-1 included.
\<close>

definition tolower_iso88591 :: "char \<Rightarrow> char" where
  "tolower_iso88591 c =
     (let n = (of_char c :: nat)
      in if (65 \<le> n \<and> n \<le> 90) \<or> (192 \<le> n \<and> n \<le> 222 \<and> n \<noteq> 215)
         then char_of (n + 32) else c)"

text \<open>
  \<open>hpathf path sep fmt ...\<close> formats its arguments, lowercases the formatted text and
  prefixes it with the path; the argument \<open>txt\<close> is the text already formatted.
\<close>

definition hpathf :: "ident option \<Rightarrow> char \<Rightarrow> string \<Rightarrow> ident" where
  "hpathf path sep txt = ident_prefix path (map tolower_iso88591 txt) sep"

text \<open>
  The text that the format \<open>%PRIi64\<close> prints for an integer: its decimal digits, after
  a minus sign when it is negative.
\<close>

definition digit_char :: "nat \<Rightarrow> char" where
  "digit_char d = ''0123456789'' ! d"

fun decimal :: "nat \<Rightarrow> string" where
  "decimal n = (if 10 \<le> n then decimal (n div 10) @ [digit_char (n mod 10)] else [digit_char n])"

declare decimal.simps [simp del]

definition PRIi64 :: "int \<Rightarrow> string" where
  "PRIi64 i = (if 0 \<le> i then decimal (nat i) else CHR ''-'' # decimal (nat (- i)))"

section \<open>Types and trees\<close>

text \<open>
  Modelled from the spec: the type service is not part of the elaboration source.
  A type belongs to one family; a subtype belongs to the family of its base.
  \<open>type_base_recur\<close> follows subtypes down to the base type, \<open>type_elem\<close> is the element
  type of an array, \<open>type_enum_literal\<close> the literal of an enumeration at a position
  (an assertion fails outside the enumeration), and \<open>type_pp\<close> prints the name.
  A character array is a one-dimensional array whose element type is an enumeration
  with a character literal.
\<close>

datatype vtype =
    Enum_type ident "ident list"
  | Integer_type ident
  | Real_type ident
  | Physical_type ident
  | Array_type ident vtype
  | Subtype vtype "(int \<times> int) option"
  | Other_type ident

fun type_base_recur :: "vtype \<Rightarrow> vtype" where
  "type_base_recur (Subtype b c) = type_base_recur b"
| "type_base_recur t = t"

fun type_pp :: "vtype \<Rightarrow> string" where
  "type_pp (Enum_type n ls) = n"
| "type_pp (Integer_type n) = n"
| "type_pp (Real_type n) = n"
| "type_pp (Physical_type n) = n"
| "type_pp (Array_type n e) = n"
| "type_pp (Subtype b c) = type_pp b"
| "type_pp (Other_type n) = n"

definition type_is_enum :: "vtype \<Rightarrow> bool" where
  "type_is_enum t = (case type_base_recur t of Enum_type n ls \<Rightarrow> True | _ \<Rightarrow> False)"

definition type_is_integer :: "vtype \<Rightarrow> bool" where
  "type_is_integer t = (case type_base_recur t of Integer_type n \<Rightarrow> True | _ \<Rightarrow> False)"

definition type_is_real :: "vtype \<Rightarrow> bool" where
  "type_is_real t = (case type_base_recur t of Real_type n \<Rightarrow> True | _ \<Rightarrow> False)"

definition type_is_physical :: "vtype \<Rightarrow> bool" where
  "type_is_physical t = (case type_base_recur t of Physical_type n \<Rightarrow> True | _ \<Rightarrow> False)"

definition type_is_scalar :: "vtype \<Rightarrow> bool" where
  "type_is_scalar t \<longleftrightarrow> type_is_enum t \<or> type_is_integer t \<or> type_is_real t \<or> type_is_physical t"

definition type_elem :: "vtype \<Rightarrow> vtype option" where
  "type_elem t = (case type_base_recur t of Array_type n e \<Rightarrow> Some e | _ \<Rightarrow> None)"

definition is_character_literal :: "ident \<Rightarrow> bool" where
  "is_character_literal l = (case l of c # cs \<Rightarrow> c = CHR 0x27 | [] \<Rightarrow> False)"

definition type_is_character_array :: "vtype \<Rightarrow> bool" where
  "type_is_character_array t =
     (case type_elem t of
        None \<Rightarrow> False
      | Some e \<Rightarrow>
          (case type_base_recur e of
             Enum_type n ls \<Rightarrow> list_ex is_character_literal ls
           | _ \<Rightarrow> False))"

text \<open>
  The kinds of the trees that are not expressions: design units, statements and
  declarations.
\<close>

datatype tree_kind =
    T_ENTITY | T_ARCH | T_COMPONENT | T_CONFIGURATION | T_PACKAGE | T_PACK_BODY
  | T_BINDING | T_INSTANCE | T_BLOCK | T_FOR_GENERATE | T_IF_GENERATE | T_CASE_GENERATE
  | T_PROCESS | T_PSL_DIRECT | T_VERILOG | T_CONCURRENT
  | T_ENUM_LIT | T_GENERIC_DECL | T_PORT_DECL | T_CONST_DECL | T_SIGNAL_DECL | T_FUNC_DECL

text \<open>
  What a reference points to: the kind and the identifier of the declaration, and for
  an enumeration literal its position.
\<close>

record decl =
  d_kind :: tree_kind
  d_ident :: ident
  d_pos :: nat

definition type_enum_literal :: "vtype \<Rightarrow> int \<Rightarrow> decl option" where
  "type_enum_literal t n =
     (case t of
        Enum_type nm ls \<Rightarrow>
          (if 0 \<le> n \<and> nat n < length ls
           then Some \<lparr>d_kind = T_ENUM_LIT, d_ident = ls ! nat n, d_pos = nat n\<rparr>
           else None)
      | _ \<Rightarrow> None)"

text \<open>
  A function declaration of the Verilog support package: its identifier and the
  result of its type (\<open>type_result (tree_type func)\<close>).
\<close>

record func_decl =
  fd_ident :: ident
  fd_result :: vtype

text \<open>
  A \<open>double\<close> is carried as its 64 bits; elaboration does no arithmetic on it.
\<close>

type_synonym double = "64 word"

datatype literal_kind = L_INT | L_REAL | L_PHYSICAL | L_NULL

datatype attr_kind = ATTR_LOW | ATTR_HIGH | ATTR_RANGE | ATTR_OTHER

text \<open>
  Expression trees, one constructor for each kind the elaboration source tells apart,
  with the attributes it reads or sets: a literal has a subkind, a type, an integer
  value and a real value; a reference a type (not set on the character references of
  a string), an identifier and the declaration it points to; a string a type and its
  characters; a conversion an identifier, a type, the function and the converted
  value; every other kind its type. Source locations are left out.
\<close>

datatype tree =
    T_LITERAL literal_kind vtype int double
  | T_REF "vtype option" ident decl
  | T_ARRAY_REF vtype tree "tree list"
  | T_RECORD_REF vtype tree ident
  | T_FCALL vtype ident "tree list"
  | T_STRING "vtype option" "tree list"
  | T_OPEN vtype
  | T_CONV_FUNC ident vtype func_decl tree
  | T_ATTR_REF attr_kind vtype tree
  | T_AGGREGATE vtype "tree list"
  | T_QUALIFIED vtype tree

fun tree_type :: "tree \<Rightarrow> vtype option" where
  "tree_type (T_LITERAL k t i d) = Some t"
| "tree_type (T_REF t i r) = t"
| "tree_type (T_ARRAY_REF t v ps) = Some t"
| "tree_type (T_RECORD_REF t v f) = Some t"
| "tree_type (T_FCALL t i ps) = Some t"
| "tree_type (T_STRING t cs) = t"
| "tree_type (T_OPEN t) = Some t"
| "tree_type (T_CONV_FUNC i t f v) = Some t"
| "tree_type (T_ATTR_REF k t n) = Some t"
| "tree_type (T_AGGREGATE t es) = Some t"
| "tree_type (T_QUALIFIED t v) = Some t"

datatype class_t = C_CONSTANT | C_SIGNAL | C_TYPE | C_PACKAGE | C_FUNCTION | C_PROCEDURE | C_ENTITY

text \<open>
  A generic declaration: identifier, class, type, the default value when it has one,
  and the flag of a predefined generic subprogram.
\<close>

record generic_decl =
  g_ident :: ident
  g_class :: class_t
  g_type :: vtype
  g_value :: "tree option"
  g_predefined :: bool

datatype param_kind = P_POS | P_NAMED

text \<open>
  A \<open>T_PARAM\<close> node: subkind, position, value, and the name of a named one. A node made
  by \<open>tree_new\<close> has position 0 and no name until they are set.
\<close>

record param =
  p_subkind :: param_kind
  p_pos :: nat
  p_value :: tree
  p_name :: "tree option"

datatype vrange =
    Range_expr vtype tree
  | Range_to tree tree
  | Range_downto tree tree

text \<open>
  Statements of an architecture, block or generate body. An instance has a label, the
  name of the unit it refers to, its generic map and its location; a block a label, generics, a
  generic map and statements; a for-generate a label, a range, the declaration of its
  generate parameter and statements. Processes and PSL directives are leaves. Any other
  kind is \<open>Stmt\<close>.
\<close>

datatype stmt =
    Instance ident ident "param list" loc
  | Block ident "generic_decl list" "param list" "stmt list"
  | For_generate ident vrange generic_decl "stmt list"
  | Process ident
  | Psl_direct ident
  | Stmt tree_kind ident

text \<open>
  Design units as the library holds them. An architecture carries its primary unit.
\<close>

datatype design_unit =
    Entity ident loc "generic_decl list" "stmt list"
  | Arch ident ident loc design_unit "stmt list"
  | Unit tree_kind ident loc

fun tree_loc :: "design_unit \<Rightarrow> loc" where
  "tree_loc (Entity i l gs ss) = l"
| "tree_loc (Arch i i2 l p ss) = l"
| "tree_loc (Unit k i l) = l"

fun unit_kind :: "design_unit \<Rightarrow> tree_kind" where
  "unit_kind (Entity i l gs ss) = T_ENTITY"
| "unit_kind (Arch i i2 l p ss) = T_ARCH"
| "unit_kind (Unit k i l) = k"

fun unit_ident :: "design_unit \<Rightarrow> ident" where
  "unit_ident (Entity i l gs ss) = i"
| "unit_ident (Arch i i2 l p ss) = i"
| "unit_ident (Unit k i l) = i"

text \<open>
  A library: its name, its index in the order \<open>lib_walk_index\<close> enumerates it (name and
  kind of each unit), the modification time \<open>lib_get_mtime\<close> reports for a name, and
  the unit \<open>lib_get\<close> loads for a name (null when it cannot).
\<close>

record lib =
  lib_name :: ident
  lib_index :: "(ident \<times> tree_kind) list"
  lib_get_mtime :: "ident \<Rightarrow> nat"
  lib_get :: "ident \<Rightarrow> design_unit option"

section \<open>The elaboration context\<close>

text \<open>
  The fields of \<open>elab_ctx_t\<close> that elaboration itself computes with: the parent, the
  label of the instance tree, the instance name, the dotted name, the library and the
  depth, an \<open>unsigned\<close>. The handles of the collaborators (JIT, registry, model, cover
  data and the like) are left out.
\<close>

datatype elab_ctx =
  Elab_ctx (parent: "elab_ctx option") (inst: "ident option") (inst_name: "ident option")
           (dotted: "ident option") (library: "lib option") (depth: "32 word")

definition MAX_DEPTH :: "32 word" where
  "MAX_DEPTH = 127"

text \<open>
  \<open>elab_inherit_context ctx parent\<close> fills a context whose initialiser set some fields:
  a field the initialiser left null is taken from the parent, and the depth is the
  parent's plus one.
\<close>

definition orelse :: "'a option \<Rightarrow> 'a option \<Rightarrow> 'a option" where
  "orelse a b = (case a of Some x \<Rightarrow> Some x | None \<Rightarrow> b)"

definition elab_inherit_context :: "elab_ctx \<Rightarrow> elab_ctx \<Rightarrow> elab_ctx" where
  "elab_inherit_context ctx par =
     Elab_ctx (Some par)
              (orelse (inst ctx) (inst par))
              (orelse (inst_name ctx) (inst_name par))
              (orelse (dotted ctx) (dotted par))
              (orelse (library ctx) (library par))
              (depth par + 1)"

text \<open>
  A context as a designated initialiser leaves it: every field null or zero except
  those given.
\<close>

definition new_ctx :: "ident option \<Rightarrow> ident option \<Rightarrow> ident option \<Rightarrow> elab_ctx" where
  "new_ctx i n d = Elab_ctx None i n d None 0"

section \<open>Generic overrides and generic resolution\<close>

text \<open>
  \<open>parsed_value_t\<close> is a union; the model holds each member. The functions
  \<open>parse_value\<close> (null when the text does not parse as the type),
  \<open>subtype_for_string\<close>, \<open>eval_try_fold\<close> (which returns its argument when it cannot
  fold), \<open>is_literal\<close>, \<open>eval_must_fold\<close>, \<open>folded_int\<close> and \<open>folded_bounds\<close> (which
  give the integers a tree or a range has been folded to, if any), \<open>simplify_global\<close>
  (which rewrites the statements of a copied body with the values of the generics) and
  \<open>lib_require\<close> (which finds a library by name and is fatal, here \<open>None\<close>, when there
  is none) belong to collaborators outside the elaboration source and are parameters
  of the model. The evaluator and the simplifier are taken to record no diagnostics.
  The reference of an instance statement to its design unit is a pointer into the
  object graph; the model names the unit and \<open>tree_ref\<close> gives the unit of a name.
\<close>

record parsed_value =
  pv_integer :: int
  pv_real :: double
  pv_enums :: "int list"

record collab =
  parse_value :: "vtype \<Rightarrow> string \<Rightarrow> parsed_value option"
  subtype_for_string :: "tree \<Rightarrow> vtype \<Rightarrow> vtype"
  eval_try_fold :: "elab_ctx \<Rightarrow> tree \<Rightarrow> tree"
  is_literal :: "tree \<Rightarrow> bool"
  eval_must_fold :: "elab_ctx \<Rightarrow> tree \<Rightarrow> tree"
  folded_int :: "tree \<Rightarrow> int option"
  folded_bounds :: "vrange \<Rightarrow> (int \<times> int) option"
  simplify_global :: "(generic_decl \<times> tree) list \<Rightarrow> stmt list \<Rightarrow> stmt list"
  lib_require :: "ident \<Rightarrow> lib option"
  tree_ref :: "ident \<Rightarrow> design_unit option"

text \<open>
  The characters of a string override: one reference for each parsed position, to the
  literal of the element type at that position.
\<close>

fun string_chars :: "vtype \<Rightarrow> int list \<Rightarrow> tree list option" where
  "string_chars elem [] = Some []"
| "string_chars elem (n # ns) =
     (case type_enum_literal elem n of
        None \<Rightarrow> None
      | Some lit \<Rightarrow>
          (case string_chars elem ns of
             None \<Rightarrow> None
           | Some refs \<Rightarrow> Some (T_REF None (d_ident lit) lit # refs)))"

definition elab_parse_generic_string :: "collab \<Rightarrow> generic_decl \<Rightarrow> string \<Rightarrow> fatal + tree" where
  "elab_parse_generic_string C generic str =
     (let type = g_type generic in
      case parse_value C type str of
        None \<Rightarrow>
          Inl (Fatal (''failed to parse '' @ [CHR 0x22] @ str @ [CHR 0x22] @ '' as type '' @ type_pp type
                      @ '' for generic '' @ g_ident generic))
      | Some v \<Rightarrow>
          if type_is_enum type then
            (case type_enum_literal (type_base_recur type) (pv_integer v) of
               None \<Rightarrow> Inl (Assert_failed ''type_enum_literal'')
             | Some lit \<Rightarrow> Inr (T_REF (Some type) str lit))
          else if type_is_integer type then
            Inr (T_LITERAL L_INT type (pv_integer v) 0)
          else if type_is_real type then
            Inr (T_LITERAL L_REAL type 0 (pv_real v))
          else if type_is_physical type then
            Inr (T_LITERAL L_PHYSICAL type (pv_integer v) 0)
          else if type_is_character_array type then
            (case type_elem type of
               None \<Rightarrow> Inl (Assert_failed ''type_elem'')
             | Some e \<Rightarrow>
                 (case string_chars (type_base_recur e) (pv_enums v) of
                    None \<Rightarrow> Inl (Assert_failed ''type_enum_literal'')
                  | Some refs \<Rightarrow>
                      Inr (T_STRING (Some (subtype_for_string C (T_STRING None refs) type)) refs)))
          else
            Inl (Fatal (''cannot override generic '' @ g_ident generic @ '' of type ''
                        @ type_pp type)))"

text \<open>
  The qualified name of a generic: the loop goes up the contexts while the context has
  an instance and prefixes the label of that instance. The root context has no
  instance, so the loop ends there at the latest.
\<close>

fun qualified_generic :: "elab_ctx \<Rightarrow> ident \<Rightarrow> ident" where
  "qualified_generic (Elab_ctx par i n d l dp) qual =
     (case i of
        None \<Rightarrow> qual
      | Some label \<Rightarrow>
          (case par of
             None \<Rightarrow> ident_prefix (Some label) qual (CHR ''.'')
           | Some p \<Rightarrow> qualified_generic p (ident_prefix (Some label) qual (CHR ''.''))))"

text \<open>
  The walk over the override list: the first node with the name, and the list with
  that node unlinked.
\<close>

fun unlink_override :: "ident \<Rightarrow> generic_list list \<Rightarrow> (generic_list \<times> generic_list list) option" where
  "unlink_override q [] = None"
| "unlink_override q (it # rest) =
     (if gl_name it = q then Some (it, rest)
      else (case unlink_override q rest of
              None \<Rightarrow> None
            | Some (found, rest') \<Rightarrow> Some (found, it # rest')))"

definition elab_find_generic_override ::
  "collab \<Rightarrow> generic_decl \<Rightarrow> elab_ctx \<Rightarrow> elab_state \<Rightarrow> fatal + (tree option \<times> elab_state)" where
  "elab_find_generic_override C g ctx s =
     (if generic_override s = [] then Inr (None, s)
      else
        (let qual = qualified_generic ctx (g_ident g) in
         case unlink_override qual (generic_override s) of
           None \<Rightarrow> Inr (None, s)
         | Some (it, rest) \<Rightarrow>
             (case elab_parse_generic_string C g (gl_value it) of
                Inl e \<Rightarrow> Inl e
              | Inr v \<Rightarrow> Inr (Some v, s\<lparr>generic_override := rest\<rparr>))))"

text \<open>
  What \<open>elab_generics\<close> adds to the output block and to the context: the generics, the
  generic map, and the entries put into the hash \<open>ctx->generics\<close>, in the order they
  are put.
\<close>

record generics_out =
  out_generics :: "generic_decl list"
  out_genmaps :: "param list"
  ctx_generics :: "(generic_decl \<times> tree) list"

text \<open>
  The \<open>switch\<close> on the kind of the value: a reference to an enumeration literal and
  the actual of a package generic are kept; another reference, an array or record
  reference and a function call of scalar type are folded, and a new positional map
  holds the folded value when folding changed it.
\<close>

definition fold_scalar_map :: "collab \<Rightarrow> elab_ctx \<Rightarrow> param \<Rightarrow> fatal + param" where
  "fold_scalar_map C ctx m =
     (case tree_type (p_value m) of
        None \<Rightarrow> Inl (Assert_failed ''tree_type'')
      | Some t \<Rightarrow>
          if type_is_scalar t then
            (let folded = eval_try_fold C ctx (p_value m)
             in if folded \<noteq> p_value m
                then Inr \<lparr>p_subkind = P_POS, p_pos = p_pos m, p_value = folded, p_name = None\<rparr>
                else Inr m)
          else Inr m)"

definition elab_fold_generic :: "collab \<Rightarrow> elab_ctx \<Rightarrow> generic_decl \<Rightarrow> param \<Rightarrow> fatal + param" where
  "elab_fold_generic C ctx g m =
     (case p_value m of
        T_REF t i r \<Rightarrow>
          if d_kind r = T_ENUM_LIT then Inr m
          else if g_class g = C_PACKAGE then Inr m
          else fold_scalar_map C ctx m
      | T_ARRAY_REF t v ps \<Rightarrow> fold_scalar_map C ctx m
      | T_RECORD_REF t v f \<Rightarrow> fold_scalar_map C ctx m
      | T_FCALL t i ps \<Rightarrow> fold_scalar_map C ctx m
      | _ \<Rightarrow> Inr m)"

text \<open>
  The map of the formal at position \<open>i\<close> before overrides are looked at: the actual of
  the binding at that position (asserted positional and in place), else a new
  positional map of the default, else null.
\<close>

definition actual_or_default :: "param list \<Rightarrow> nat \<Rightarrow> generic_decl \<Rightarrow> fatal + param option" where
  "actual_or_default genmaps i g =
     (if i < length genmaps then
        (let m = genmaps ! i
         in if p_subkind m = P_POS \<and> p_pos m = i then Inr (Some m)
            else Inl (Assert_failed ''tree_subkind(map) == P_POS, tree_pos(map) == i''))
      else
        (case g_value g of
           Some v \<Rightarrow> Inr (Some \<lparr>p_subkind = P_POS, p_pos = i, p_value = v, p_name = None\<rparr>)
         | None \<Rightarrow> Inr None))"

text \<open>The body of the loop of \<open>elab_generics\<close>, for the formal \<open>g\<close> at position \<open>i\<close>.\<close>

definition elab_generic ::
  "collab \<Rightarrow> elab_ctx \<Rightarrow> param list \<Rightarrow> nat \<Rightarrow> generic_decl \<Rightarrow> generics_out \<Rightarrow> elab_state
     \<Rightarrow> fatal + (generics_out \<times> elab_state)" where
  "elab_generic C ctx genmaps i g out s =
     (let out1 = out\<lparr>out_generics := out_generics out @ [g]\<rparr> in
      case actual_or_default genmaps i g of
        Inl e \<Rightarrow> Inl e
      | Inr map0 \<Rightarrow>
          (case elab_find_generic_override C g ctx s of
             Inl e \<Rightarrow> Inl e
           | Inr (override, s1) \<Rightarrow>
               (let map1 = (case override of
                              Some v \<Rightarrow> Some \<lparr>p_subkind = P_POS, p_pos = i, p_value = v, p_name = None\<rparr>
                            | None \<Rightarrow> map0)
                in case map1 of
                     None \<Rightarrow>
                       Inr (out1, error_at (''missing value for generic '' @ g_ident g
                                            @ '' with no default'') s1)
                   | Some m \<Rightarrow>
                       (case elab_fold_generic C ctx g m of
                          Inl e \<Rightarrow> Inl e
                        | Inr m' \<Rightarrow>
                            Inr (out1\<lparr>out_genmaps := out_genmaps out1 @ [m'],
                                      ctx_generics :=
                                        (if is_literal C (p_value m')
                                         then ctx_generics out1 @ [(g, p_value m')]
                                         else ctx_generics out1)\<rparr>, s1)))))"

fun elab_generics_from ::
  "collab \<Rightarrow> elab_ctx \<Rightarrow> param list \<Rightarrow> nat \<Rightarrow> generic_decl list \<Rightarrow> generics_out \<Rightarrow> elab_state
     \<Rightarrow> fatal + (generics_out \<times> elab_state)" where
  "elab_generics_from C ctx genmaps i [] out s = Inr (out, s)"
| "elab_generics_from C ctx genmaps i (g # gs) out s =
     (case elab_generic C ctx genmaps i g out s of
        Inl e \<Rightarrow> Inl e
      | Inr (out', s') \<Rightarrow> elab_generics_from C ctx genmaps (Suc i) gs out' s')"

definition elab_generics ::
  "collab \<Rightarrow> generic_decl list \<Rightarrow> param list \<Rightarrow> elab_ctx \<Rightarrow> elab_state
     \<Rightarrow> fatal + (generics_out \<times> elab_state)" where
  "elab_generics C generics genmaps ctx s =
     elab_generics_from C ctx genmaps 0 generics
       \<lparr>out_generics = [], out_genmaps = [], ctx_generics = []\<rparr> s"

text \<open>
  Sample collaborators and declarations, used to run the model on concrete inputs:
  a parser that knows a few texts (\<open>1.5\<close> is the double with the bits
  \<open>0x3FF8000000000000\<close>), a string subtype that records the number of characters, a
  folder that replaces function calls by the integer literal 5, \<open>is_literal\<close> as
  true on literals, an evaluator and a simplifier that change nothing, folded integers
  and bounds read off integer literals, and no library besides the work library.
\<close>

definition sample_parse_value :: "vtype \<Rightarrow> string \<Rightarrow> parsed_value option" where
  "sample_parse_value t str =
     map_of [(''TRUE'', \<lparr>pv_integer = 1, pv_real = 0, pv_enums = []\<rparr>),
             (''16'', \<lparr>pv_integer = 16, pv_real = 0, pv_enums = []\<rparr>),
             (''7'', \<lparr>pv_integer = 7, pv_real = 0, pv_enums = []\<rparr>),
             (''10 ns'', \<lparr>pv_integer = 10000000, pv_real = 0, pv_enums = []\<rparr>),
             (''1.5'', \<lparr>pv_integer = 0, pv_real = 0x3FF8000000000000, pv_enums = []\<rparr>),
             (''ab'', \<lparr>pv_integer = 0, pv_real = 0, pv_enums = [0, 1]\<rparr>)] str"

definition sample_collab :: collab where
  "sample_collab =
     \<lparr>parse_value = sample_parse_value,
      subtype_for_string =
        (\<lambda>t ty. case t of T_STRING x cs \<Rightarrow> Subtype ty (Some (1, int (length cs))) | _ \<Rightarrow> ty),
      eval_try_fold =
        (\<lambda>ctx t. case t of T_FCALL ty f ps \<Rightarrow> T_LITERAL L_INT ty 5 0 | _ \<Rightarrow> t),
      is_literal = (\<lambda>t. case t of T_LITERAL k ty i d \<Rightarrow> True | _ \<Rightarrow> False),
      eval_must_fold = (\<lambda>ctx t. t),
      folded_int = (\<lambda>t. case t of T_LITERAL k ty i d \<Rightarrow> (if k = L_INT then Some i else None)
                              | _ \<Rightarrow> None),
      folded_bounds =
        (\<lambda>r. case r of
               Range_to (T_LITERAL k ty i d) (T_LITERAL k' ty' i' d') \<Rightarrow> Some (i, i')
             | Range_downto (T_LITERAL k ty i d) (T_LITERAL k' ty' i' d') \<Rightarrow> Some (i', i)
             | _ \<Rightarrow> None),
      simplify_global = (\<lambda>gs ss. ss),
      lib_require = (\<lambda>n. None),
      tree_ref = (\<lambda>n. None)\<rparr>"

definition sample_boolean :: vtype where
  "sample_boolean = Enum_type ''BOOLEAN'' [''FALSE'', ''TRUE'']"

definition sample_integer :: vtype where
  "sample_integer = Integer_type ''INTEGER''"

definition sample_real :: vtype where
  "sample_real = Real_type ''REAL''"

definition sample_time :: vtype where
  "sample_time = Physical_type ''TIME''"

definition sample_string :: vtype where
  "sample_string = Array_type ''STRING'' (Enum_type ''CHARACTER'' [[CHR 0x27, CHR ''a'', CHR 0x27], [CHR 0x27, CHR ''b'', CHR 0x27]])"

definition sample_record :: vtype where
  "sample_record = Other_type ''REC''"

definition sample_generic :: "ident \<Rightarrow> vtype \<Rightarrow> tree option \<Rightarrow> generic_decl" where
  "sample_generic n t d =
     \<lparr>g_ident = n, g_class = C_CONSTANT, g_type = t, g_value = d, g_predefined = False\<rparr>"

definition sample_root_ctx :: elab_ctx where
  "sample_root_ctx = Elab_ctx None None None (Some ''WORK'') None 0"

definition sample_inst_ctx :: elab_ctx where
  "sample_inst_ctx =
     elab_inherit_context (new_ctx (Some ''U1'') (Some '':top(rtl):u1@sub(rtl)'') (Some ''WORK.TOP.U1''))
       sample_root_ctx"

definition sample_lit :: "int \<Rightarrow> tree" where
  "sample_lit n = T_LITERAL L_INT sample_integer n 0"

definition sample_pos :: "nat \<Rightarrow> tree \<Rightarrow> param" where
  "sample_pos i v = \<lparr>p_subkind = P_POS, p_pos = i, p_value = v, p_name = None\<rparr>"

definition sample_state :: "generic_list list \<Rightarrow> elab_state" where
  "sample_state go = \<lparr>diags = [], generic_override = go\<rparr>"


section \<open>The architecture chooser\<close>

record lib_search_params =
  search :: ident
  chosen :: "ident option"
  mtime :: nat

definition elab_find_arch_cb ::
  "lib \<Rightarrow> ident \<Rightarrow> tree_kind \<Rightarrow> lib_search_params \<times> elab_state \<Rightarrow> lib_search_params \<times> elab_state" where
  "elab_find_arch_cb lb name kind ps =
     (let params = fst ps; s = snd ps; prefix = ident_until name (CHR ''-'') in
      if kind \<noteq> T_ARCH \<or> prefix \<noteq> search params then (params, s)
      else
        (let new_mtime = lib_get_mtime lb name in
         case chosen params of
           None \<Rightarrow> (params\<lparr>chosen := Some name, mtime := new_mtime\<rparr>, s)
         | Some old \<Rightarrow>
             if new_mtime > mtime params then
               (params\<lparr>chosen := Some name, mtime := new_mtime\<rparr>, s)
             else if new_mtime = mtime params then
               (case lib_get lb old of
                  None \<Rightarrow> (params\<lparr>chosen := Some name\<rparr>, s)
                | Some old_unit \<Rightarrow>
                    (case lib_get lb name of
                       None \<Rightarrow> (params, s)
                     | Some new_unit \<Rightarrow>
                         if file_ref (tree_loc old_unit) \<noteq> file_ref (tree_loc new_unit) then
                           (params, warnf (''cannot determine which of '' @ old @ '' and '' @ name
                                           @ '' is most recently modified'') s)
                         else if first_line (tree_loc new_unit) \<ge> first_line (tree_loc old_unit) then
                           (params\<lparr>chosen := Some name\<rparr>, s)
                         else (params, s)))
             else (params, s)))"

text \<open>\<open>lib_walk_index\<close> calls the callback on each entry of the index, in its order.\<close>

fun lib_walk_index ::
  "lib \<Rightarrow> (ident \<times> tree_kind) list \<Rightarrow> lib_search_params \<times> elab_state
     \<Rightarrow> lib_search_params \<times> elab_state" where
  "lib_walk_index lb [] ps = ps"
| "lib_walk_index lb ((name, kind) # rest) ps =
     lib_walk_index lb rest (elab_find_arch_cb lb name kind ps)"

text \<open>
  The parameter \<open>require\<close> stands for \<open>lib_require\<close>, which finds a library by name and is fatal when there is none
  (\<open>None\<close>). The well-known identifier \<open>W_WORK\<close> is \<open>WORK\<close>.
\<close>

definition elab_find_lib :: "(ident \<Rightarrow> lib option) \<Rightarrow> ident \<Rightarrow> elab_ctx \<Rightarrow> fatal + lib" where
  "elab_find_lib require name ctx =
     (let lname = ident_until name (CHR ''.'') in
      if lname = ''WORK'' then
        (case library ctx of
           None \<Rightarrow> Inl (Assert_failed ''ctx->library'')
         | Some lb \<Rightarrow> Inr lb)
      else
        (case require lname of
           None \<Rightarrow> Inl (Fatal (''cannot find library '' @ lname))
         | Some lb \<Rightarrow> Inr lb))"

definition search_name :: "lib \<Rightarrow> ident \<Rightarrow> ident" where
  "search_name lb name = ident_prefix (Some (lib_name lb)) (ident_rfrom name (CHR ''.'')) (CHR ''.'')"

text \<open>
  \<open>elab_pick_arch\<close> returns what \<open>lib_get\<close> gives for the chosen name, and is fatal at
  the location it was given when no name was chosen.
\<close>

definition elab_pick_arch ::
  "(ident \<Rightarrow> lib option) \<Rightarrow> loc \<Rightarrow> design_unit \<Rightarrow> elab_ctx \<Rightarrow> elab_state
     \<Rightarrow> fatal + (design_unit option \<times> elab_state)" where
  "elab_pick_arch require lc entity ctx s =
     (let name = unit_ident entity in
      case elab_find_lib require name ctx of
        Inl e \<Rightarrow> Inl e
      | Inr lb \<Rightarrow>
          (let sn = search_name lb name;
               r = lib_walk_index lb (lib_index lb) (\<lparr>search = sn, chosen = None, mtime = 0\<rparr>, s)
           in case chosen (fst r) of
                None \<Rightarrow> Inl (Fatal_at lc (''no suitable architecture for '' @ sn))
              | Some c \<Rightarrow> Inr (lib_get lb c, snd r)))"

text \<open>The index entries the walk looks at: architectures whose name up to the dash is the search name.\<close>

definition is_candidate :: "ident \<Rightarrow> ident \<times> tree_kind \<Rightarrow> bool" where
  "is_candidate sn e \<longleftrightarrow> snd e = T_ARCH \<and> ident_until (fst e) (CHR ''-'') = sn"

text \<open>
  A sample library \<open>WORK\<close> with the entity \<open>FOO\<close> and architectures of it: \<open>RTL\<close> was
  modified at time 10 and the others at time 20; \<open>ALT\<close> is in another source file and
  \<open>GONE\<close> cannot be loaded.
\<close>

definition sample_entity :: design_unit where
  "sample_entity = Entity ''WORK.FOO'' \<lparr>file_ref = 1, first_line = 1\<rparr> [] []"

definition sample_arch :: "ident \<Rightarrow> nat \<Rightarrow> nat \<Rightarrow> design_unit" where
  "sample_arch n f l = Arch n ''WORK.FOO'' \<lparr>file_ref = f, first_line = l\<rparr> sample_entity []"

definition sample_lib :: "(ident \<times> tree_kind) list \<Rightarrow> lib" where
  "sample_lib idx =
     \<lparr>lib_name = ''WORK'',
      lib_index = idx,
      lib_get_mtime = (\<lambda>n. if n = ''WORK.FOO-RTL'' then 10 else 20),
      lib_get = map_of [(''WORK.FOO'', sample_entity),
                        (''WORK.FOO-RTL'', sample_arch ''WORK.FOO-RTL'' 1 10),
                        (''WORK.FOO-TB'', sample_arch ''WORK.FOO-TB'' 1 30),
                        (''WORK.FOO-SIM'', sample_arch ''WORK.FOO-SIM'' 1 50),
                        (''WORK.FOO-ALT'', sample_arch ''WORK.FOO-ALT'' 2 5)]\<rparr>"

definition sample_lib_ctx :: "(ident \<times> tree_kind) list \<Rightarrow> elab_ctx" where
  "sample_lib_ctx idx = Elab_ctx None None None (Some ''WORK'') (Some (sample_lib idx)) 0"

definition sample_params :: "ident option \<Rightarrow> nat \<Rightarrow> lib_search_params" where
  "sample_params c t = \<lparr>search = ''WORK.FOO'', chosen = c, mtime = t\<rparr>"

section \<open>Binding a component to a Verilog module\<close>

datatype vlog_kind = V_PORT_DECL | V_NET_DECL | V_VAR_DECL | V_MOD_INST | V_REF

datatype vlog_subkind = V_PORT_INPUT | V_PORT_OUTPUT | V_PORT_INOUT

text \<open>
  A declaration of a Verilog module, the module with its declarations, a VHDL port
  declaration, the cache entry of a module (of the synthetic block only the ports are
  read here) and a component declaration.
\<close>

record vlog_node =
  vlog_kind :: vlog_kind
  vlog_ident :: ident
  vlog_ident2 :: ident
  vlog_subkind :: vlog_subkind

record vlog_module =
  mod_ident :: ident
  mod_ident2 :: ident
  vlog_decls :: "vlog_node list"

record port_decl =
  pd_ident :: ident
  pd_type :: vtype

record mod_cache =
  mc_module :: vlog_module
  mc_block_ports :: "port_decl list"

record component =
  comp_ident :: ident
  comp_ports :: "port_decl list"

text \<open>
  A \<open>T_BINDING\<close> node: identifier, class, the identifier of the unit it refers to, and
  its parameters.
\<close>

record binding =
  bind_ident :: ident
  bind_class :: class_t
  bind_ref :: ident
  bind_params :: "param list"

datatype ieee_type_t = IEEE_STD_ULOGIC | IEEE_STD_LOGIC | IEEE_STD_ULOGIC_VECTOR | IEEE_STD_LOGIC_VECTOR

datatype verilog_type_t =
    VERILOG_LOGIC | VERILOG_NET_VALUE | VERILOG_LOGIC_ARRAY | VERILOG_NET_ARRAY | VERILOG_WIRE_ARRAY

text \<open>
  The collaborators of the coercion tables, parameters of the model: type equality,
  the types behind the symbolic type identifiers, the function declaration of the
  Verilog support package with a given name, and the text of the macros \<open>T_LOGIC\<close> and
  \<open>T_NET_VALUE\<close>.
\<close>

record vcollab =
  type_eq :: "vtype \<Rightarrow> vtype \<Rightarrow> bool"
  ieee_type :: "ieee_type_t \<Rightarrow> vtype"
  verilog_type :: "verilog_type_t \<Rightarrow> vtype"
  verilog_func :: "ident \<Rightarrow> func_decl"
  T_LOGIC :: string
  T_NET_VALUE :: string

text \<open>
  A coercion table after its one-time initialisation: source type, target type and
  function of each row. The lookup returns the function of the first row whose types
  equal the given ones.
\<close>

fun coercion_lookup :: "vcollab \<Rightarrow> (vtype \<times> vtype \<times> func_decl) list \<Rightarrow> vtype \<Rightarrow> vtype \<Rightarrow> func_decl option" where
  "coercion_lookup V [] from to = None"
| "coercion_lookup V ((f, t, d) # rows) from to =
     (if type_eq V f from \<and> type_eq V t to then Some d else coercion_lookup V rows from to)"

definition to_vhdl_table :: "vcollab \<Rightarrow> (vtype \<times> vtype \<times> func_decl) list" where
  "to_vhdl_table V =
     [(verilog_type V VERILOG_LOGIC, ieee_type V IEEE_STD_LOGIC,
       verilog_func V (''NVC.VERILOG.TO_VHDL('' @ T_LOGIC V @ '')U'')),
      (verilog_type V VERILOG_NET_VALUE, ieee_type V IEEE_STD_LOGIC,
       verilog_func V (''NVC.VERILOG.TO_VHDL('' @ T_NET_VALUE V @ '')U''))]"

definition to_verilog_table :: "vcollab \<Rightarrow> (vtype \<times> vtype \<times> func_decl) list" where
  "to_verilog_table V =
     [(ieee_type V IEEE_STD_ULOGIC, verilog_type V VERILOG_LOGIC,
       verilog_func V (''NVC.VERILOG.TO_VERILOG(U)'' @ T_LOGIC V)),
      (ieee_type V IEEE_STD_ULOGIC, verilog_type V VERILOG_NET_VALUE,
       verilog_func V (''NVC.VERILOG.TO_VERILOG(U)'' @ T_NET_VALUE V))]"

definition elab_to_vhdl :: "vcollab \<Rightarrow> vtype \<Rightarrow> vtype \<Rightarrow> func_decl option" where
  "elab_to_vhdl V from to = coercion_lookup V (to_vhdl_table V) from to"

definition elab_to_verilog :: "vcollab \<Rightarrow> vtype \<Rightarrow> vtype \<Rightarrow> func_decl option" where
  "elab_to_verilog V from to = coercion_lookup V (to_verilog_table V) from to"

text \<open>
  Modelled from the spec: \<open>make_ref\<close> and \<open>add_param\<close> are helpers outside the
  elaboration source. \<open>make_ref\<close> builds a reference to a declaration, with its type and
  identifier; \<open>add_param\<close> appends a parameter with the given value, positional at the
  next position or named with the given name.
\<close>

definition make_ref :: "port_decl \<Rightarrow> tree" where
  "make_ref p = T_REF (Some (pd_type p)) (pd_ident p)
                  \<lparr>d_kind = T_PORT_DECL, d_ident = pd_ident p, d_pos = 0\<rparr>"

definition add_param :: "param list \<Rightarrow> tree \<Rightarrow> param_kind \<Rightarrow> tree option \<Rightarrow> param list" where
  "add_param ps v kind nm =
     ps @ [\<lparr>p_subkind = kind,
            p_pos = (if kind = P_POS then length ps else 0),
            p_value = v,
            p_name = (if kind = P_NAMED then nm else None)\<rparr>]"

text \<open>The first component port with a given identifier, and its index.\<close>

fun find_port :: "ident \<Rightarrow> port_decl list \<Rightarrow> nat \<Rightarrow> (nat \<times> port_decl) option" where
  "find_port name [] j = None"
| "find_port name (p # ps) j = (if pd_ident p = name then Some (j, p) else find_port name ps (Suc j))"

text \<open>
  What the port loop of \<open>elab_mixed_binding\<close> changes: the parameters of the binding,
  the mask \<open>have\<close> and the flag \<open>have_named\<close>.
\<close>

record mixed_state =
  ms_params :: "param list"
  ms_have :: "bool list"
  ms_have_named :: bool

text \<open>
  The body of the port loop for the declaration \<open>mport\<close> at index \<open>i\<close> of the module.
  The result \<open>None\<close> is the early \<open>return NULL\<close>.
\<close>

definition elab_mixed_port ::
  "vcollab \<Rightarrow> component \<Rightarrow> mod_cache \<Rightarrow> nat \<Rightarrow> vlog_node \<Rightarrow> mixed_state \<Rightarrow> elab_state
     \<Rightarrow> fatal + (mixed_state option \<times> elab_state)" where
  "elab_mixed_port V cmp mc i mport ms s =
     (if vlog_kind mport \<noteq> V_PORT_DECL then Inr (Some ms, s)
      else if \<not> i < length (mc_block_ports mc) then Inl (Assert_failed ''tree_port'')
      else
        (let name = vlog_ident2 mport; vport = mc_block_ports mc ! i in
         if pd_ident vport \<noteq> vlog_ident mport then
           Inl (Assert_failed ''tree_ident(vport) == vlog_ident(mport)'')
         else
           (case find_port name (comp_ports cmp) 0 of
              None \<Rightarrow>
                Inr (None, error_at (''missing matching VHDL port declaration for Verilog port ''
                                     @ vlog_ident mport @ '' in component '' @ comp_ident cmp) s)
            | Some (j, cport) \<Rightarrow>
                (let have = (ms_have ms)[j := True] in
                 if name \<noteq> pd_ident cport then
                   Inr (None, error_at (''expected VHDL port name '' @ pd_ident cport
                                        @ '' to match Verilog port name '' @ vlog_ident mport
                                        @ '' in component '' @ comp_ident cmp) s)
                 else
                   (let btype = pd_type cport; vtype = pd_type vport in
                    if vlog_subkind mport = V_PORT_INPUT then
                      (case elab_to_verilog V btype vtype of
                         None \<Rightarrow>
                           Inr (None, error_at (''cannot connect VHDL signal with type ''
                                                @ type_pp btype @ '' to Verilog input port ''
                                                @ vlog_ident mport) s)
                       | Some func \<Rightarrow>
                           (let conv = T_CONV_FUNC (fd_ident func) (fd_result func) func
                                                   (make_ref cport) in
                            if ms_have_named ms then
                              Inr (Some (ms\<lparr>ms_params := add_param (ms_params ms) conv P_NAMED
                                                             (Some (make_ref vport)),
                                            ms_have := have\<rparr>), s)
                            else
                              Inr (Some (ms\<lparr>ms_params := add_param (ms_params ms) conv P_POS None,
                                            ms_have := have\<rparr>), s)))
                    else
                      (case elab_to_vhdl V vtype btype of
                         None \<Rightarrow>
                           Inr (None, error_at (''cannot connect VHDL signal with type ''
                                                @ type_pp btype @ '' to Verilog output port ''
                                                @ vlog_ident mport) s)
                       | Some func \<Rightarrow>
                           (let conv = T_CONV_FUNC (fd_ident func) (fd_result func) func
                                                   (make_ref vport) in
                            Inr (Some (ms\<lparr>ms_params := add_param (ms_params ms) (make_ref cport)
                                                           P_NAMED (Some conv),
                                          ms_have := have,
                                          ms_have_named := True\<rparr>), s))))))))"

fun elab_mixed_ports ::
  "vcollab \<Rightarrow> component \<Rightarrow> mod_cache \<Rightarrow> nat \<Rightarrow> vlog_node list \<Rightarrow> mixed_state \<Rightarrow> elab_state
     \<Rightarrow> fatal + (mixed_state option \<times> elab_state)" where
  "elab_mixed_ports V cmp mc i [] ms s = Inr (Some ms, s)"
| "elab_mixed_ports V cmp mc i (mport # rest) ms s =
     (case elab_mixed_port V cmp mc i mport ms s of
        Inl e \<Rightarrow> Inl e
      | Inr (None, s') \<Rightarrow> Inr (None, s')
      | Inr (Some ms', s') \<Rightarrow> elab_mixed_ports V cmp mc (Suc i) rest ms' s')"

text \<open>The loop after the port loop: an error for each component port the mask does not hold.\<close>

fun report_missing_ports :: "component \<Rightarrow> vlog_module \<Rightarrow> bool list \<Rightarrow> nat list \<Rightarrow> elab_state \<Rightarrow> elab_state" where
  "report_missing_ports cmp m have [] s = s"
| "report_missing_ports cmp m have (i # is) s =
     report_missing_ports cmp m have is
       (if \<not> have ! i
        then diag_emit DIAG_ERROR (''port '' @ pd_ident (comp_ports cmp ! i)
                                   @ '' not found in Verilog module '' @ mod_ident2 m) s
        else s)"

definition elab_mixed_binding ::
  "vcollab \<Rightarrow> component \<Rightarrow> mod_cache \<Rightarrow> elab_state \<Rightarrow> fatal + (binding option \<times> elab_state)" where
  "elab_mixed_binding V cmp mc s =
     (let nports = length (comp_ports cmp);
          ms0 = \<lparr>ms_params = [], ms_have = replicate nports False, ms_have_named = False\<rparr>
      in case elab_mixed_ports V cmp mc 0 (vlog_decls (mc_module mc)) ms0 s of
           Inl e \<Rightarrow> Inl e
         | Inr (None, s') \<Rightarrow> Inr (None, s')
         | Inr (Some ms, s') \<Rightarrow>
             Inr (Some \<lparr>bind_ident = mod_ident (mc_module mc), bind_class = C_ENTITY,
                        bind_ref = mod_ident (mc_module mc), bind_params = ms_params ms\<rparr>,
                  report_missing_ports cmp (mc_module mc) (ms_have ms) [0..<nports] s'))"

text \<open>
  Whether a tree is a conversion that wraps the reference to a given port.
\<close>

definition is_converted_ref :: "tree \<Rightarrow> port_decl \<Rightarrow> bool" where
  "is_converted_ref t p = (case t of T_CONV_FUNC i ty f v \<Rightarrow> v = make_ref p | _ \<Rightarrow> False)"

text \<open>
  Sample collaborators for the coercion tables, and a sample component \<open>COUNTER\<close> with
  the ports \<open>CLK\<close>, \<open>Q\<close>, \<open>EN\<close> and \<open>EXTRA\<close>, bound to a Verilog module with the input
  \<open>CLK\<close>, the output \<open>Q\<close> and the input \<open>EN\<close>.
\<close>

definition sample_std_ulogic :: vtype where
  "sample_std_ulogic = Enum_type ''STD_ULOGIC'' [''U'', ''X'', ''0'', ''1'']"

definition sample_std_logic :: vtype where
  "sample_std_logic = Subtype sample_std_ulogic None"

definition sample_t_logic :: vtype where
  "sample_t_logic = Enum_type ''T_LOGIC'' [''X'', ''Z'', ''0'', ''1'']"

definition sample_t_net_value :: vtype where
  "sample_t_net_value = Enum_type ''T_NET_VALUE'' [''X'', ''Z'', ''0'', ''1'']"

definition sample_vcollab :: vcollab where
  "sample_vcollab =
     \<lparr>type_eq = (\<lambda>a b. type_base_recur a = type_base_recur b),
      ieee_type = (\<lambda>i. case i of IEEE_STD_ULOGIC \<Rightarrow> sample_std_ulogic
                               | IEEE_STD_LOGIC \<Rightarrow> sample_std_logic
                               | _ \<Rightarrow> Other_type ''VECTOR''),
      verilog_type = (\<lambda>v. case v of VERILOG_LOGIC \<Rightarrow> sample_t_logic
                                  | VERILOG_NET_VALUE \<Rightarrow> sample_t_net_value
                                  | _ \<Rightarrow> Other_type ''ARRAY''),
      verilog_func = (\<lambda>n. \<lparr>fd_ident = n,
                            fd_result = (if take 20 n = ''NVC.VERILOG.TO_VHDL(''
                                         then sample_std_ulogic else sample_t_logic)\<rparr>),
      T_LOGIC = ''19NVC.VERILOG.T_LOGIC'',
      T_NET_VALUE = ''23NVC.VERILOG.T_NET_VALUE''\<rparr>"

definition sample_to_verilog :: func_decl where
  "sample_to_verilog =
     \<lparr>fd_ident = ''NVC.VERILOG.TO_VERILOG(U)19NVC.VERILOG.T_LOGIC'', fd_result = sample_t_logic\<rparr>"

definition sample_to_vhdl :: func_decl where
  "sample_to_vhdl =
     \<lparr>fd_ident = ''NVC.VERILOG.TO_VHDL(19NVC.VERILOG.T_LOGIC)U'', fd_result = sample_std_ulogic\<rparr>"

definition sample_cport :: "ident \<Rightarrow> port_decl" where
  "sample_cport n = \<lparr>pd_ident = n, pd_type = sample_std_logic\<rparr>"

definition sample_vport :: "ident \<Rightarrow> port_decl" where
  "sample_vport n = \<lparr>pd_ident = n, pd_type = sample_t_logic\<rparr>"

definition sample_component :: component where
  "sample_component =
     \<lparr>comp_ident = ''COUNTER'',
      comp_ports = [sample_cport ''CLK'', sample_cport ''Q'', sample_cport ''EN'',
                    sample_cport ''EXTRA'']\<rparr>"

definition sample_mport :: "ident \<Rightarrow> vlog_subkind \<Rightarrow> vlog_node" where
  "sample_mport n k = \<lparr>vlog_kind = V_PORT_DECL, vlog_ident = n, vlog_ident2 = n, vlog_subkind = k\<rparr>"

definition sample_mod_cache :: mod_cache where
  "sample_mod_cache =
     \<lparr>mc_module = \<lparr>mod_ident = ''COUNTER'', mod_ident2 = ''counter'',
                    vlog_decls = [sample_mport ''CLK'' V_PORT_INPUT, sample_mport ''Q'' V_PORT_OUTPUT,
                                  sample_mport ''EN'' V_PORT_INPUT]\<rparr>,
      mc_block_ports = [sample_vport ''CLK'', sample_vport ''Q'', sample_vport ''EN'']\<rparr>"

definition sample_clk_param :: param where
  "sample_clk_param =
     \<lparr>p_subkind = P_POS, p_pos = 0,
      p_value = T_CONV_FUNC (fd_ident sample_to_verilog) sample_t_logic sample_to_verilog
                            (make_ref (sample_cport ''CLK'')),
      p_name = None\<rparr>"

definition sample_q_param :: param where
  "sample_q_param =
     \<lparr>p_subkind = P_NAMED, p_pos = 0,
      p_value = make_ref (sample_cport ''Q''),
      p_name = Some (T_CONV_FUNC (fd_ident sample_to_vhdl) sample_std_ulogic sample_to_vhdl
                                 (make_ref (sample_vport ''Q'')))\<rparr>"

definition sample_en_param :: param where
  "sample_en_param =
     \<lparr>p_subkind = P_NAMED, p_pos = 0,
      p_value = T_CONV_FUNC (fd_ident sample_to_verilog) sample_t_logic sample_to_verilog
                            (make_ref (sample_cport ''EN'')),
      p_name = Some (make_ref (sample_vport ''EN''))\<rparr>"

definition sample_binding :: binding where
  "sample_binding =
     \<lparr>bind_ident = ''COUNTER'', bind_class = C_ENTITY, bind_ref = ''COUNTER'',
      bind_params = [sample_clk_param, sample_q_param, sample_en_param]\<rparr>"

section \<open>The output tree\<close>

text \<open>
  A \<open>T_HIER\<close> declaration, as \<open>elab_push_scope\<close> adds it to a new block: the kind of the
  source tree, the instance name and the dotted name of the context.
\<close>

record hier =
  h_subkind :: tree_kind
  h_ident :: "ident option"
  h_ident2 :: "ident option"

text \<open>
  The output: a \<open>T_BLOCK\<close> with its identifier, generics, generic map, declarations
  (of which the model keeps the \<open>T_HIER\<close> ones) and statements, or a process or PSL
  directive copied from the input. Ports, port maps and other declarations are left
  out.
\<close>

datatype elab_tree =
    Elab_block ident "generic_decl list" "param list" "hier list" "elab_tree list"
  | Elab_stmt stmt

definition elab_push_scope :: "tree_kind \<Rightarrow> elab_ctx \<Rightarrow> hier" where
  "elab_push_scope k ctx = \<lparr>h_subkind = k, h_ident = inst_name ctx, h_ident2 = dotted ctx\<rparr>"

text \<open>
  The recursive call of \<open>elab_stmts\<close> on a nested body is a parameter \<open>rec\<close> of the
  functions below: it takes the context, the statements and the state, and returns
  \<open>None\<close> when it does not return, a fatal error, or the statements added to the output
  block and the new state.
\<close>

type_synonym elab_result = "(fatal + (elab_tree list \<times> elab_state)) option"

type_synonym elab_stmts_t = "elab_ctx \<Rightarrow> stmt list \<Rightarrow> elab_state \<Rightarrow> elab_result"

section \<open>For-generate statements\<close>

text \<open>
  Modelled from the spec: \<open>get_int_lit\<close> is a helper outside the elaboration source; it
  builds the integer literal with the given value, of the type of the declaration.
\<close>

definition get_int_lit :: "generic_decl \<Rightarrow> int \<Rightarrow> tree" where
  "get_int_lit g i = T_LITERAL L_INT (g_type g) i 0"

definition elab_eval_expr :: "collab \<Rightarrow> tree \<Rightarrow> elab_ctx \<Rightarrow> tree" where
  "elab_eval_expr C t ctx = eval_must_fold C ctx t"

text \<open>
  The bounds of a range given by a left and a right expression: the folded bounds when
  the range has them, else the integers the evaluated expressions are folded to, in
  ascending order; when one of them is not folded the error is recorded and both
  bounds are zero.
\<close>

definition elab_generate_bounds ::
  "collab \<Rightarrow> vrange \<Rightarrow> bool \<Rightarrow> tree \<Rightarrow> tree \<Rightarrow> elab_ctx \<Rightarrow> elab_state
     \<Rightarrow> fatal + ((int \<times> int) \<times> elab_state)" where
  "elab_generate_bounds C r asc l rt ctx s =
     (case folded_bounds C r of
        Some b \<Rightarrow> Inr (b, s)
      | None \<Rightarrow>
          (let left = elab_eval_expr C l ctx; right = elab_eval_expr C rt ctx
           in case folded_int C left of
                None \<Rightarrow> Inr ((0, 0), error_at ''generate range is not static'' s)
              | Some ileft \<Rightarrow>
                  (case folded_int C right of
                     None \<Rightarrow> Inr ((0, 0), error_at ''generate range is not static'' s)
                   | Some iright \<Rightarrow>
                       Inr ((if asc then ileft else iright, if asc then iright else ileft), s))))"

definition elab_generate_range ::
  "collab \<Rightarrow> vrange \<Rightarrow> elab_ctx \<Rightarrow> elab_state \<Rightarrow> fatal + ((int \<times> int) \<times> elab_state)" where
  "elab_generate_range C r ctx s =
     (case r of
        Range_expr ty v \<Rightarrow>
          (case v of
             T_ATTR_REF k t nm \<Rightarrow>
               (case folded_int C (elab_eval_expr C (T_ATTR_REF ATTR_LOW ty nm) ctx) of
                  Some low \<Rightarrow>
                    (case folded_int C (elab_eval_expr C (T_ATTR_REF ATTR_HIGH ty nm) ctx) of
                       Some high \<Rightarrow> Inr ((low, high), s)
                     | None \<Rightarrow> Inr ((0, 0), error_at ''generate range is not static'' s))
                | None \<Rightarrow> Inr ((0, 0), error_at ''generate range is not static'' s))
           | _ \<Rightarrow> Inl (Assert_failed ''tree_kind(value) == T_ATTR_REF''))
      | Range_to l rt \<Rightarrow> elab_generate_bounds C r True l rt ctx s
      | Range_downto l rt \<Rightarrow> elab_generate_bounds C r False l rt ctx s)"

text \<open>
  One turn of the loop of \<open>elab_for_generate\<close>, for the value \<open>i\<close> of the generate
  parameter \<open>g\<close> of the statement with label \<open>base\<close> and statements \<open>body\<close>. The block is
  made and added to the output whatever the error count is; its body is elaborated
  only when no error has been recorded.
\<close>

definition generate_block_name :: "ident \<Rightarrow> int \<Rightarrow> ident" where
  "generate_block_name base i = base @ ''('' @ PRIi64 i @ '')''"

definition generate_map :: "generic_decl \<Rightarrow> int \<Rightarrow> param" where
  "generate_map g i = \<lparr>p_subkind = P_POS, p_pos = 0, p_value = get_int_lit g i, p_name = None\<rparr>"

definition generate_ctx :: "ident \<Rightarrow> elab_ctx \<Rightarrow> int \<Rightarrow> elab_ctx" where
  "generate_ctx base ctx i =
     elab_inherit_context
       (new_ctx None
          (Some (hpathf (inst_name ctx) (CHR '':'') (base @ ''('' @ PRIi64 i @ '')'')))
          (Some (ident_prefix (dotted ctx) (generate_block_name base i) (CHR ''.''))))
       ctx"

definition elab_generate_block ::
  "collab \<Rightarrow> elab_stmts_t \<Rightarrow> ident \<Rightarrow> generic_decl \<Rightarrow> stmt list \<Rightarrow> elab_ctx \<Rightarrow> int \<Rightarrow> elab_state
     \<Rightarrow> (fatal + (elab_tree \<times> elab_state)) option" where
  "elab_generate_block C rec base g body ctx i s =
     (let id = generate_block_name base i;
          gmap = generate_map g i;
          nctx = generate_ctx base ctx i;
          h = elab_push_scope T_FOR_GENERATE nctx;
          copy = simplify_global C [(g, p_value gmap)] body
      in if error_count s = 0 then
           (case rec nctx copy s of
              None \<Rightarrow> None
            | Some (Inl e) \<Rightarrow> Some (Inl e)
            | Some (Inr (stmts, s')) \<Rightarrow> Some (Inr (Elab_block id [g] [gmap] [h] stmts, s')))
         else Some (Inr (Elab_block id [g] [gmap] [h] [], s)))"

fun elab_generate_blocks ::
  "collab \<Rightarrow> elab_stmts_t \<Rightarrow> ident \<Rightarrow> generic_decl \<Rightarrow> stmt list \<Rightarrow> elab_ctx \<Rightarrow> int list \<Rightarrow> elab_state
     \<Rightarrow> elab_result" where
  "elab_generate_blocks C rec base g body ctx [] s = Some (Inr ([], s))"
| "elab_generate_blocks C rec base g body ctx (i # is) s =
     (case elab_generate_block C rec base g body ctx i s of
        None \<Rightarrow> None
      | Some (Inl e) \<Rightarrow> Some (Inl e)
      | Some (Inr (b, s')) \<Rightarrow>
          (case elab_generate_blocks C rec base g body ctx is s' of
             None \<Rightarrow> None
           | Some (Inl e) \<Rightarrow> Some (Inl e)
           | Some (Inr (bs, s'')) \<Rightarrow> Some (Inr (b # bs, s''))))"

text \<open>
  \<open>elab_for_generate\<close>: the loop counter is an \<open>int64_t\<close> that runs from \<open>low\<close> to \<open>high\<close>;
  the model runs over the integers from \<open>low\<close> to \<open>high\<close>, which is the same unless
  \<open>high\<close> is the greatest \<open>int64_t\<close>.
\<close>

definition elab_for_generate ::
  "collab \<Rightarrow> elab_stmts_t \<Rightarrow> ident \<Rightarrow> vrange \<Rightarrow> generic_decl \<Rightarrow> stmt list \<Rightarrow> elab_ctx \<Rightarrow> elab_state
     \<Rightarrow> elab_result" where
  "elab_for_generate C rec base r g body ctx s =
     (case elab_generate_range C r ctx s of
        Inl e \<Rightarrow> Some (Inl e)
      | Inr ((low, high), s1) \<Rightarrow> elab_generate_blocks C rec base g body ctx [low..high] s1)"

text \<open>
  Samples for for-generate: the generate parameter \<open>I\<close>, a body elaboration that adds
  nothing, one that does not return, the block expected for an index below the sample
  instance, without statements and with the process \<open>P\<close>, and a reference to a signal,
  which is not static.
\<close>

definition sample_genvar :: generic_decl where
  "sample_genvar = sample_generic ''I'' sample_integer None"

definition sample_rec_nothing :: elab_stmts_t where
  "sample_rec_nothing = (\<lambda>c b st. Some (Inr ([], st)))"

definition sample_rec_never :: elab_stmts_t where
  "sample_rec_never = (\<lambda>c b st. None)"

definition sample_gen_block :: "int \<Rightarrow> elab_tree" where
  "sample_gen_block i =
     Elab_block (''GEN('' @ PRIi64 i @ '')'') [sample_genvar]
       [\<lparr>p_subkind = P_POS, p_pos = 0, p_value = sample_lit i, p_name = None\<rparr>]
       [\<lparr>h_subkind = T_FOR_GENERATE,
         h_ident = Some ('':top(rtl):u1@sub(rtl):gen('' @ PRIi64 i @ '')''),
         h_ident2 = Some (''WORK.TOP.U1.GEN('' @ PRIi64 i @ '')'')\<rparr>]
       []"


definition sample_signal_ref :: tree where
  "sample_signal_ref =
     T_REF (Some sample_integer) ''N'' \<lparr>d_kind = T_SIGNAL_DECL, d_ident = ''N'', d_pos = 0\<rparr>"

definition sample_not_static :: elab_state where
  "sample_not_static =
     \<lparr>diags = [\<lparr>level = DIAG_ERROR, text_of = ''generate range is not static''\<rparr>],
      generic_override = []\<rparr>"

section \<open>Blocks, instances and architectures\<close>

text \<open>
  The tree that \<open>elab_architecture\<close> is given as binding: a \<open>T_BINDING\<close>, or the
  \<open>T_INSTANCE\<close> statement itself; its kind, identifier and generic map.
\<close>

record bind_t =
  bt_kind :: tree_kind
  bt_ident :: ident
  bt_genmaps :: "param list"

definition set_library :: "elab_ctx \<Rightarrow> lib \<Rightarrow> elab_ctx" where
  "set_library ctx lb = Elab_ctx (parent ctx) (inst ctx) (inst_name ctx) (dotted ctx) (Some lb) (depth ctx)"

definition set_inst_name :: "elab_ctx \<Rightarrow> ident \<Rightarrow> elab_ctx" where
  "set_inst_name ctx n = Elab_ctx (parent ctx) (inst ctx) (Some n) (dotted ctx) (library ctx) (depth ctx)"

text \<open>
  \<open>elab_architecture\<close>: a new block named by the label, in a child context; the generics
  of the entity are resolved against the binding; the statements of the entity and of
  the architecture are elaborated only when no error has been recorded. Copying,
  instance fixup, ports, declarations, drivers and lowering are left out; they record
  no diagnostics in the elaboration source.
\<close>

definition elab_architecture ::
  "collab \<Rightarrow> elab_stmts_t \<Rightarrow> bind_t \<Rightarrow> design_unit \<Rightarrow> elab_ctx \<Rightarrow> elab_state \<Rightarrow> elab_result" where
  "elab_architecture C rec bind arch ctx s =
     (if bt_kind bind \<noteq> T_BINDING \<and> bt_kind bind \<noteq> T_INSTANCE then
        Some (Inl (Fatal_trace ''unexpected binding kind in elab_architecture''))
      else
        (case arch of
           Arch aid aid2 aloc primary astmts \<Rightarrow>
             (case primary of
                Entity eid eloc egenerics estmts \<Rightarrow>
                  (let label = (if bt_kind bind = T_BINDING then ident_rfrom eid (CHR ''.'')
                                else bt_ident bind);
                       i = (if bt_kind bind = T_BINDING then None else Some (bt_ident bind));
                       ninst = (if bt_kind bind = T_BINDING then None
                                else Some (hpathf (inst_name ctx) (CHR '':'')
                                             (label @ ''@'' @ simple_name aid2
                                              @ ''('' @ simple_name aid @ '')'')));
                       ndotted = ident_prefix (dotted ctx) label (CHR ''.'');
                       nctx0 = elab_inherit_context (new_ctx i ninst (Some ndotted)) ctx
                   in case lib_require C (ident_until aid (CHR ''.'')) of
                        None \<Rightarrow> Some (Inl (Fatal ''lib_require''))
                      | Some lb \<Rightarrow>
                          (let nctx = set_library nctx0 lb;
                               h = elab_push_scope T_ARCH nctx
                           in case elab_generics C egenerics (bt_genmaps bind) nctx s of
                                Inl e \<Rightarrow> Some (Inl e)
                              | Inr (gout, s1) \<Rightarrow>
                                  if error_count s1 = 0 then
                                    (case rec nctx estmts s1 of
                                       None \<Rightarrow> None
                                     | Some (Inl e) \<Rightarrow> Some (Inl e)
                                     | Some (Inr (o1, s2)) \<Rightarrow>
                                         (case rec nctx (simplify_global C (ctx_generics gout) astmts) s2 of
                                            None \<Rightarrow> None
                                          | Some (Inl e) \<Rightarrow> Some (Inl e)
                                          | Some (Inr (o2, s3)) \<Rightarrow>
                                              Some (Inr ([Elab_block label (out_generics gout)
                                                            (out_genmaps gout) [h] (o1 @ o2)], s3))))
                                  else
                                    Some (Inr ([Elab_block label (out_generics gout)
                                                  (out_genmaps gout) [h] []], s1))))
              | _ \<Rightarrow> Some (Inl (Assert_failed ''tree_primary'')))
         | _ \<Rightarrow> Some (Inl (Assert_failed ''tree_kind(arch) == T_ARCH''))))"

text \<open>
  \<open>elab_instance\<close>, for the instance with the given label, referenced unit, generic map
  and location.
\<close>

definition elab_instance ::
  "collab \<Rightarrow> elab_stmts_t \<Rightarrow> ident \<Rightarrow> ident \<Rightarrow> param list \<Rightarrow> loc \<Rightarrow> elab_ctx \<Rightarrow> elab_state
     \<Rightarrow> elab_result" where
  "elab_instance C rec label rf genmaps lc ctx s =
     (if depth ctx = MAX_DEPTH then
        Some (Inr ([], diag_emit DIAG_ERROR ''maximum instantiation depth of 127 reached'' s))
      else
        (case tree_ref C rf of
           None \<Rightarrow> Some (Inl (Assert_failed ''tree_ref''))
         | Some u \<Rightarrow>
             (let bind = \<lparr>bt_kind = T_INSTANCE, bt_ident = label, bt_genmaps = genmaps\<rparr>
              in case unit_kind u of
                   T_ENTITY \<Rightarrow>
                     (case elab_pick_arch (lib_require C) lc u ctx s of
                        Inl e \<Rightarrow> Some (Inl e)
                      | Inr (None, s1) \<Rightarrow> Some (Inl (Assert_failed ''lib_get''))
                      | Inr (Some arch, s1) \<Rightarrow> elab_architecture C rec bind arch ctx s1)
                 | T_ARCH \<Rightarrow> elab_architecture C rec bind u ctx s
                 | T_COMPONENT \<Rightarrow> Some (Inl (Unmodelled ''elab_component''))
                 | T_CONFIGURATION \<Rightarrow> Some (Inl (Unmodelled ''configuration''))
                 | _ \<Rightarrow> Some (Inl (Fatal_trace ''unexpected tree kind in elab_instance'')))))"

text \<open>
  \<open>elab_block\<close>: the statements of the block are elaborated only when resolving its
  generics recorded no new error.
\<close>

definition elab_block ::
  "collab \<Rightarrow> elab_stmts_t \<Rightarrow> ident \<Rightarrow> generic_decl list \<Rightarrow> param list \<Rightarrow> stmt list \<Rightarrow> elab_ctx
     \<Rightarrow> elab_state \<Rightarrow> elab_result" where
  "elab_block C rec label generics genmaps body ctx s =
     (let ninst = hpathf (inst_name ctx) (CHR '':'') label;
          ndotted = ident_prefix (dotted ctx) label (CHR ''.'');
          nctx = elab_inherit_context (new_ctx None (Some ninst) (Some ndotted)) ctx;
          base_errors = error_count s;
          h = elab_push_scope T_BLOCK nctx
      in case elab_generics C generics genmaps nctx s of
           Inl e \<Rightarrow> Some (Inl e)
         | Inr (gout, s1) \<Rightarrow>
             if error_count s1 = base_errors then
               (case rec nctx body s1 of
                  None \<Rightarrow> None
                | Some (Inl e) \<Rightarrow> Some (Inl e)
                | Some (Inr (stmts, s2)) \<Rightarrow>
                    Some (Inr ([Elab_block label (out_generics gout) (out_genmaps gout) [h] stmts], s2)))
             else
               Some (Inr ([Elab_block label (out_generics gout) (out_genmaps gout) [h] []], s1)))"

section \<open>The statement loop\<close>

text \<open>
  The dispatch of \<open>elab_stmts\<close> on the kind of a statement. A process or PSL directive
  is added to the output as it is.
\<close>

definition elab_stmt :: "collab \<Rightarrow> elab_stmts_t \<Rightarrow> stmt \<Rightarrow> elab_ctx \<Rightarrow> elab_state \<Rightarrow> elab_result" where
  "elab_stmt C rec st ctx s =
     (case st of
        Instance label rf genmaps lc \<Rightarrow> elab_instance C rec label rf genmaps lc ctx s
      | Block label generics genmaps body \<Rightarrow> elab_block C rec label generics genmaps body ctx s
      | For_generate label r g body \<Rightarrow> elab_for_generate C rec label r g body ctx s
      | Process label \<Rightarrow> Some (Inr ([Elab_stmt st], s))
      | Psl_direct label \<Rightarrow> Some (Inr ([Elab_stmt st], s))
      | Stmt k label \<Rightarrow>
          if k = T_IF_GENERATE \<or> k = T_CASE_GENERATE \<or> k = T_VERILOG
          then Some (Inl (Unmodelled ''generate or Verilog statement''))
          else Some (Inl (Fatal_trace ''unexpected statement'')))"

fun elab_stmts_loop ::
  "(stmt \<Rightarrow> elab_ctx \<Rightarrow> elab_state \<Rightarrow> elab_result) \<Rightarrow> elab_ctx \<Rightarrow> stmt list \<Rightarrow> elab_state
     \<Rightarrow> elab_result" where
  "elab_stmts_loop f ctx [] s = Some (Inr ([], s))"
| "elab_stmts_loop f ctx (st # rest) s =
     (case f st ctx s of
        None \<Rightarrow> None
      | Some (Inl e) \<Rightarrow> Some (Inl e)
      | Some (Inr (o1, s1)) \<Rightarrow>
          (case elab_stmts_loop f ctx rest s1 of
             None \<Rightarrow> None
           | Some (Inl e) \<Rightarrow> Some (Inl e)
           | Some (Inr (o2, s2)) \<Rightarrow> Some (Inr (o1 @ o2, s2))))"

text \<open>
  \<open>elab_stmts\<close> with fuel: each nested body takes one unit, and without fuel the
  function does not return.
\<close>

primrec elab_stmts :: "collab \<Rightarrow> nat \<Rightarrow> elab_ctx \<Rightarrow> stmt list \<Rightarrow> elab_state \<Rightarrow> elab_result" where
  "elab_stmts C 0 = (\<lambda>ctx ss s. None)"
| "elab_stmts C (Suc n) = elab_stmts_loop (elab_stmt C (elab_stmts C n))"

section \<open>The root drivers\<close>

text \<open>
  The generic map of the top-level binding: predefined generics are skipped, a generic
  that is not a constant is an error, and the value is the override if there is one,
  else the default, else an error. Ports are left out.
\<close>

fun top_level_genmaps ::
  "collab \<Rightarrow> elab_ctx \<Rightarrow> nat \<Rightarrow> generic_decl list \<Rightarrow> param list \<Rightarrow> elab_state
     \<Rightarrow> fatal + (param list \<times> elab_state)" where
  "top_level_genmaps C ctx i [] maps s = Inr (maps, s)"
| "top_level_genmaps C ctx i (g # gs) maps s =
     (if g_predefined g then top_level_genmaps C ctx (Suc i) gs maps s
      else if g_class g \<noteq> C_CONSTANT then
        top_level_genmaps C ctx (Suc i) gs maps
          (error_at ''only constant top-level generics are supported'' s)
      else
        (case elab_find_generic_override C g ctx s of
           Inl e \<Rightarrow> Inl e
         | Inr (override, s1) \<Rightarrow>
             (case (case override of Some v \<Rightarrow> Some v | None \<Rightarrow> g_value g) of
                None \<Rightarrow>
                  top_level_genmaps C ctx (Suc i) gs maps
                    (error_at (''generic '' @ g_ident g @ '' of top-level entity must have default ''
                               @ ''value or be specified using -gNAME=VALUE'') s1)
              | Some v \<Rightarrow>
                  top_level_genmaps C ctx (Suc i) gs
                    (maps @ [\<lparr>p_subkind = P_POS, p_pos = i, p_value = v, p_name = None\<rparr>]) s1)))"

definition elab_top_level_binding ::
  "collab \<Rightarrow> design_unit \<Rightarrow> elab_ctx \<Rightarrow> elab_state \<Rightarrow> fatal + (bind_t \<times> elab_state)" where
  "elab_top_level_binding C arch ctx s =
     (case arch of
        Arch aid aid2 aloc primary astmts \<Rightarrow>
          (case primary of
             Entity eid eloc egenerics estmts \<Rightarrow>
               (case top_level_genmaps C ctx 0 egenerics [] s of
                  Inl e \<Rightarrow> Inl e
                | Inr (maps, s1) \<Rightarrow>
                    Inr (\<lparr>bt_kind = T_BINDING, bt_ident = aid, bt_genmaps = maps\<rparr>, s1))
           | _ \<Rightarrow> Inl (Assert_failed ''tree_primary''))
      | _ \<Rightarrow> Inl (Assert_failed ''tree_primary''))"

definition elab_vhdl_root_cb ::
  "collab \<Rightarrow> elab_stmts_t \<Rightarrow> design_unit \<Rightarrow> loc \<Rightarrow> elab_ctx \<Rightarrow> elab_state \<Rightarrow> elab_result" where
  "elab_vhdl_root_cb C rec vhdl root_loc ctx s =
     (case (case unit_kind vhdl of
              T_ENTITY \<Rightarrow>
                (case elab_pick_arch (lib_require C) root_loc vhdl ctx s of
                   Inl e \<Rightarrow> Inl e
                 | Inr (None, s1) \<Rightarrow> Inl (Assert_failed ''lib_get'')
                 | Inr (Some a, s1) \<Rightarrow> Inr (a, s1))
            | T_ARCH \<Rightarrow> Inr (vhdl, s)
            | T_CONFIGURATION \<Rightarrow> Inl (Unmodelled ''configuration'')
            | _ \<Rightarrow> Inl (Fatal (unit_ident vhdl @ '' is not a suitable top-level unit''))) of
        Inl e \<Rightarrow> Some (Inl e)
      | Inr (arch, s1) \<Rightarrow>
          (case arch of
             Arch aid aid2 aloc primary astmts \<Rightarrow>
               (let ctx1 = set_inst_name ctx
                             (hpathf None (CHR '':'')
                                ('':'' @ simple_name aid2 @ ''('' @ simple_name aid @ '')''))
                in case elab_top_level_binding C arch ctx1 s1 of
                     Inl e \<Rightarrow> Some (Inl e)
                   | Inr (bind, s2) \<Rightarrow>
                       if error_count s2 = 0 then elab_architecture C rec bind arch ctx1 s2
                       else Some (Inr ([], s2)))
           | _ \<Rightarrow> Some (Inl (Assert_failed ''tree_ident2(arch)''))))"

text \<open>
  The top-level object, a VHDL design unit, a Verilog module or neither, with its
  location; and the \<open>T_ELAB\<close> tree: its identifier and its statements.
\<close>

datatype top_object =
    Top_vhdl design_unit loc
  | Top_vlog vlog_module loc
  | Top_other loc

record elab_out =
  e_ident :: ident
  e_stmts :: "elab_tree list"

fun warn_unused :: "generic_list list \<Rightarrow> elab_state \<Rightarrow> elab_state" where
  "warn_unused [] s = s"
| "warn_unused (it # rest) s =
     warn_unused rest (warnf (''generic value for '' @ gl_name it @ '' not used'') s)"

text \<open>
  \<open>elab\<close>. The two root callbacks are parameters: the function hands one of them to
  \<open>call_with_model\<close> with the root context, whose output block is the \<open>T_ELAB\<close> tree.
  What follows the callback is the source's: a null result when the error count is
  not zero, else the warnings for the overrides left in the list, and the tree.
\<close>

definition root_ctx :: "lib \<Rightarrow> elab_ctx" where
  "root_ctx work = Elab_ctx None None None (Some (lib_name work)) (Some work) 0"

definition elab_name :: "top_object \<Rightarrow> ident option" where
  "elab_name tp =
     (case tp of
        Top_vhdl u l \<Rightarrow> Some (ident_prefix (Some (unit_ident u)) ''elab'' (CHR ''.''))
      | Top_vlog m l \<Rightarrow> Some (ident_prefix (Some (mod_ident m)) ''elab'' (CHR ''.''))
      | Top_other l \<Rightarrow> None)"

definition call_root_cb ::
  "(elab_ctx \<Rightarrow> elab_state \<Rightarrow> elab_result) \<Rightarrow> (elab_ctx \<Rightarrow> elab_state \<Rightarrow> elab_result) \<Rightarrow> top_object
     \<Rightarrow> lib \<Rightarrow> elab_state \<Rightarrow> elab_result" where
  "call_root_cb vhdl_root_cb verilog_root_cb tp work s =
     (case tp of
        Top_vhdl u l \<Rightarrow> vhdl_root_cb (root_ctx work) s
      | _ \<Rightarrow> verilog_root_cb (root_ctx work) s)"

definition elab ::
  "(elab_ctx \<Rightarrow> elab_state \<Rightarrow> elab_result) \<Rightarrow> (elab_ctx \<Rightarrow> elab_state \<Rightarrow> elab_result) \<Rightarrow> top_object
     \<Rightarrow> lib \<Rightarrow> elab_state \<Rightarrow> (fatal + (elab_out option \<times> elab_state)) option" where
  "elab vhdl_root_cb verilog_root_cb tp work s =
     (case elab_name tp of
        None \<Rightarrow> Some (Inl (Fatal ''top level is not a VHDL design unit or Verilog module''))
      | Some name \<Rightarrow>
          (case call_root_cb vhdl_root_cb verilog_root_cb tp work s of
             None \<Rightarrow> None
           | Some (Inl e) \<Rightarrow> Some (Inl e)
           | Some (Inr (stmts, s1)) \<Rightarrow>
               if error_count s1 > 0 then Some (Inr (None, s1))
               else
                 (let s2 = warn_unused (generic_override s1) s1
                  in case stmts of
                       [] \<Rightarrow> Some (Inl (Assert_failed ''tree_stmt(e, 0)''))
                     | b # bs \<Rightarrow> Some (Inr (Some \<lparr>e_ident = name, e_stmts = stmts\<rparr>, s2)))))"

text \<open>
  The driver on a VHDL top-level unit with the VHDL root callback of the source, for a
  given amount of fuel. The Verilog root callback is not modelled.
\<close>

definition elab_vhdl ::
  "collab \<Rightarrow> nat \<Rightarrow> design_unit \<Rightarrow> loc \<Rightarrow> lib \<Rightarrow> elab_state
     \<Rightarrow> (fatal + (elab_out option \<times> elab_state)) option" where
  "elab_vhdl C n u l work s =
     elab (elab_vhdl_root_cb C (elab_stmts C n) u l)
          (\<lambda>ctx s. Some (Inl (Unmodelled ''elab_verilog_root_cb'')))
          (Top_vhdl u l) work s"

text \<open>
  Sample designs: a library \<open>WORK\<close> that holds the entity \<open>TOP\<close>, with given generics,
  and its architecture \<open>RTL\<close>, with given statements; the collaborators that know this
  library; and the instance statement by which \<open>TOP\<close> instantiates itself.
\<close>

definition design_entity :: "generic_decl list \<Rightarrow> design_unit" where
  "design_entity gs = Entity ''WORK.TOP'' \<lparr>file_ref = 1, first_line = 1\<rparr> gs []"

definition design_arch :: "generic_decl list \<Rightarrow> stmt list \<Rightarrow> design_unit" where
  "design_arch gs ss =
     Arch ''WORK.TOP-RTL'' ''WORK.TOP'' \<lparr>file_ref = 1, first_line = 5\<rparr> (design_entity gs) ss"

definition design_lib :: "generic_decl list \<Rightarrow> stmt list \<Rightarrow> lib" where
  "design_lib gs ss =
     \<lparr>lib_name = ''WORK'',
      lib_index = [(''WORK.TOP'', T_ENTITY), (''WORK.TOP-RTL'', T_ARCH)],
      lib_get_mtime = (\<lambda>n. 10),
      lib_get = (\<lambda>n. if n = ''WORK.TOP'' then Some (design_entity gs)
                      else if n = ''WORK.TOP-RTL'' then Some (design_arch gs ss)
                      else None)\<rparr>"

definition design_collab :: "generic_decl list \<Rightarrow> stmt list \<Rightarrow> collab" where
  "design_collab gs ss =
     sample_collab\<lparr>lib_require := (\<lambda>n. if n = ''WORK'' then Some (design_lib gs ss) else None),
                   tree_ref := lib_get (design_lib gs ss)\<rparr>"

definition self_instance :: stmt where
  "self_instance = Instance ''U'' ''WORK.TOP'' [] \<lparr>file_ref = 1, first_line = 7\<rparr>"

definition elab_design :: "nat \<Rightarrow> generic_decl list \<Rightarrow> stmt list \<Rightarrow> elab_state
     \<Rightarrow> (fatal + (elab_out option \<times> elab_state)) option" where
  "elab_design n gs ss s =
     elab_vhdl (design_collab gs ss) n (design_entity gs) \<lparr>file_ref = 1, first_line = 1\<rparr>
       (design_lib gs ss) s"

definition sample_missing_generic :: elab_state where
  "sample_missing_generic =
     \<lparr>diags = [\<lparr>level = DIAG_ERROR,
                text_of = ''generic N of top-level entity must have default value or be specified using -gNAME=VALUE''\<rparr>],
      generic_override = [\<lparr>gl_name = ''UNUSED'', gl_value = ''7''\<rparr>]\<rparr>"

definition sample_top_block :: elab_tree where
  "sample_top_block =
     Elab_block ''TOP'' [] []
       [\<lparr>h_subkind = T_ARCH, h_ident = Some '':top(rtl)'', h_ident2 = Some ''WORK.TOP''\<rparr>]
       [Elab_stmt (Process ''P'')]"

text \<open>
  The body of an architecture of \<open>TOP\<close> that instantiates \<open>TOP\<close> inside a block,
  \<open>b: block begin u: entity work.top; end block;\<close>; a context at the depth cap; and the
  state after the one diagnostic of the cap.
\<close>

definition block_design :: "stmt list" where
  "block_design = [Block ''B'' [] [] [self_instance]]"

definition sample_deep_ctx :: elab_ctx where
  "sample_deep_ctx = Elab_ctx None None None (Some ''WORK.TOP'') None 127"

definition sample_depth_error :: elab_state where
  "sample_depth_error =
     \<lparr>diags = [\<lparr>level = DIAG_ERROR, text_of = ''maximum instantiation depth of 127 reached''\<rparr>],
      generic_override = []\<rparr>"

definition direct_design :: "stmt list" where
  "direct_design = [self_instance]"
section \<open>Properties of override registration\<close>

lemma elab_set_generic_present:
  assumes "nm \<in> gl_name ` set go"
  shows "\<exists>m. elab_set_generic nm val go = Inl (Fatal m)"
proof -
  from assms obtain it where "find (\<lambda>it. gl_name it = nm) go = Some it"
    by (cases "find (\<lambda>it. gl_name it = nm) go") (auto simp: find_None_iff)
  then show ?thesis by (simp add: elab_set_generic_def)
qed

lemma elab_set_generic_distinct:
  assumes "distinct (map gl_name go)" and "elab_set_generic nm val go = Inr go'"
  shows "distinct (map gl_name go')"
proof -
  from assms(2) have none: "find (\<lambda>it. gl_name it = nm) go = None"
    and eq: "go' = \<lparr>gl_name = nm, gl_value = val\<rparr> # go"
    by (auto simp: elab_set_generic_def split: option.splits)
  from none have "nm \<notin> gl_name ` set go"
    by (auto simp: find_None_iff)
  with assms(1) eq show ?thesis by simp
qed

lemma set_generics_distinct:
  "distinct (map gl_name go) \<Longrightarrow> set_generics regs go = Inr go' \<Longrightarrow> distinct (map gl_name go')"
proof (induction regs arbitrary: go)
  case Nil
  then show ?case by simp
next
  case (Cons r regs)
  obtain n v where r: "r = (n, v)" by (cases r)
  from Cons.prems(2) r obtain go1 where
    step: "elab_set_generic n v go = Inr go1" and rest: "set_generics regs go1 = Inr go'"
    by (auto split: sum.splits)
  from elab_set_generic_distinct [OF Cons.prems(1) step] have "distinct (map gl_name go1)" .
  from Cons.IH [OF this rest] show ?case .
qed

lemma distinct_matching_le_one:
  "distinct (map gl_name go) \<Longrightarrow> length (matching_overrides q go) \<le> 1"
proof (induction go)
  case Nil
  then show ?case by (simp add: matching_overrides_def)
next
  case (Cons a go)
  show ?case
  proof (cases "gl_name a = q")
    case True
    with Cons.prems have "q \<notin> gl_name ` set go" by simp
    then have "\<forall>x \<in> set go. gl_name x \<noteq> q" by blast
    then have "filter (\<lambda>it. gl_name it = q) go = []"
      by (simp add: filter_empty_conv)
    with True show ?thesis by (simp add: matching_overrides_def)
  next
    case False
    with Cons show ?thesis by (simp add: matching_overrides_def)
  qed
qed

text \<open>
  Claim C10. Registering a name that the override table already holds is fatal with
  the message "generic ... already has value ..."; hence a table built by registrations
  from the empty table never holds one name twice, and at most one of its entries has
  a given fully qualified name.
\<close>

theorem elab_set_generic_no_duplicates:
  "(nm \<in> gl_name ` set go \<longrightarrow>
      (\<exists>it \<in> set go. gl_name it = nm \<and>
         elab_set_generic nm val go =
           Inl (Fatal (''generic '' @ nm @ '' already has value '' @ [CHR 0x27]
                       @ gl_value it @ [CHR 0x27]))))
   \<and> (nm \<notin> gl_name ` set go \<longrightarrow>
         elab_set_generic nm val go = Inr (\<lparr>gl_name = nm, gl_value = val\<rparr> # go))
   \<and> (set_generics regs [] = Inr tbl \<longrightarrow>
         distinct (map gl_name tbl) \<and> length (matching_overrides q tbl) \<le> 1)"
proof (intro conjI impI)
  assume "nm \<in> gl_name ` set go"
  then obtain it where f: "find (\<lambda>it. gl_name it = nm) go = Some it"
    by (cases "find (\<lambda>it. gl_name it = nm) go") (auto simp: find_None_iff)
  then have "it \<in> set go" and "gl_name it = nm"
    by (auto simp: find_Some_iff)
  with f show "\<exists>it \<in> set go. gl_name it = nm \<and>
         elab_set_generic nm val go =
           Inl (Fatal (''generic '' @ nm @ '' already has value '' @ [CHR 0x27]
                       @ gl_value it @ [CHR 0x27]))"
    by (auto simp: elab_set_generic_def)
next
  assume "nm \<notin> gl_name ` set go"
  then have "find (\<lambda>it. gl_name it = nm) go = None"
    by (auto simp: find_None_iff)
  then show "elab_set_generic nm val go = Inr (\<lparr>gl_name = nm, gl_value = val\<rparr> # go)"
    by (simp add: elab_set_generic_def)
next
  assume a: "set_generics regs [] = Inr tbl"
  have "distinct (map gl_name ([] :: generic_list list))" by simp
  from set_generics_distinct [OF this a] show "distinct (map gl_name tbl)" .
next
  assume a: "set_generics regs [] = Inr tbl"
  have "distinct (map gl_name ([] :: generic_list list))" by simp
  from set_generics_distinct [OF this a] have "distinct (map gl_name tbl)" .
  then show "length (matching_overrides q tbl) \<le> 1"
    by (rule distinct_matching_le_one)
qed

theorem elab_set_generic_no_duplicates_witness:
  "elab_set_generic ''WIDTH'' ''16'' [\<lparr>gl_name = ''WIDTH'', gl_value = ''8''\<rparr>]
     = Inl (Fatal (''generic WIDTH already has value '' @ [CHR 0x27] @ ''8'' @ [CHR 0x27]))
   \<and> elab_set_generic ''DEPTH'' ''4'' [\<lparr>gl_name = ''WIDTH'', gl_value = ''8''\<rparr>]
     = Inr [\<lparr>gl_name = ''DEPTH'', gl_value = ''4''\<rparr>, \<lparr>gl_name = ''WIDTH'', gl_value = ''8''\<rparr>]
   \<and> set_generics [(''WIDTH'', ''8''), (''DEPTH'', ''4'')] []
     = Inr [\<lparr>gl_name = ''DEPTH'', gl_value = ''4''\<rparr>, \<lparr>gl_name = ''WIDTH'', gl_value = ''8''\<rparr>]
   \<and> distinct (map gl_name
         [\<lparr>gl_name = ''DEPTH'', gl_value = ''4''\<rparr>, \<lparr>gl_name = ''WIDTH'', gl_value = ''8''\<rparr>])
   \<and> length (matching_overrides ''WIDTH''
         [\<lparr>gl_name = ''DEPTH'', gl_value = ''4''\<rparr>, \<lparr>gl_name = ''WIDTH'', gl_value = ''8''\<rparr>]) \<le> 1"
proof -
  let ?w = "\<lparr>gl_name = ''WIDTH'', gl_value = ''8''\<rparr>"
  let ?d = "\<lparr>gl_name = ''DEPTH'', gl_value = ''4''\<rparr>"
  have present: "''WIDTH'' \<in> gl_name ` set [?w]" by simp
  have absent: "''DEPTH'' \<notin> gl_name ` set [?w]" by simp
  have regs: "set_generics [(''WIDTH'', ''8''), (''DEPTH'', ''4'')] [] = Inr [?d, ?w]"
    by (simp add: elab_set_generic_def)
  from elab_set_generic_no_duplicates [of "''WIDTH''" "[?w]" "''16''"] present
  have a: "elab_set_generic ''WIDTH'' ''16'' [?w]
             = Inl (Fatal (''generic WIDTH already has value '' @ [CHR 0x27] @ ''8'' @ [CHR 0x27]))"
    by simp
  from elab_set_generic_no_duplicates [of "''DEPTH''" "[?w]" "''4''"] absent
  have b: "elab_set_generic ''DEPTH'' ''4'' [?w] = Inr [?d, ?w]"
    by simp
  from elab_set_generic_no_duplicates
         [of "''X''" "[]" "''0''" "[(''WIDTH'', ''8''), (''DEPTH'', ''4'')]" "[?d, ?w]" "''WIDTH''"] regs
  have c: "distinct (map gl_name [?d, ?w]) \<and> length (matching_overrides ''WIDTH'' [?d, ?w]) \<le> 1"
    by blast
  from a b regs c show ?thesis by blast
qed

section \<open>Properties of override parsing\<close>

lemma type_is_integer_not_enum: "type_is_integer t \<Longrightarrow> \<not> type_is_enum t"
  by (simp add: type_is_integer_def type_is_enum_def split: vtype.splits)

lemma type_is_real_not_others: "type_is_real t \<Longrightarrow> \<not> type_is_enum t \<and> \<not> type_is_integer t"
  by (simp add: type_is_real_def type_is_integer_def type_is_enum_def split: vtype.splits)

lemma type_is_physical_not_others:
  "type_is_physical t \<Longrightarrow> \<not> type_is_enum t \<and> \<not> type_is_integer t \<and> \<not> type_is_real t"
  by (simp add: type_is_physical_def type_is_real_def type_is_integer_def type_is_enum_def
           split: vtype.splits)

lemma type_is_character_array_not_others:
  "type_is_character_array t \<Longrightarrow>
     \<not> type_is_enum t \<and> \<not> type_is_integer t \<and> \<not> type_is_real t \<and> \<not> type_is_physical t"
  by (simp add: type_is_character_array_def type_elem_def type_is_physical_def type_is_real_def
                type_is_integer_def type_is_enum_def split: vtype.splits option.splits)

lemma type_enum_literal_kind: "type_enum_literal t n = Some lit \<Longrightarrow> d_kind lit = T_ENUM_LIT"
  by (auto simp: type_enum_literal_def split: vtype.splits if_splits)

lemma string_chars_refs:
  "string_chars elem ns = Some refs \<Longrightarrow>
     list_all2 (\<lambda>n r. \<exists>lit. type_enum_literal elem n = Some lit \<and> r = T_REF None (d_ident lit) lit)
               ns refs"
proof (induction ns arbitrary: refs)
  case Nil
  then show ?case by simp
next
  case (Cons n ns)
  from Cons.prems obtain lit rs where
    lit: "type_enum_literal elem n = Some lit" and rs: "string_chars elem ns = Some rs"
    and refs: "refs = T_REF None (d_ident lit) lit # rs"
    by (auto split: option.splits)
  from Cons.IH [OF rs] lit refs show ?case by simp
qed

text \<open>
  Claim C9. Parsing the text of an override against the type of the formal gives, for
  an enumeration type, a reference to the literal at the parsed position; for an
  integer type a literal of subkind L_INT and for a physical type one of subkind
  L_PHYSICAL, with the parsed integer; for a real type a literal of subkind L_REAL with
  the parsed real; for a character array a string of references to the literals of the
  element type, typed by the subtype computed from that string; and for a type of any
  other family, as for a text that does not parse, a fatal error.
\<close>

theorem elab_parse_generic_string_by_family:
  "(\<forall>v lit. parse_value C (g_type g) str = Some v \<and> type_is_enum (g_type g)
        \<and> type_enum_literal (type_base_recur (g_type g)) (pv_integer v) = Some lit \<longrightarrow>
        elab_parse_generic_string C g str = Inr (T_REF (Some (g_type g)) str lit)
        \<and> d_kind lit = T_ENUM_LIT)
   \<and> (\<forall>v. parse_value C (g_type g) str = Some v \<and> type_is_integer (g_type g) \<longrightarrow>
        elab_parse_generic_string C g str = Inr (T_LITERAL L_INT (g_type g) (pv_integer v) 0))
   \<and> (\<forall>v. parse_value C (g_type g) str = Some v \<and> type_is_physical (g_type g) \<longrightarrow>
        elab_parse_generic_string C g str = Inr (T_LITERAL L_PHYSICAL (g_type g) (pv_integer v) 0))
   \<and> (\<forall>v. parse_value C (g_type g) str = Some v \<and> type_is_real (g_type g) \<longrightarrow>
        elab_parse_generic_string C g str = Inr (T_LITERAL L_REAL (g_type g) 0 (pv_real v)))
   \<and> (\<forall>v e refs. parse_value C (g_type g) str = Some v \<and> type_is_character_array (g_type g)
        \<and> type_elem (g_type g) = Some e
        \<and> string_chars (type_base_recur e) (pv_enums v) = Some refs \<longrightarrow>
        elab_parse_generic_string C g str
          = Inr (T_STRING (Some (subtype_for_string C (T_STRING None refs) (g_type g))) refs)
        \<and> list_all2 (\<lambda>n r. \<exists>lit. type_enum_literal (type_base_recur e) n = Some lit
                              \<and> r = T_REF None (d_ident lit) lit) (pv_enums v) refs)
   \<and> (\<not> type_is_enum (g_type g) \<and> \<not> type_is_integer (g_type g) \<and> \<not> type_is_physical (g_type g)
        \<and> \<not> type_is_real (g_type g) \<and> \<not> type_is_character_array (g_type g) \<longrightarrow>
        (\<exists>m. elab_parse_generic_string C g str = Inl (Fatal m)))
   \<and> (parse_value C (g_type g) str = None \<longrightarrow>
        (\<exists>m. elab_parse_generic_string C g str = Inl (Fatal m)))"
proof (intro conjI allI impI)
  fix v lit
  assume "parse_value C (g_type g) str = Some v \<and> type_is_enum (g_type g)
        \<and> type_enum_literal (type_base_recur (g_type g)) (pv_integer v) = Some lit"
  then show "elab_parse_generic_string C g str = Inr (T_REF (Some (g_type g)) str lit)"
    by (simp add: elab_parse_generic_string_def)
next
  fix v lit
  assume "parse_value C (g_type g) str = Some v \<and> type_is_enum (g_type g)
        \<and> type_enum_literal (type_base_recur (g_type g)) (pv_integer v) = Some lit"
  then show "d_kind lit = T_ENUM_LIT"
    by (blast dest: type_enum_literal_kind)
next
  fix v
  assume "parse_value C (g_type g) str = Some v \<and> type_is_integer (g_type g)"
  then show "elab_parse_generic_string C g str = Inr (T_LITERAL L_INT (g_type g) (pv_integer v) 0)"
    by (simp add: elab_parse_generic_string_def type_is_integer_not_enum)
next
  fix v
  assume "parse_value C (g_type g) str = Some v \<and> type_is_physical (g_type g)"
  then show "elab_parse_generic_string C g str
               = Inr (T_LITERAL L_PHYSICAL (g_type g) (pv_integer v) 0)"
    by (simp add: elab_parse_generic_string_def type_is_physical_not_others)
next
  fix v
  assume "parse_value C (g_type g) str = Some v \<and> type_is_real (g_type g)"
  then show "elab_parse_generic_string C g str = Inr (T_LITERAL L_REAL (g_type g) 0 (pv_real v))"
    by (simp add: elab_parse_generic_string_def type_is_real_not_others)
next
  fix v e refs
  assume a: "parse_value C (g_type g) str = Some v \<and> type_is_character_array (g_type g)
        \<and> type_elem (g_type g) = Some e
        \<and> string_chars (type_base_recur e) (pv_enums v) = Some refs"
  then have "type_is_character_array (g_type g)" by simp
  from type_is_character_array_not_others [OF this] a
  show "elab_parse_generic_string C g str
          = Inr (T_STRING (Some (subtype_for_string C (T_STRING None refs) (g_type g))) refs)"
    by (simp add: elab_parse_generic_string_def)
next
  fix v e refs
  assume "parse_value C (g_type g) str = Some v \<and> type_is_character_array (g_type g)
        \<and> type_elem (g_type g) = Some e
        \<and> string_chars (type_base_recur e) (pv_enums v) = Some refs"
  then show "list_all2 (\<lambda>n r. \<exists>lit. type_enum_literal (type_base_recur e) n = Some lit
                              \<and> r = T_REF None (d_ident lit) lit) (pv_enums v) refs"
    by (simp add: string_chars_refs)
next
  assume "\<not> type_is_enum (g_type g) \<and> \<not> type_is_integer (g_type g) \<and> \<not> type_is_physical (g_type g)
        \<and> \<not> type_is_real (g_type g) \<and> \<not> type_is_character_array (g_type g)"
  then show "\<exists>m. elab_parse_generic_string C g str = Inl (Fatal m)"
    by (cases "parse_value C (g_type g) str") (simp_all add: elab_parse_generic_string_def Let_def)
next
  assume "parse_value C (g_type g) str = None"
  then show "\<exists>m. elab_parse_generic_string C g str = Inl (Fatal m)"
    by (simp add: elab_parse_generic_string_def Let_def)
qed

theorem elab_parse_generic_string_by_family_witness:
  "elab_parse_generic_string sample_collab (sample_generic ''FLAG'' sample_boolean None) ''TRUE''
     = Inr (T_REF (Some sample_boolean) ''TRUE''
              \<lparr>d_kind = T_ENUM_LIT, d_ident = ''TRUE'', d_pos = 1\<rparr>)
   \<and> elab_parse_generic_string sample_collab (sample_generic ''WIDTH'' sample_integer None) ''16''
     = Inr (T_LITERAL L_INT sample_integer 16 0)
   \<and> elab_parse_generic_string sample_collab (sample_generic ''DELAY'' sample_time None) ''10 ns''
     = Inr (T_LITERAL L_PHYSICAL sample_time 10000000 0)
   \<and> elab_parse_generic_string sample_collab (sample_generic ''GAIN'' sample_real None) ''1.5''
     = Inr (T_LITERAL L_REAL sample_real 0 0x3FF8000000000000)
   \<and> elab_parse_generic_string sample_collab (sample_generic ''NAME'' sample_string None) ''ab''
     = Inr (T_STRING (Some (Subtype sample_string (Some (1, 2))))
              [T_REF None [CHR 0x27, CHR ''a'', CHR 0x27]
                 \<lparr>d_kind = T_ENUM_LIT, d_ident = [CHR 0x27, CHR ''a'', CHR 0x27], d_pos = 0\<rparr>,
               T_REF None [CHR 0x27, CHR ''b'', CHR 0x27]
                 \<lparr>d_kind = T_ENUM_LIT, d_ident = [CHR 0x27, CHR ''b'', CHR 0x27], d_pos = 1\<rparr>])
   \<and> (\<exists>m. elab_parse_generic_string sample_collab (sample_generic ''R'' sample_record None) ''16''
            = Inl (Fatal m))
   \<and> (\<exists>m. elab_parse_generic_string sample_collab (sample_generic ''WIDTH'' sample_integer None) ''?''
            = Inl (Fatal m))"
proof -
  let ?a = "[CHR 0x27, CHR ''a'', CHR 0x27]"
  let ?b = "[CHR 0x27, CHR ''b'', CHR 0x27]"
  let ?la = "\<lparr>d_kind = T_ENUM_LIT, d_ident = ?a, d_pos = 0\<rparr>"
  let ?lb = "\<lparr>d_kind = T_ENUM_LIT, d_ident = ?b, d_pos = 1\<rparr>"
  have p: "parse_value sample_collab = sample_parse_value"
    by (simp add: sample_collab_def)
  note p = p sample_parse_value_def
  have e1: "type_is_enum sample_boolean"
    by (simp add: type_is_enum_def sample_boolean_def)
  have e2: "type_enum_literal (type_base_recur sample_boolean) 1
              = Some \<lparr>d_kind = T_ENUM_LIT, d_ident = ''TRUE'', d_pos = 1\<rparr>"
    by (simp add: type_enum_literal_def sample_boolean_def)
  have c1: "elab_parse_generic_string sample_collab (sample_generic ''FLAG'' sample_boolean None) ''TRUE''
     = Inr (T_REF (Some sample_boolean) ''TRUE'' \<lparr>d_kind = T_ENUM_LIT, d_ident = ''TRUE'', d_pos = 1\<rparr>)"
    using elab_parse_generic_string_by_family
            [of sample_collab "sample_generic ''FLAG'' sample_boolean None" "''TRUE''"] e1 e2 p
    by (simp add: sample_generic_def)
  have i1: "type_is_integer sample_integer"
    by (simp add: type_is_integer_def sample_integer_def)
  have c2: "elab_parse_generic_string sample_collab (sample_generic ''WIDTH'' sample_integer None) ''16''
     = Inr (T_LITERAL L_INT sample_integer 16 0)"
    using elab_parse_generic_string_by_family
            [of sample_collab "sample_generic ''WIDTH'' sample_integer None" "''16''"] i1 p
    by (simp add: sample_generic_def)
  have ph: "type_is_physical sample_time"
    by (simp add: type_is_physical_def sample_time_def)
  have c3: "elab_parse_generic_string sample_collab (sample_generic ''DELAY'' sample_time None) ''10 ns''
     = Inr (T_LITERAL L_PHYSICAL sample_time 10000000 0)"
    using elab_parse_generic_string_by_family
            [of sample_collab "sample_generic ''DELAY'' sample_time None" "''10 ns''"] ph p
    by (simp add: sample_generic_def)
  have r1: "type_is_real sample_real"
    by (simp add: type_is_real_def sample_real_def)
  have c4: "elab_parse_generic_string sample_collab (sample_generic ''GAIN'' sample_real None) ''1.5''
     = Inr (T_LITERAL L_REAL sample_real 0 0x3FF8000000000000)"
    using elab_parse_generic_string_by_family
            [of sample_collab "sample_generic ''GAIN'' sample_real None" "''1.5''"] r1 p
    by (simp add: sample_generic_def)
  have s1: "type_is_character_array sample_string"
    by (simp add: type_is_character_array_def type_elem_def sample_string_def
                  is_character_literal_def)
  have s2: "type_elem sample_string = Some (Enum_type ''CHARACTER'' [?a, ?b])"
    by (simp add: type_elem_def sample_string_def)
  have s3: "string_chars (type_base_recur (Enum_type ''CHARACTER'' [?a, ?b])) [0, 1]
              = Some [T_REF None ?a ?la, T_REF None ?b ?lb]"
    by (simp add: type_enum_literal_def)
  have s4: "subtype_for_string sample_collab (T_STRING None [T_REF None ?a ?la, T_REF None ?b ?lb])
              sample_string = Subtype sample_string (Some (1, 2))"
    by (simp add: sample_collab_def)
  have c5: "elab_parse_generic_string sample_collab (sample_generic ''NAME'' sample_string None) ''ab''
     = Inr (T_STRING (Some (Subtype sample_string (Some (1, 2))))
              [T_REF None ?a ?la, T_REF None ?b ?lb])"
    using elab_parse_generic_string_by_family
            [of sample_collab "sample_generic ''NAME'' sample_string None" "''ab''"] s1 s2 s3 s4 p
    by (simp add: sample_generic_def)
  have o1: "\<not> type_is_enum sample_record \<and> \<not> type_is_integer sample_record
            \<and> \<not> type_is_physical sample_record \<and> \<not> type_is_real sample_record
            \<and> \<not> type_is_character_array sample_record"
    by (simp add: type_is_enum_def type_is_integer_def type_is_physical_def type_is_real_def
                  type_is_character_array_def type_elem_def sample_record_def)
  have c6: "\<exists>m. elab_parse_generic_string sample_collab (sample_generic ''R'' sample_record None) ''16''
            = Inl (Fatal m)"
    using elab_parse_generic_string_by_family
            [of sample_collab "sample_generic ''R'' sample_record None" "''16''"] o1
    by (simp add: sample_generic_def)
  have n1: "parse_value sample_collab sample_integer ''?'' = None"
    by (simp add: sample_collab_def sample_parse_value_def)
  have c7: "\<exists>m. elab_parse_generic_string sample_collab (sample_generic ''WIDTH'' sample_integer None) ''?''
            = Inl (Fatal m)"
    using elab_parse_generic_string_by_family
            [of sample_collab "sample_generic ''WIDTH'' sample_integer None" "''?''"] n1
    by (simp add: sample_generic_def)
  from c1 c2 c3 c4 c5 c6 c7 show ?thesis by blast
qed

section \<open>Properties of generic resolution\<close>

lemma unlink_override_None: "unlink_override q go = None \<longleftrightarrow> q \<notin> gl_name ` set go"
  by (induction go) (auto split: option.splits)

lemma unlink_override_Some:
  "unlink_override q go = Some (it, rest) \<Longrightarrow>
     \<exists>pre post. go = pre @ it # post \<and> rest = pre @ post \<and> gl_name it = q
                \<and> q \<notin> gl_name ` set pre"
proof (induction go arbitrary: rest)
  case Nil
  then show ?case by simp
next
  case (Cons a go)
  show ?case
  proof (cases "gl_name a = q")
    case True
    with Cons.prems have "it = a" and "rest = go" by simp_all
    with True have "a # go = [] @ it # go \<and> rest = [] @ go \<and> gl_name it = q
                    \<and> q \<notin> gl_name ` set []"
      by simp
    then show ?thesis by blast
  next
    case False
    with Cons.prems obtain r where u: "unlink_override q go = Some (it, r)" and rest: "rest = a # r"
      by (auto split: option.splits)
    from Cons.IH [OF u] obtain pre post where
      "go = pre @ it # post" "r = pre @ post" "gl_name it = q" "q \<notin> gl_name ` set pre"
      by blast
    with False rest have "a # go = (a # pre) @ it # post \<and> rest = (a # pre) @ post
                          \<and> gl_name it = q \<and> q \<notin> gl_name ` set (a # pre)"
      by auto
    then show ?thesis by blast
  qed
qed




















section \<open>Properties of the architecture chooser\<close>

lemma elab_find_arch_cb_skip:
  "\<not> is_candidate (search p) (n, k) \<Longrightarrow> elab_find_arch_cb lb n k (p, s) = (p, s)"
  by (auto simp: elab_find_arch_cb_def is_candidate_def Let_def)

lemma elab_find_arch_cb_keeps_newest:
  assumes "chosen p = Some b" and "mtime p = lib_get_mtime lb b"
    and "n = b \<or> lib_get_mtime lb n < lib_get_mtime lb b"
  shows "chosen (fst (elab_find_arch_cb lb n k (p, s))) = Some b
         \<and> mtime (fst (elab_find_arch_cb lb n k (p, s))) = lib_get_mtime lb b
         \<and> search (fst (elab_find_arch_cb lb n k (p, s))) = search p"
  using assms
  by (auto simp: elab_find_arch_cb_def Let_def split: option.splits)

lemma elab_find_arch_cb_older:
  assumes "chosen p = None \<or> mtime p < M" and "lib_get_mtime lb n < M"
  shows "(chosen (fst (elab_find_arch_cb lb n k (p, s))) = None
          \<or> mtime (fst (elab_find_arch_cb lb n k (p, s))) < M)
         \<and> search (fst (elab_find_arch_cb lb n k (p, s))) = search p"
  using assms
  by (auto simp: elab_find_arch_cb_def Let_def split: option.splits)

lemma elab_find_arch_cb_newest:
  assumes "chosen p = None \<or> mtime p < lib_get_mtime lb b" and "is_candidate (search p) (b, k)"
  shows "chosen (fst (elab_find_arch_cb lb b k (p, s))) = Some b
         \<and> mtime (fst (elab_find_arch_cb lb b k (p, s))) = lib_get_mtime lb b
         \<and> search (fst (elab_find_arch_cb lb b k (p, s))) = search p"
  using assms
  by (auto simp: elab_find_arch_cb_def is_candidate_def Let_def split: option.splits)

lemma lib_walk_index_keeps_newest:
  assumes "chosen (fst ps) = Some b" and "mtime (fst ps) = lib_get_mtime lb b"
    and "\<forall>e \<in> set idx. is_candidate (search (fst ps)) e
            \<longrightarrow> fst e = b \<or> lib_get_mtime lb (fst e) < lib_get_mtime lb b"
  shows "chosen (fst (lib_walk_index lb idx ps)) = Some b"
  using assms
proof (induction idx arbitrary: ps)
  case Nil
  then show ?case by simp
next
  case (Cons e idx)
  obtain n k where e: "e = (n, k)" by (cases e)
  obtain p s where ps: "ps = (p, s)" by (cases ps)
  let ?ps' = "elab_find_arch_cb lb n k (p, s)"
  have step: "chosen (fst ?ps') = Some b \<and> mtime (fst ?ps') = lib_get_mtime lb b
              \<and> search (fst ?ps') = search p"
  proof (cases "is_candidate (search p) (n, k)")
    case True
    with Cons.prems(3) e ps have "n = b \<or> lib_get_mtime lb n < lib_get_mtime lb b" by auto
    with Cons.prems(1,2) ps show ?thesis
      by (intro elab_find_arch_cb_keeps_newest) simp_all
  next
    case False
    with Cons.prems(1,2) ps show ?thesis by (simp add: elab_find_arch_cb_skip)
  qed
  from Cons.prems(3) ps step
  have rest: "\<forall>e \<in> set idx. is_candidate (search (fst ?ps')) e
            \<longrightarrow> fst e = b \<or> lib_get_mtime lb (fst e) < lib_get_mtime lb b"
    by simp
  from step have "chosen (fst ?ps') = Some b" and "mtime (fst ?ps') = lib_get_mtime lb b"
    by simp_all
  from Cons.IH [OF this rest] e ps show ?case by simp
qed

lemma lib_walk_index_finds_newest:
  assumes "chosen (fst ps) = None \<or> mtime (fst ps) < lib_get_mtime lb b"
    and "\<exists>k. (b, k) \<in> set idx \<and> is_candidate (search (fst ps)) (b, k)"
    and "\<forall>e \<in> set idx. is_candidate (search (fst ps)) e
            \<longrightarrow> fst e = b \<or> lib_get_mtime lb (fst e) < lib_get_mtime lb b"
  shows "chosen (fst (lib_walk_index lb idx ps)) = Some b"
  using assms
proof (induction idx arbitrary: ps)
  case Nil
  then show ?case by simp
next
  case (Cons e idx)
  obtain n k where e: "e = (n, k)" by (cases e)
  obtain p s where ps: "ps = (p, s)" by (cases ps)
  let ?ps' = "elab_find_arch_cb lb n k (p, s)"
  from Cons.prems(3) ps
  have all: "\<forall>e \<in> set idx. is_candidate (search p) e
            \<longrightarrow> fst e = b \<or> lib_get_mtime lb (fst e) < lib_get_mtime lb b"
    by simp
  show ?case
  proof (cases "is_candidate (search p) (n, k)")
    case False
    then have same: "?ps' = (p, s)" by (simp add: elab_find_arch_cb_skip)
    from False Cons.prems(2) e ps
    have ex: "\<exists>k. (b, k) \<in> set idx \<and> is_candidate (search p) (b, k)" by auto
    from Cons.IH [of "(p, s)"] Cons.prems(1) ps ex all same e show ?thesis by simp
  next
    case True
    show ?thesis
    proof (cases "n = b")
      case True
      from \<open>is_candidate (search p) (n, k)\<close> True Cons.prems(1) ps
      have st: "chosen (fst ?ps') = Some b \<and> mtime (fst ?ps') = lib_get_mtime lb b
                \<and> search (fst ?ps') = search p"
        using elab_find_arch_cb_newest [of p lb b k s] by simp
      with all have "\<forall>e \<in> set idx. is_candidate (search (fst ?ps')) e
            \<longrightarrow> fst e = b \<or> lib_get_mtime lb (fst e) < lib_get_mtime lb b"
        by simp
      from lib_walk_index_keeps_newest [OF _ _ this] st e ps show ?thesis by simp
    next
      case False
      with \<open>is_candidate (search p) (n, k)\<close> Cons.prems(3) e ps
      have lt: "lib_get_mtime lb n < lib_get_mtime lb b" by auto
      from elab_find_arch_cb_older [OF _ lt, of p k s] Cons.prems(1) ps
      have st: "(chosen (fst ?ps') = None \<or> mtime (fst ?ps') < lib_get_mtime lb b)
                \<and> search (fst ?ps') = search p"
        by simp
      from False Cons.prems(2) e ps st
      have ex: "\<exists>k. (b, k) \<in> set idx \<and> is_candidate (search (fst ?ps')) (b, k)" by auto
      from all st have all': "\<forall>e \<in> set idx. is_candidate (search (fst ?ps')) e
            \<longrightarrow> fst e = b \<or> lib_get_mtime lb (fst e) < lib_get_mtime lb b"
        by simp
      from st have "chosen (fst ?ps') = None \<or> mtime (fst ?ps') < lib_get_mtime lb b" by simp
      from Cons.IH [OF this ex all'] e ps show ?thesis by simp
    qed
  qed
qed

lemma lib_walk_index_no_candidate:
  assumes "\<forall>e \<in> set idx. \<not> is_candidate (search (fst ps)) e"
  shows "lib_walk_index lb idx ps = ps"
  using assms
proof (induction idx arbitrary: ps)
  case Nil
  then show ?case by simp
next
  case (Cons e idx)
  obtain n k where e: "e = (n, k)" by (cases e)
  obtain p s where ps: "ps = (p, s)" by (cases ps)
  from Cons.prems e ps have "elab_find_arch_cb lb n k (p, s) = (p, s)"
    by (simp add: elab_find_arch_cb_skip)
  with Cons e ps show ?case by simp
qed

text \<open>
  Claim C2. The callback of the library walk looks only at units of kind \<open>T_ARCH\<close>
  whose name up to the dash is the search name, which is the entity's name when that
  name is the library's name, a dot and a simple name. The first such unit is chosen;
  a later one replaces the choice when its modification time is greater, never when it
  is smaller; at equal times and in the same source file it replaces the choice exactly
  when its first line is greater or equal; at equal times in different files a warning
  is emitted and the choice is kept. (When the library cannot load the chosen unit the
  new one is taken, and when it cannot load the new one the choice is kept.) Hence an
  architecture that is newer than every other architecture of the entity is the one
  returned, whatever the order of the index; and without any architecture of the entity
  the chooser is fatal at the location it was called with.
\<close>

theorem elab_pick_arch_most_recent:
  "(\<not> is_candidate (search p) (n, k) \<longrightarrow> elab_find_arch_cb lb n k (p, s) = (p, s))
   \<and> (is_candidate (search p) (n, k) \<and> chosen p = None \<longrightarrow>
        elab_find_arch_cb lb n k (p, s)
          = (p\<lparr>chosen := Some n, mtime := lib_get_mtime lb n\<rparr>, s))
   \<and> (is_candidate (search p) (n, k) \<and> chosen p = Some old \<and> lib_get_mtime lb n > mtime p \<longrightarrow>
        elab_find_arch_cb lb n k (p, s)
          = (p\<lparr>chosen := Some n, mtime := lib_get_mtime lb n\<rparr>, s))
   \<and> (is_candidate (search p) (n, k) \<and> chosen p = Some old \<and> lib_get_mtime lb n < mtime p \<longrightarrow>
        elab_find_arch_cb lb n k (p, s) = (p, s))
   \<and> (is_candidate (search p) (n, k) \<and> chosen p = Some old \<and> lib_get_mtime lb n = mtime p
        \<and> lib_get lb old = Some ou \<and> lib_get lb n = Some nu
        \<and> file_ref (tree_loc ou) = file_ref (tree_loc nu) \<longrightarrow>
        elab_find_arch_cb lb n k (p, s)
          = (if first_line (tree_loc nu) \<ge> first_line (tree_loc ou)
             then p\<lparr>chosen := Some n\<rparr> else p, s))
   \<and> (is_candidate (search p) (n, k) \<and> chosen p = Some old \<and> lib_get_mtime lb n = mtime p
        \<and> lib_get lb old = Some ou \<and> lib_get lb n = Some nu
        \<and> file_ref (tree_loc ou) \<noteq> file_ref (tree_loc nu) \<longrightarrow>
        elab_find_arch_cb lb n k (p, s)
          = (p, warnf (''cannot determine which of '' @ old @ '' and '' @ n
                       @ '' is most recently modified'') s))
   \<and> (is_candidate (search p) (n, k) \<and> chosen p = Some old \<and> lib_get_mtime lb n = mtime p
        \<and> lib_get lb old = None \<longrightarrow>
        elab_find_arch_cb lb n k (p, s) = (p\<lparr>chosen := Some n\<rparr>, s))
   \<and> (is_candidate (search p) (n, k) \<and> chosen p = Some old \<and> lib_get_mtime lb n = mtime p
        \<and> lib_get lb old = Some ou \<and> lib_get lb n = None \<longrightarrow>
        elab_find_arch_cb lb n k (p, s) = (p, s))
   \<and> (CHR ''.'' \<notin> set e \<longrightarrow> search_name lb (lib_name lb @ ''.'' @ e) = lib_name lb @ ''.'' @ e)
   \<and> (elab_find_lib require (unit_ident entity) ctx = Inr lb
        \<and> (b, T_ARCH) \<in> set (lib_index lb)
        \<and> ident_until b (CHR ''-'') = search_name lb (unit_ident entity)
        \<and> (\<forall>c \<in> set (lib_index lb). is_candidate (search_name lb (unit_ident entity)) c
              \<longrightarrow> fst c = b \<or> lib_get_mtime lb (fst c) < lib_get_mtime lb b) \<longrightarrow>
        (\<exists>s'. elab_pick_arch require lc entity ctx s = Inr (lib_get lb b, s')))
   \<and> (elab_find_lib require (unit_ident entity) ctx = Inr lb
        \<and> (\<forall>c \<in> set (lib_index lb). \<not> is_candidate (search_name lb (unit_ident entity)) c) \<longrightarrow>
        elab_pick_arch require lc entity ctx s
          = Inl (Fatal_at lc (''no suitable architecture for ''
                              @ search_name lb (unit_ident entity))))"
proof (intro conjI impI)
  assume "\<not> is_candidate (search p) (n, k)"
  then show "elab_find_arch_cb lb n k (p, s) = (p, s)"
    by (rule elab_find_arch_cb_skip)
next
  assume "is_candidate (search p) (n, k) \<and> chosen p = None"
  then show "elab_find_arch_cb lb n k (p, s)
          = (p\<lparr>chosen := Some n, mtime := lib_get_mtime lb n\<rparr>, s)"
    by (simp add: elab_find_arch_cb_def is_candidate_def Let_def)
next
  assume "is_candidate (search p) (n, k) \<and> chosen p = Some old \<and> lib_get_mtime lb n > mtime p"
  then show "elab_find_arch_cb lb n k (p, s)
          = (p\<lparr>chosen := Some n, mtime := lib_get_mtime lb n\<rparr>, s)"
    by (simp add: elab_find_arch_cb_def is_candidate_def Let_def)
next
  assume "is_candidate (search p) (n, k) \<and> chosen p = Some old \<and> lib_get_mtime lb n < mtime p"
  then show "elab_find_arch_cb lb n k (p, s) = (p, s)"
    by (simp add: elab_find_arch_cb_def is_candidate_def Let_def)
next
  assume "is_candidate (search p) (n, k) \<and> chosen p = Some old \<and> lib_get_mtime lb n = mtime p
        \<and> lib_get lb old = Some ou \<and> lib_get lb n = Some nu
        \<and> file_ref (tree_loc ou) = file_ref (tree_loc nu)"
  then show "elab_find_arch_cb lb n k (p, s)
          = (if first_line (tree_loc nu) \<ge> first_line (tree_loc ou)
             then p\<lparr>chosen := Some n\<rparr> else p, s)"
    by (simp add: elab_find_arch_cb_def is_candidate_def Let_def)
next
  assume "is_candidate (search p) (n, k) \<and> chosen p = Some old \<and> lib_get_mtime lb n = mtime p
        \<and> lib_get lb old = Some ou \<and> lib_get lb n = Some nu
        \<and> file_ref (tree_loc ou) \<noteq> file_ref (tree_loc nu)"
  then show "elab_find_arch_cb lb n k (p, s)
          = (p, warnf (''cannot determine which of '' @ old @ '' and '' @ n
                       @ '' is most recently modified'') s)"
    by (simp add: elab_find_arch_cb_def is_candidate_def Let_def)
next
  assume "is_candidate (search p) (n, k) \<and> chosen p = Some old \<and> lib_get_mtime lb n = mtime p
        \<and> lib_get lb old = None"
  then show "elab_find_arch_cb lb n k (p, s) = (p\<lparr>chosen := Some n\<rparr>, s)"
    by (simp add: elab_find_arch_cb_def is_candidate_def Let_def)
next
  assume "is_candidate (search p) (n, k) \<and> chosen p = Some old \<and> lib_get_mtime lb n = mtime p
        \<and> lib_get lb old = Some ou \<and> lib_get lb n = None"
  then show "elab_find_arch_cb lb n k (p, s) = (p, s)"
    by (simp add: elab_find_arch_cb_def is_candidate_def Let_def)
next
  assume "CHR ''.'' \<notin> set e"
  then have "\<forall>x \<in> set (rev e). x \<noteq> CHR ''.''" by auto
  then have "takeWhile (\<lambda>x. x \<noteq> CHR ''.'') (rev e @ CHR ''.'' # rev (lib_name lb)) = rev e"
    by (simp add: takeWhile_tail)
  then show "search_name lb (lib_name lb @ ''.'' @ e) = lib_name lb @ ''.'' @ e"
    by (simp add: search_name_def ident_rfrom_def ident_prefix_def)
next
  let ?sn = "search_name lb (unit_ident entity)"
  let ?ps = "(\<lparr>search = ?sn, chosen = None, mtime = 0\<rparr>, s)"
  assume a: "elab_find_lib require (unit_ident entity) ctx = Inr lb
        \<and> (b, T_ARCH) \<in> set (lib_index lb)
        \<and> ident_until b (CHR ''-'') = ?sn
        \<and> (\<forall>c \<in> set (lib_index lb). is_candidate ?sn c
              \<longrightarrow> fst c = b \<or> lib_get_mtime lb (fst c) < lib_get_mtime lb b)"
  then have ex: "\<exists>k. (b, k) \<in> set (lib_index lb) \<and> is_candidate (search (fst ?ps)) (b, k)"
    by (auto simp: is_candidate_def)
  from a have all: "\<forall>c \<in> set (lib_index lb). is_candidate (search (fst ?ps)) c
              \<longrightarrow> fst c = b \<or> lib_get_mtime lb (fst c) < lib_get_mtime lb b"
    by simp
  have "chosen (fst ?ps) = None \<or> mtime (fst ?ps) < lib_get_mtime lb b" by simp
  from lib_walk_index_finds_newest [OF this ex all]
  have "chosen (fst (lib_walk_index lb (lib_index lb) ?ps)) = Some b" .
  with a show "\<exists>s'. elab_pick_arch require lc entity ctx s = Inr (lib_get lb b, s')"
    by (simp add: elab_pick_arch_def Let_def)
next
  let ?sn = "search_name lb (unit_ident entity)"
  let ?ps = "(\<lparr>search = ?sn, chosen = None, mtime = 0\<rparr>, s)"
  assume a: "elab_find_lib require (unit_ident entity) ctx = Inr lb
        \<and> (\<forall>c \<in> set (lib_index lb). \<not> is_candidate ?sn c)"
  then have "\<forall>c \<in> set (lib_index lb). \<not> is_candidate (search (fst ?ps)) c" by simp
  from lib_walk_index_no_candidate [OF this]
  have "lib_walk_index lb (lib_index lb) ?ps = ?ps" .
  with a show "elab_pick_arch require lc entity ctx s
          = Inl (Fatal_at lc (''no suitable architecture for '' @ ?sn))"
    by (simp add: elab_pick_arch_def Let_def)
qed

theorem elab_pick_arch_most_recent_witness:
  "elab_find_arch_cb (sample_lib []) ''WORK.FOO'' T_ENTITY (sample_params None 0, sample_state [])
     = (sample_params None 0, sample_state [])
   \<and> elab_find_arch_cb (sample_lib []) ''WORK.FOO-RTL'' T_ARCH (sample_params None 0, sample_state [])
     = (sample_params (Some ''WORK.FOO-RTL'') 10, sample_state [])
   \<and> elab_find_arch_cb (sample_lib []) ''WORK.FOO-TB'' T_ARCH
        (sample_params (Some ''WORK.FOO-RTL'') 10, sample_state [])
     = (sample_params (Some ''WORK.FOO-TB'') 20, sample_state [])
   \<and> elab_find_arch_cb (sample_lib []) ''WORK.FOO-RTL'' T_ARCH
        (sample_params (Some ''WORK.FOO-TB'') 20, sample_state [])
     = (sample_params (Some ''WORK.FOO-TB'') 20, sample_state [])
   \<and> elab_find_arch_cb (sample_lib []) ''WORK.FOO-SIM'' T_ARCH
        (sample_params (Some ''WORK.FOO-TB'') 20, sample_state [])
     = (sample_params (Some ''WORK.FOO-SIM'') 20, sample_state [])
   \<and> elab_find_arch_cb (sample_lib []) ''WORK.FOO-ALT'' T_ARCH
        (sample_params (Some ''WORK.FOO-TB'') 20, sample_state [])
     = (sample_params (Some ''WORK.FOO-TB'') 20,
        \<lparr>diags = [\<lparr>level = DIAG_WARN,
                   text_of = ''cannot determine which of WORK.FOO-TB and WORK.FOO-ALT is most recently modified''\<rparr>],
         generic_override = []\<rparr>)
   \<and> elab_find_arch_cb (sample_lib []) ''WORK.FOO-TB'' T_ARCH
        (sample_params (Some ''WORK.FOO-GONE'') 20, sample_state [])
     = (sample_params (Some ''WORK.FOO-TB'') 20, sample_state [])
   \<and> elab_find_arch_cb (sample_lib []) ''WORK.FOO-GONE'' T_ARCH
        (sample_params (Some ''WORK.FOO-TB'') 20, sample_state [])
     = (sample_params (Some ''WORK.FOO-TB'') 20, sample_state [])
   \<and> search_name (sample_lib []) ''WORK.FOO'' = ''WORK.FOO''
   \<and> (\<exists>s'. elab_pick_arch (\<lambda>n. None) \<lparr>file_ref = 3, first_line = 7\<rparr> sample_entity
              (sample_lib_ctx [(''WORK.FOO'', T_ENTITY), (''WORK.FOO-RTL'', T_ARCH),
                               (''WORK.FOO-TB'', T_ARCH)]) (sample_state [])
            = Inr (Some (sample_arch ''WORK.FOO-TB'' 1 30), s'))
   \<and> (\<exists>s'. elab_pick_arch (\<lambda>n. None) \<lparr>file_ref = 3, first_line = 7\<rparr> sample_entity
              (sample_lib_ctx [(''WORK.FOO-TB'', T_ARCH), (''WORK.FOO-RTL'', T_ARCH),
                               (''WORK.FOO'', T_ENTITY)]) (sample_state [])
            = Inr (Some (sample_arch ''WORK.FOO-TB'' 1 30), s'))
   \<and> elab_pick_arch (\<lambda>n. None) \<lparr>file_ref = 3, first_line = 7\<rparr> sample_entity
        (sample_lib_ctx [(''WORK.FOO'', T_ENTITY)]) (sample_state [])
     = Inl (Fatal_at \<lparr>file_ref = 3, first_line = 7\<rparr> ''no suitable architecture for WORK.FOO'')"
proof -
  let ?L = "sample_lib []"
  let ?s = "sample_state []"
  note defs = sample_lib_def sample_params_def sample_state_def is_candidate_def ident_until_def
    sample_arch_def sample_entity_def warnf_def diag_emit_def
  have c1: "elab_find_arch_cb ?L ''WORK.FOO'' T_ENTITY (sample_params None 0, ?s)
              = (sample_params None 0, ?s)"
    using elab_pick_arch_most_recent
            [where p = "sample_params None 0" and n = "''WORK.FOO''" and k = T_ENTITY
               and lb = ?L and s = ?s]
    by (simp add: defs)
  have c2: "elab_find_arch_cb ?L ''WORK.FOO-RTL'' T_ARCH (sample_params None 0, ?s)
              = (sample_params (Some ''WORK.FOO-RTL'') 10, ?s)"
    using elab_pick_arch_most_recent
            [where p = "sample_params None 0" and n = "''WORK.FOO-RTL''" and k = T_ARCH
               and lb = ?L and s = ?s]
    by (simp add: defs)
  have c3: "elab_find_arch_cb ?L ''WORK.FOO-TB'' T_ARCH (sample_params (Some ''WORK.FOO-RTL'') 10, ?s)
              = (sample_params (Some ''WORK.FOO-TB'') 20, ?s)"
    using elab_pick_arch_most_recent
            [where p = "sample_params (Some ''WORK.FOO-RTL'') 10" and n = "''WORK.FOO-TB''"
               and k = T_ARCH and lb = ?L and s = ?s and old = "''WORK.FOO-RTL''"]
    by (simp add: defs)
  have c4: "elab_find_arch_cb ?L ''WORK.FOO-RTL'' T_ARCH (sample_params (Some ''WORK.FOO-TB'') 20, ?s)
              = (sample_params (Some ''WORK.FOO-TB'') 20, ?s)"
    using elab_pick_arch_most_recent
            [where p = "sample_params (Some ''WORK.FOO-TB'') 20" and n = "''WORK.FOO-RTL''"
               and k = T_ARCH and lb = ?L and s = ?s and old = "''WORK.FOO-TB''"]
    by (simp add: defs)
  have c5: "elab_find_arch_cb ?L ''WORK.FOO-SIM'' T_ARCH (sample_params (Some ''WORK.FOO-TB'') 20, ?s)
              = (sample_params (Some ''WORK.FOO-SIM'') 20, ?s)"
    using elab_pick_arch_most_recent
            [where p = "sample_params (Some ''WORK.FOO-TB'') 20" and n = "''WORK.FOO-SIM''"
               and k = T_ARCH and lb = ?L and s = ?s and old = "''WORK.FOO-TB''"
               and ou = "sample_arch ''WORK.FOO-TB'' 1 30" and nu = "sample_arch ''WORK.FOO-SIM'' 1 50"]
    by (simp add: defs)
  have c6: "elab_find_arch_cb ?L ''WORK.FOO-ALT'' T_ARCH (sample_params (Some ''WORK.FOO-TB'') 20, ?s)
     = (sample_params (Some ''WORK.FOO-TB'') 20,
        \<lparr>diags = [\<lparr>level = DIAG_WARN,
                   text_of = ''cannot determine which of WORK.FOO-TB and WORK.FOO-ALT is most recently modified''\<rparr>],
         generic_override = []\<rparr>)"
    using elab_pick_arch_most_recent
            [where p = "sample_params (Some ''WORK.FOO-TB'') 20" and n = "''WORK.FOO-ALT''"
               and k = T_ARCH and lb = ?L and s = ?s and old = "''WORK.FOO-TB''"
               and ou = "sample_arch ''WORK.FOO-TB'' 1 30" and nu = "sample_arch ''WORK.FOO-ALT'' 2 5"]
    by (simp add: defs)
  have c7: "elab_find_arch_cb ?L ''WORK.FOO-TB'' T_ARCH (sample_params (Some ''WORK.FOO-GONE'') 20, ?s)
              = (sample_params (Some ''WORK.FOO-TB'') 20, ?s)"
    using elab_pick_arch_most_recent
            [where p = "sample_params (Some ''WORK.FOO-GONE'') 20" and n = "''WORK.FOO-TB''"
               and k = T_ARCH and lb = ?L and s = ?s and old = "''WORK.FOO-GONE''"]
    by (simp add: defs)
  have c8: "elab_find_arch_cb ?L ''WORK.FOO-GONE'' T_ARCH (sample_params (Some ''WORK.FOO-TB'') 20, ?s)
              = (sample_params (Some ''WORK.FOO-TB'') 20, ?s)"
    using elab_pick_arch_most_recent
            [where p = "sample_params (Some ''WORK.FOO-TB'') 20" and n = "''WORK.FOO-GONE''"
               and k = T_ARCH and lb = ?L and s = ?s and old = "''WORK.FOO-TB''"
               and ou = "sample_arch ''WORK.FOO-TB'' 1 30"]
    by (simp add: defs)
  have c9: "search_name ?L ''WORK.FOO'' = ''WORK.FOO''"
    using elab_pick_arch_most_recent [where e = "''FOO''" and lb = ?L]
    by (simp add: defs)
  have sn: "\<And>idx. search_name (sample_lib idx) ''WORK.FOO'' = ''WORK.FOO''"
    by (simp add: search_name_def ident_rfrom_def ident_prefix_def sample_lib_def)
  have fl: "\<And>idx. elab_find_lib (\<lambda>n. None) (unit_ident sample_entity) (sample_lib_ctx idx)
                   = Inr (sample_lib idx)"
    by (simp add: elab_find_lib_def sample_entity_def sample_lib_ctx_def ident_until_def)
  have ui: "unit_ident sample_entity = ''WORK.FOO''" by (simp add: sample_entity_def)
  let ?i1 = "[(''WORK.FOO'', T_ENTITY), (''WORK.FOO-RTL'', T_ARCH), (''WORK.FOO-TB'', T_ARCH)]"
  let ?i2 = "[(''WORK.FOO-TB'', T_ARCH), (''WORK.FOO-RTL'', T_ARCH), (''WORK.FOO'', T_ENTITY)]"
  have g: "\<And>idx. lib_get (sample_lib idx) ''WORK.FOO-TB'' = Some (sample_arch ''WORK.FOO-TB'' 1 30)"
    by (simp add: sample_lib_def)
  have c10: "\<exists>s'. elab_pick_arch (\<lambda>n. None) \<lparr>file_ref = 3, first_line = 7\<rparr> sample_entity
              (sample_lib_ctx ?i1) ?s = Inr (Some (sample_arch ''WORK.FOO-TB'' 1 30), s')"
    using elab_pick_arch_most_recent
            [where lb = "sample_lib ?i1" and require = "\<lambda>n. None" and entity = sample_entity
               and ctx = "sample_lib_ctx ?i1" and b = "''WORK.FOO-TB''" and s = ?s
               and lc = "\<lparr>file_ref = 3, first_line = 7\<rparr>"] fl [of ?i1] sn [of ?i1] g [of ?i1]
    by (simp add: ui is_candidate_def ident_until_def sample_lib_def)
  have c11: "\<exists>s'. elab_pick_arch (\<lambda>n. None) \<lparr>file_ref = 3, first_line = 7\<rparr> sample_entity
              (sample_lib_ctx ?i2) ?s = Inr (Some (sample_arch ''WORK.FOO-TB'' 1 30), s')"
    using elab_pick_arch_most_recent
            [where lb = "sample_lib ?i2" and require = "\<lambda>n. None" and entity = sample_entity
               and ctx = "sample_lib_ctx ?i2" and b = "''WORK.FOO-TB''" and s = ?s
               and lc = "\<lparr>file_ref = 3, first_line = 7\<rparr>"] fl [of ?i2] sn [of ?i2] g [of ?i2]
    by (simp add: ui is_candidate_def ident_until_def sample_lib_def)
  have c12: "elab_pick_arch (\<lambda>n. None) \<lparr>file_ref = 3, first_line = 7\<rparr> sample_entity
        (sample_lib_ctx [(''WORK.FOO'', T_ENTITY)]) ?s
     = Inl (Fatal_at \<lparr>file_ref = 3, first_line = 7\<rparr> ''no suitable architecture for WORK.FOO'')"
    using elab_pick_arch_most_recent
            [where lb = "sample_lib [(''WORK.FOO'', T_ENTITY)]" and require = "\<lambda>n. None"
               and entity = sample_entity and ctx = "sample_lib_ctx [(''WORK.FOO'', T_ENTITY)]"
               and s = ?s and lc = "\<lparr>file_ref = 3, first_line = 7\<rparr>"]
          fl [of "[(''WORK.FOO'', T_ENTITY)]"] sn [of "[(''WORK.FOO'', T_ENTITY)]"]
    by (simp add: ui is_candidate_def sample_lib_def)
  from c1 c2 c3 c4 c5 c6 c7 c8 c9 c10 c11 c12 show ?thesis by blast
qed

section \<open>Properties of the mixed binding\<close>

lemma find_port_Some:
  "find_port name ps k = Some (j, p) \<Longrightarrow>
     k \<le> j \<and> j < k + length ps \<and> ps ! (j - k) = p \<and> pd_ident p = name"
proof (induction ps arbitrary: k)
  case Nil
  then show ?case by simp
next
  case (Cons a ps)
  show ?case
  proof (cases "pd_ident a = name")
    case True
    with Cons.prems show ?thesis by simp
  next
    case False
    with Cons.prems have "find_port name ps (Suc k) = Some (j, p)" by simp
    from Cons.IH [OF this] show ?thesis by (auto simp: Suc_diff_le)
  qed
qed

lemma elab_mixed_port_Some:
  assumes "elab_mixed_port V cmp mc i mport ms s = Inr (Some ms', s')"
  shows "s' = s \<and>
         ((vlog_kind mport \<noteq> V_PORT_DECL \<and> ms' = ms)
          \<or> (vlog_kind mport = V_PORT_DECL
              \<and> (\<exists>j p. find_port (vlog_ident2 mport) (comp_ports cmp) 0 = Some (j, p)
                        \<and> ms_have ms' = (ms_have ms)[j := True])))"
  using assms
  by (auto simp: elab_mixed_port_def Let_def split: if_splits option.splits)

lemma elab_mixed_ports_Some:
  assumes "elab_mixed_ports V cmp mc i decls ms s = Inr (Some ms', s')"
  shows "s' = s \<and> length (ms_have ms') = length (ms_have ms)
         \<and> (\<forall>j < length (ms_have ms).
               ms_have ms' ! j \<longleftrightarrow>
                 ms_have ms ! j
                 \<or> (\<exists>d \<in> set decls. vlog_kind d = V_PORT_DECL
                       \<and> (\<exists>p. find_port (vlog_ident2 d) (comp_ports cmp) 0 = Some (j, p))))"
  using assms
proof (induction decls arbitrary: i ms s)
  case Nil
  then show ?case by simp
next
  case (Cons d decls)
  from Cons.prems obtain ms1 s1 where
    one: "elab_mixed_port V cmp mc i d ms s = Inr (Some ms1, s1)"
    and rest: "elab_mixed_ports V cmp mc (Suc i) decls ms1 s1 = Inr (Some ms', s')"
    by (auto split: sum.splits option.splits prod.splits)
  from elab_mixed_port_Some [OF one] have s1: "s1 = s"
    and alt: "(vlog_kind d \<noteq> V_PORT_DECL \<and> ms1 = ms)
          \<or> (vlog_kind d = V_PORT_DECL
              \<and> (\<exists>j p. find_port (vlog_ident2 d) (comp_ports cmp) 0 = Some (j, p)
                        \<and> ms_have ms1 = (ms_have ms)[j := True]))"
    by simp_all
  from Cons.IH [OF rest] have s': "s' = s1"
    and len: "length (ms_have ms') = length (ms_have ms1)"
    and ih: "\<forall>j < length (ms_have ms1).
               ms_have ms' ! j \<longleftrightarrow>
                 ms_have ms1 ! j
                 \<or> (\<exists>d \<in> set decls. vlog_kind d = V_PORT_DECL
                       \<and> (\<exists>p. find_port (vlog_ident2 d) (comp_ports cmp) 0 = Some (j, p)))"
    by simp_all
  from alt show ?case
  proof
    assume "vlog_kind d \<noteq> V_PORT_DECL \<and> ms1 = ms"
    with s1 s' len ih show ?thesis by auto
  next
    assume a: "vlog_kind d = V_PORT_DECL
              \<and> (\<exists>j p. find_port (vlog_ident2 d) (comp_ports cmp) 0 = Some (j, p)
                        \<and> ms_have ms1 = (ms_have ms)[j := True])"
    then obtain j0 p0 where
      f: "find_port (vlog_ident2 d) (comp_ports cmp) 0 = Some (j0, p0)"
      and h: "ms_have ms1 = (ms_have ms)[j0 := True]"
      by blast
    from h len have len': "length (ms_have ms') = length (ms_have ms)" by simp
    have "\<forall>j < length (ms_have ms).
               ms_have ms' ! j \<longleftrightarrow>
                 ms_have ms ! j
                 \<or> (\<exists>d' \<in> set (d # decls). vlog_kind d' = V_PORT_DECL
                       \<and> (\<exists>p. find_port (vlog_ident2 d') (comp_ports cmp) 0 = Some (j, p)))"
    proof (intro allI impI)
      fix j
      assume j: "j < length (ms_have ms)"
      with h ih have "ms_have ms' ! j \<longleftrightarrow>
                 (ms_have ms)[j0 := True] ! j
                 \<or> (\<exists>d \<in> set decls. vlog_kind d = V_PORT_DECL
                       \<and> (\<exists>p. find_port (vlog_ident2 d) (comp_ports cmp) 0 = Some (j, p)))"
        by simp
      moreover have "(ms_have ms)[j0 := True] ! j \<longleftrightarrow> ms_have ms ! j \<or> j = j0"
        using j by (cases "j = j0") auto
      moreover have "j = j0 \<longleftrightarrow> (\<exists>p. find_port (vlog_ident2 d) (comp_ports cmp) 0 = Some (j, p))"
        using f by auto
      ultimately show "ms_have ms' ! j \<longleftrightarrow>
                 ms_have ms ! j
                 \<or> (\<exists>d' \<in> set (d # decls). vlog_kind d' = V_PORT_DECL
                       \<and> (\<exists>p. find_port (vlog_ident2 d') (comp_ports cmp) 0 = Some (j, p)))"
        using a by auto
    qed
    with s1 s' len' show ?thesis by simp
  qed
qed

lemma report_missing_ports_diags:
  "diags (report_missing_ports cmp m have is s)
     = diags s @ map (\<lambda>i. \<lparr>level = DIAG_ERROR,
                            text_of = ''port '' @ pd_ident (comp_ports cmp ! i)
                                      @ '' not found in Verilog module '' @ mod_ident2 m\<rparr>)
                     (filter (\<lambda>i. \<not> have ! i) is)"
  by (induction "is" arbitrary: s) (simp_all add: diag_emit_def)

lemma filter_cong_upt:
  "(\<And>j. j < n \<Longrightarrow> P j = Q j) \<Longrightarrow> filter P [0..<n] = filter Q [0..<n]"
  by (rule filter_cong) simp_all

lemma elab_mixed_port_named:
  assumes "elab_mixed_port V cmp mc i mport ms s = Inr (Some ms', s')" and "ms_have_named ms"
  shows "ms_have_named ms'
         \<and> (\<exists>added. ms_params ms' = ms_params ms @ added \<and> (\<forall>m \<in> set added. p_subkind m = P_NAMED))"
  using assms
  by (auto simp: elab_mixed_port_def Let_def add_param_def split: if_splits option.splits)

lemma elab_mixed_ports_named:
  assumes "elab_mixed_ports V cmp mc i decls ms s = Inr (Some ms', s')" and "ms_have_named ms"
  shows "ms_have_named ms'
         \<and> (\<exists>added. ms_params ms' = ms_params ms @ added \<and> (\<forall>m \<in> set added. p_subkind m = P_NAMED))"
  using assms
proof (induction decls arbitrary: i ms s)
  case Nil
  then show ?case by simp
next
  case (Cons d decls)
  from Cons.prems(1) obtain ms1 s1 where
    one: "elab_mixed_port V cmp mc i d ms s = Inr (Some ms1, s1)"
    and rest: "elab_mixed_ports V cmp mc (Suc i) decls ms1 s1 = Inr (Some ms', s')"
    by (auto split: sum.splits option.splits prod.splits)
  from elab_mixed_port_named [OF one Cons.prems(2)] obtain a1 where
    n1: "ms_have_named ms1" and p1: "ms_params ms1 = ms_params ms @ a1"
    and k1: "\<forall>m \<in> set a1. p_subkind m = P_NAMED"
    by blast
  from Cons.IH [OF rest n1] obtain a2 where
    n2: "ms_have_named ms'" and p2: "ms_params ms' = ms_params ms1 @ a2"
    and k2: "\<forall>m \<in> set a2. p_subkind m = P_NAMED"
    by blast
  from p1 p2 k1 k2 have "ms_params ms' = ms_params ms @ (a1 @ a2)
                         \<and> (\<forall>m \<in> set (a1 @ a2). p_subkind m = P_NAMED)"
    by auto
  with n2 show ?case by blast
qed

text \<open>
  Claim C5, as amended. In the port loop of the binding of a component to a Verilog
  module, for a Verilog port declaration at index \<open>i\<close> matched to the component port
  \<open>cport\<close>: an input port adds a parameter whose value is a \<open>T_CONV_FUNC\<close> node that
  refers to the coercion found in the table from VHDL to Verilog types and wraps the
  reference to the component port, positional while no named parameter was added and
  named by the Verilog port after; when the table has no row for the types an error is
  recorded and the binding is null. An output port adds a named parameter whose value
  is the plain reference to the component port and whose name is a \<open>T_CONV_FUNC\<close>
  node, of the coercion from Verilog to VHDL types, that wraps the reference to the
  Verilog port; it sets \<open>have_named\<close>, after which every parameter added is named. After
  the loop one error is recorded for each component port that no Verilog port
  declaration matched, in the order of the component's ports.
\<close>

theorem elab_mixed_binding_params:
  "(\<forall>j cport func.
      vlog_kind mport = V_PORT_DECL \<and> i < length (mc_block_ports mc)
      \<and> pd_ident (mc_block_ports mc ! i) = vlog_ident mport
      \<and> find_port (vlog_ident2 mport) (comp_ports cmp) 0 = Some (j, cport)
      \<and> vlog_subkind mport = V_PORT_INPUT
      \<and> elab_to_verilog V (pd_type cport) (pd_type (mc_block_ports mc ! i)) = Some func \<longrightarrow>
      elab_mixed_port V cmp mc i mport ms s
        = Inr (Some (ms\<lparr>ms_params := ms_params ms
                          @ [if ms_have_named ms
                             then \<lparr>p_subkind = P_NAMED, p_pos = 0,
                                   p_value = T_CONV_FUNC (fd_ident func) (fd_result func) func
                                                         (make_ref cport),
                                   p_name = Some (make_ref (mc_block_ports mc ! i))\<rparr>
                             else \<lparr>p_subkind = P_POS, p_pos = length (ms_params ms),
                                   p_value = T_CONV_FUNC (fd_ident func) (fd_result func) func
                                                         (make_ref cport),
                                   p_name = None\<rparr>],
                        ms_have := (ms_have ms)[j := True]\<rparr>), s))
   \<and> (\<forall>j cport.
      vlog_kind mport = V_PORT_DECL \<and> i < length (mc_block_ports mc)
      \<and> pd_ident (mc_block_ports mc ! i) = vlog_ident mport
      \<and> find_port (vlog_ident2 mport) (comp_ports cmp) 0 = Some (j, cport)
      \<and> vlog_subkind mport = V_PORT_INPUT
      \<and> elab_to_verilog V (pd_type cport) (pd_type (mc_block_ports mc ! i)) = None \<longrightarrow>
      elab_mixed_port V cmp mc i mport ms s
        = Inr (None, error_at (''cannot connect VHDL signal with type '' @ type_pp (pd_type cport)
                               @ '' to Verilog input port '' @ vlog_ident mport) s))
   \<and> (\<forall>j cport func.
      vlog_kind mport = V_PORT_DECL \<and> i < length (mc_block_ports mc)
      \<and> pd_ident (mc_block_ports mc ! i) = vlog_ident mport
      \<and> find_port (vlog_ident2 mport) (comp_ports cmp) 0 = Some (j, cport)
      \<and> vlog_subkind mport \<noteq> V_PORT_INPUT
      \<and> elab_to_vhdl V (pd_type (mc_block_ports mc ! i)) (pd_type cport) = Some func \<longrightarrow>
      elab_mixed_port V cmp mc i mport ms s
        = Inr (Some (ms\<lparr>ms_params := ms_params ms
                          @ [\<lparr>p_subkind = P_NAMED, p_pos = 0,
                              p_value = make_ref cport,
                              p_name = Some (T_CONV_FUNC (fd_ident func) (fd_result func) func
                                                         (make_ref (mc_block_ports mc ! i)))\<rparr>],
                        ms_have := (ms_have ms)[j := True],
                        ms_have_named := True\<rparr>), s))
   \<and> (\<forall>ms' s'. elab_mixed_ports V cmp mc i decls ms s = Inr (Some ms', s') \<and> ms_have_named ms \<longrightarrow>
        ms_have_named ms'
        \<and> (\<exists>added. ms_params ms' = ms_params ms @ added
                     \<and> (\<forall>m \<in> set added. p_subkind m = P_NAMED)))
   \<and> (\<forall>b s'. elab_mixed_binding V cmp mc s = Inr (Some b, s') \<longrightarrow>
        diags s'
          = diags s
            @ map (\<lambda>j. \<lparr>level = DIAG_ERROR,
                         text_of = ''port '' @ pd_ident (comp_ports cmp ! j)
                                   @ '' not found in Verilog module ''
                                   @ mod_ident2 (mc_module mc)\<rparr>)
                  (filter (\<lambda>j. \<not> (\<exists>d \<in> set (vlog_decls (mc_module mc)).
                                      vlog_kind d = V_PORT_DECL
                                      \<and> (\<exists>p. find_port (vlog_ident2 d) (comp_ports cmp) 0
                                                = Some (j, p))))
                          [0..<length (comp_ports cmp)]))"
proof (intro conjI allI impI)
  fix j cport func
  assume a: "vlog_kind mport = V_PORT_DECL \<and> i < length (mc_block_ports mc)
      \<and> pd_ident (mc_block_ports mc ! i) = vlog_ident mport
      \<and> find_port (vlog_ident2 mport) (comp_ports cmp) 0 = Some (j, cport)
      \<and> vlog_subkind mport = V_PORT_INPUT
      \<and> elab_to_verilog V (pd_type cport) (pd_type (mc_block_ports mc ! i)) = Some func"
  then have "pd_ident cport = vlog_ident2 mport"
    using find_port_Some [of "vlog_ident2 mport" "comp_ports cmp" 0 j cport] by simp
  with a show "elab_mixed_port V cmp mc i mport ms s
        = Inr (Some (ms\<lparr>ms_params := ms_params ms
                          @ [if ms_have_named ms
                             then \<lparr>p_subkind = P_NAMED, p_pos = 0,
                                   p_value = T_CONV_FUNC (fd_ident func) (fd_result func) func
                                                         (make_ref cport),
                                   p_name = Some (make_ref (mc_block_ports mc ! i))\<rparr>
                             else \<lparr>p_subkind = P_POS, p_pos = length (ms_params ms),
                                   p_value = T_CONV_FUNC (fd_ident func) (fd_result func) func
                                                         (make_ref cport),
                                   p_name = None\<rparr>],
                        ms_have := (ms_have ms)[j := True]\<rparr>), s)"
    by (simp add: elab_mixed_port_def Let_def add_param_def)
next
  fix j cport
  assume a: "vlog_kind mport = V_PORT_DECL \<and> i < length (mc_block_ports mc)
      \<and> pd_ident (mc_block_ports mc ! i) = vlog_ident mport
      \<and> find_port (vlog_ident2 mport) (comp_ports cmp) 0 = Some (j, cport)
      \<and> vlog_subkind mport = V_PORT_INPUT
      \<and> elab_to_verilog V (pd_type cport) (pd_type (mc_block_ports mc ! i)) = None"
  then have "pd_ident cport = vlog_ident2 mport"
    using find_port_Some [of "vlog_ident2 mport" "comp_ports cmp" 0 j cport] by simp
  with a show "elab_mixed_port V cmp mc i mport ms s
        = Inr (None, error_at (''cannot connect VHDL signal with type '' @ type_pp (pd_type cport)
                               @ '' to Verilog input port '' @ vlog_ident mport) s)"
    by (simp add: elab_mixed_port_def Let_def)
next
  fix j cport func
  assume a: "vlog_kind mport = V_PORT_DECL \<and> i < length (mc_block_ports mc)
      \<and> pd_ident (mc_block_ports mc ! i) = vlog_ident mport
      \<and> find_port (vlog_ident2 mport) (comp_ports cmp) 0 = Some (j, cport)
      \<and> vlog_subkind mport \<noteq> V_PORT_INPUT
      \<and> elab_to_vhdl V (pd_type (mc_block_ports mc ! i)) (pd_type cport) = Some func"
  then have "pd_ident cport = vlog_ident2 mport"
    using find_port_Some [of "vlog_ident2 mport" "comp_ports cmp" 0 j cport] by simp
  with a show "elab_mixed_port V cmp mc i mport ms s
        = Inr (Some (ms\<lparr>ms_params := ms_params ms
                          @ [\<lparr>p_subkind = P_NAMED, p_pos = 0,
                              p_value = make_ref cport,
                              p_name = Some (T_CONV_FUNC (fd_ident func) (fd_result func) func
                                                         (make_ref (mc_block_ports mc ! i)))\<rparr>],
                        ms_have := (ms_have ms)[j := True],
                        ms_have_named := True\<rparr>), s)"
    by (simp add: elab_mixed_port_def Let_def add_param_def)
next
  fix ms' s'
  assume "elab_mixed_ports V cmp mc i decls ms s = Inr (Some ms', s') \<and> ms_have_named ms"
  then show "ms_have_named ms'"
    using elab_mixed_ports_named by blast
next
  fix ms' s'
  assume "elab_mixed_ports V cmp mc i decls ms s = Inr (Some ms', s') \<and> ms_have_named ms"
  then show "\<exists>added. ms_params ms' = ms_params ms @ added
                     \<and> (\<forall>m \<in> set added. p_subkind m = P_NAMED)"
    using elab_mixed_ports_named by blast
next
  fix b s'
  let ?n = "length (comp_ports cmp)"
  let ?ms0 = "\<lparr>ms_params = [], ms_have = replicate ?n False, ms_have_named = False\<rparr>"
  let ?matched = "\<lambda>j. \<exists>d \<in> set (vlog_decls (mc_module mc)).
                        vlog_kind d = V_PORT_DECL
                        \<and> (\<exists>p. find_port (vlog_ident2 d) (comp_ports cmp) 0 = Some (j, p))"
  assume a: "elab_mixed_binding V cmp mc s = Inr (Some b, s')"
  then obtain ms s1 where
    loop: "elab_mixed_ports V cmp mc 0 (vlog_decls (mc_module mc)) ?ms0 s = Inr (Some ms, s1)"
    and fin: "s' = report_missing_ports cmp (mc_module mc) (ms_have ms) [0..<?n] s1"
    by (auto simp: elab_mixed_binding_def Let_def split: sum.splits option.splits prod.splits)
  from elab_mixed_ports_Some [OF loop] have s1: "s1 = s"
    and hv: "\<forall>j < ?n. ms_have ms ! j \<longleftrightarrow> ?matched j"
    by simp_all
  from hv have "filter (\<lambda>j. \<not> ms_have ms ! j) [0..<?n] = filter (\<lambda>j. \<not> ?matched j) [0..<?n]"
    by (intro filter_cong_upt) simp
  with fin s1 show "diags s'
          = diags s
            @ map (\<lambda>j. \<lparr>level = DIAG_ERROR,
                         text_of = ''port '' @ pd_ident (comp_ports cmp ! j)
                                   @ '' not found in Verilog module ''
                                   @ mod_ident2 (mc_module mc)\<rparr>)
                  (filter (\<lambda>j. \<not> ?matched j) [0..<?n])"
    by (simp add: report_missing_ports_diags)
qed

lemma sample_coercions:
  "elab_to_verilog sample_vcollab sample_std_logic sample_t_logic = Some sample_to_verilog"
  "elab_to_vhdl sample_vcollab sample_t_logic sample_std_logic = Some sample_to_vhdl"
  "elab_to_verilog sample_vcollab sample_integer sample_t_logic = None"
  by (simp_all add: elab_to_verilog_def elab_to_vhdl_def to_verilog_table_def to_vhdl_table_def
                    sample_vcollab_def sample_std_logic_def sample_std_ulogic_def sample_t_logic_def
                    sample_t_net_value_def sample_to_verilog_def sample_to_vhdl_def
                    sample_integer_def)

lemma sample_mixed_binding:
  "elab_mixed_binding sample_vcollab sample_component sample_mod_cache (sample_state [])
     = Inr (Some sample_binding,
            \<lparr>diags = [\<lparr>level = DIAG_ERROR,
                       text_of = ''port EXTRA not found in Verilog module counter''\<rparr>],
             generic_override = []\<rparr>)"
  by (simp add: elab_mixed_binding_def elab_mixed_port_def Let_def add_param_def sample_coercions
                sample_component_def sample_mod_cache_def sample_mport_def sample_cport_def
                sample_vport_def sample_binding_def sample_clk_param_def sample_q_param_def
                sample_en_param_def sample_state_def diag_emit_def sample_to_verilog_def
                sample_to_vhdl_def upt_rec)

text \<open>
  Claim C5 as stated fails for output ports: the value of the parameter of the output
  \<open>Q\<close> is the plain reference to the component port, not a conversion of it.
\<close>

theorem elab_mixed_binding_output_counterexample:
  "elab_mixed_binding sample_vcollab sample_component sample_mod_cache (sample_state [])
     = Inr (Some sample_binding,
            \<lparr>diags = [\<lparr>level = DIAG_ERROR,
                       text_of = ''port EXTRA not found in Verilog module counter''\<rparr>],
             generic_override = []\<rparr>)
   \<and> p_subkind (bind_params sample_binding ! 1) = P_NAMED
   \<and> p_value (bind_params sample_binding ! 1) = make_ref (sample_cport ''Q'')
   \<and> \<not> is_converted_ref (p_value (bind_params sample_binding ! 1)) (sample_cport ''Q'')"
  by (simp add: sample_mixed_binding)
     (simp add: sample_binding_def sample_q_param_def is_converted_ref_def make_ref_def)

theorem elab_mixed_binding_params_witness:
  "elab_mixed_port sample_vcollab sample_component sample_mod_cache 0
       (sample_mport ''CLK'' V_PORT_INPUT)
       \<lparr>ms_params = [], ms_have = [False, False, False, False], ms_have_named = False\<rparr>
       (sample_state [])
     = Inr (Some \<lparr>ms_params = [sample_clk_param], ms_have = [True, False, False, False],
                  ms_have_named = False\<rparr>, sample_state [])
   \<and> elab_mixed_port sample_vcollab
       (sample_component\<lparr>comp_ports := [\<lparr>pd_ident = ''CLK'', pd_type = sample_integer\<rparr>]\<rparr>)
       sample_mod_cache 0 (sample_mport ''CLK'' V_PORT_INPUT)
       \<lparr>ms_params = [], ms_have = [False], ms_have_named = False\<rparr> (sample_state [])
     = Inr (None,
            \<lparr>diags = [\<lparr>level = DIAG_ERROR,
                       text_of = ''cannot connect VHDL signal with type INTEGER to Verilog input port CLK''\<rparr>],
             generic_override = []\<rparr>)
   \<and> elab_mixed_port sample_vcollab sample_component sample_mod_cache 1
       (sample_mport ''Q'' V_PORT_OUTPUT)
       \<lparr>ms_params = [sample_clk_param], ms_have = [True, False, False, False],
        ms_have_named = False\<rparr> (sample_state [])
     = Inr (Some \<lparr>ms_params = [sample_clk_param, sample_q_param],
                  ms_have = [True, True, False, False], ms_have_named = True\<rparr>, sample_state [])
   \<and> elab_mixed_port sample_vcollab sample_component sample_mod_cache 2
       (sample_mport ''EN'' V_PORT_INPUT)
       \<lparr>ms_params = [sample_clk_param, sample_q_param], ms_have = [True, True, False, False],
        ms_have_named = True\<rparr> (sample_state [])
     = Inr (Some \<lparr>ms_params = [sample_clk_param, sample_q_param, sample_en_param],
                  ms_have = [True, True, True, False], ms_have_named = True\<rparr>, sample_state [])
   \<and> (\<exists>added. [sample_clk_param, sample_q_param, sample_en_param]
                 = [sample_clk_param, sample_q_param] @ added
               \<and> (\<forall>m \<in> set added. p_subkind m = P_NAMED))
   \<and> diags \<lparr>diags = [\<lparr>level = DIAG_ERROR,
                       text_of = ''port EXTRA not found in Verilog module counter''\<rparr>],
             generic_override = []\<rparr>
       = diags (sample_state [])
         @ [\<lparr>level = DIAG_ERROR, text_of = ''port EXTRA not found in Verilog module counter''\<rparr>]"
proof -
  let ?V = sample_vcollab and ?c = sample_component and ?mc = sample_mod_cache
  let ?s = "sample_state []"
  let ?ms0 = "\<lparr>ms_params = [], ms_have = [False, False, False, False], ms_have_named = False\<rparr>"
  let ?ms1 = "\<lparr>ms_params = [sample_clk_param], ms_have = [True, False, False, False],
               ms_have_named = False\<rparr>"
  let ?ms2 = "\<lparr>ms_params = [sample_clk_param, sample_q_param],
               ms_have = [True, True, False, False], ms_have_named = True\<rparr>"
  let ?ms3 = "\<lparr>ms_params = [sample_clk_param, sample_q_param, sample_en_param],
               ms_have = [True, True, True, False], ms_have_named = True\<rparr>"
  note defs = sample_component_def sample_mod_cache_def sample_mport_def sample_cport_def
    sample_vport_def sample_clk_param_def sample_q_param_def sample_en_param_def
    sample_to_verilog_def sample_to_vhdl_def
  have co: "elab_to_verilog ?V sample_std_logic sample_t_logic = Some sample_to_verilog"
    "elab_to_vhdl ?V sample_t_logic sample_std_logic = Some sample_to_vhdl"
    "elab_to_verilog ?V sample_integer sample_t_logic = None"
    by (rule sample_coercions)+
  have w1: "elab_mixed_port ?V ?c ?mc 0 (sample_mport ''CLK'' V_PORT_INPUT) ?ms0 ?s
              = Inr (Some ?ms1, ?s)"
    using elab_mixed_binding_params
            [where mport = "sample_mport ''CLK'' V_PORT_INPUT" and i = 0 and mc = ?mc and cmp = ?c
               and V = ?V and ms = ?ms0 and s = ?s] co
    by (simp add: defs)
  have w2: "elab_mixed_port ?V (?c\<lparr>comp_ports := [\<lparr>pd_ident = ''CLK'', pd_type = sample_integer\<rparr>]\<rparr>)
              ?mc 0 (sample_mport ''CLK'' V_PORT_INPUT)
              \<lparr>ms_params = [], ms_have = [False], ms_have_named = False\<rparr> ?s
     = Inr (None,
            \<lparr>diags = [\<lparr>level = DIAG_ERROR,
                       text_of = ''cannot connect VHDL signal with type INTEGER to Verilog input port CLK''\<rparr>],
             generic_override = []\<rparr>)"
    using elab_mixed_binding_params
            [where mport = "sample_mport ''CLK'' V_PORT_INPUT" and i = 0 and mc = ?mc
               and cmp = "?c\<lparr>comp_ports := [\<lparr>pd_ident = ''CLK'', pd_type = sample_integer\<rparr>]\<rparr>"
               and V = ?V and ms = "\<lparr>ms_params = [], ms_have = [False], ms_have_named = False\<rparr>"
               and s = ?s] co
    by (simp add: defs error_at_def diag_emit_def sample_state_def sample_integer_def)
  have w3: "elab_mixed_port ?V ?c ?mc 1 (sample_mport ''Q'' V_PORT_OUTPUT) ?ms1 ?s
              = Inr (Some ?ms2, ?s)"
    using elab_mixed_binding_params
            [where mport = "sample_mport ''Q'' V_PORT_OUTPUT" and i = 1 and mc = ?mc and cmp = ?c
               and V = ?V and ms = ?ms1 and s = ?s] co
    by (simp add: defs)
  have w4: "elab_mixed_port ?V ?c ?mc 2 (sample_mport ''EN'' V_PORT_INPUT) ?ms2 ?s
              = Inr (Some ?ms3, ?s)"
    using elab_mixed_binding_params
            [where mport = "sample_mport ''EN'' V_PORT_INPUT" and i = 2 and mc = ?mc and cmp = ?c
               and V = ?V and ms = ?ms2 and s = ?s] co
    by (simp add: defs)
  from w4 have loop: "elab_mixed_ports ?V ?c ?mc 2 [sample_mport ''EN'' V_PORT_INPUT] ?ms2 ?s
                        = Inr (Some ?ms3, ?s)"
    by simp
  have w5: "\<exists>added. [sample_clk_param, sample_q_param, sample_en_param]
                 = [sample_clk_param, sample_q_param] @ added
               \<and> (\<forall>m \<in> set added. p_subkind m = P_NAMED)"
    using elab_mixed_binding_params
            [where i = 2 and mc = ?mc and cmp = ?c and V = ?V and ms = ?ms2 and s = ?s
               and decls = "[sample_mport ''EN'' V_PORT_INPUT]"] loop
    by simp
  have w6: "diags \<lparr>diags = [\<lparr>level = DIAG_ERROR,
                       text_of = ''port EXTRA not found in Verilog module counter''\<rparr>],
             generic_override = []\<rparr>
       = diags ?s
         @ [\<lparr>level = DIAG_ERROR, text_of = ''port EXTRA not found in Verilog module counter''\<rparr>]"
    using elab_mixed_binding_params [where mc = ?mc and cmp = ?c and V = ?V and s = ?s]
          sample_mixed_binding
    by (simp add: sample_state_def)
  from w1 w2 w3 w4 w5 w6 show ?thesis by blast
qed

section \<open>Properties of for-generate\<close>









lemma generate_hier:
  "elab_push_scope T_FOR_GENERATE (generate_ctx base ctx i)
     = \<lparr>h_subkind = T_FOR_GENERATE,
        h_ident = Some (hpathf (inst_name ctx) (CHR '':'') (base @ ''('' @ PRIi64 i @ '')'')),
        h_ident2 = Some (ident_prefix (dotted ctx) (base @ ''('' @ PRIi64 i @ '')'') (CHR ''.''))\<rparr>"
  by (simp add: elab_push_scope_def generate_ctx_def elab_inherit_context_def new_ctx_def
                orelse_def generate_block_name_def)

lemma generate_ctx_depth: "depth (generate_ctx base ctx i) = depth ctx + 1"
  by (simp add: generate_ctx_def elab_inherit_context_def)







section \<open>Properties of generate ranges that are not static\<close>

text \<open>
  Claim C7 as stated fails: for a range whose right bound is a reference to a signal,
  which the evaluator does not fold, \<open>elab_generate_range\<close> is not fatal. It records the
  error, sets both bounds to zero and returns, and \<open>elab_for_generate\<close> goes on to add
  the block of index 0.
\<close>

theorem elab_generate_range_not_static_counterexample:
  "\<not> isl (elab_generate_range sample_collab (Range_to (sample_lit 1) sample_signal_ref)
             sample_inst_ctx (sample_state []))
   \<and> elab_generate_range sample_collab (Range_to (sample_lit 1) sample_signal_ref)
        sample_inst_ctx (sample_state [])
     = Inr ((0, 0), sample_not_static)
   \<and> elab_for_generate sample_collab sample_rec_never ''GEN''
        (Range_to (sample_lit 1) sample_signal_ref) sample_genvar [Process ''P'']
        sample_inst_ctx (sample_state [])
     = Some (Inr ([sample_gen_block 0], sample_not_static))"
  by code_simp

text \<open>
  Claim C7, as amended. When the bounds of the range of a for-generate statement are
  not static, that is when the range has no folded bounds and the evaluator does not
  fold one of its bound expressions to an integer (for a range given by an attribute,
  one of its \<open>LOW\<close> and \<open>HIGH\<close> attributes), \<open>elab_generate_range\<close> records the
  continuable error "generate range is not static", sets both bounds to zero and
  returns; \<open>elab_for_generate\<close> then adds the one block of index 0, with no statements,
  and returns.
\<close>

theorem elab_generate_range_not_static:
  "(folded_bounds C (Range_to l rt) = None
      \<and> (folded_int C (eval_must_fold C ctx l) = None
           \<or> folded_int C (eval_must_fold C ctx rt) = None) \<longrightarrow>
      elab_generate_range C (Range_to l rt) ctx s
        = Inr ((0, 0), error_at ''generate range is not static'' s))
   \<and> (folded_bounds C (Range_downto l rt) = None
      \<and> (folded_int C (eval_must_fold C ctx l) = None
           \<or> folded_int C (eval_must_fold C ctx rt) = None) \<longrightarrow>
      elab_generate_range C (Range_downto l rt) ctx s
        = Inr ((0, 0), error_at ''generate range is not static'' s))
   \<and> (folded_int C (eval_must_fold C ctx (T_ATTR_REF ATTR_LOW ty nm)) = None
        \<or> folded_int C (eval_must_fold C ctx (T_ATTR_REF ATTR_HIGH ty nm)) = None \<longrightarrow>
      elab_generate_range C (Range_expr ty (T_ATTR_REF k t nm)) ctx s
        = Inr ((0, 0), error_at ''generate range is not static'' s))
   \<and> (elab_generate_range C r ctx s = Inr ((0, 0), error_at ''generate range is not static'' s) \<longrightarrow>
      elab_for_generate C rec base r g body ctx s
        = Some (Inr ([Elab_block (base @ ''(0)'') [g]
                        [\<lparr>p_subkind = P_POS, p_pos = 0,
                          p_value = T_LITERAL L_INT (g_type g) 0 0, p_name = None\<rparr>]
                        [\<lparr>h_subkind = T_FOR_GENERATE,
                          h_ident = Some (hpathf (inst_name ctx) (CHR '':'') (base @ ''(0)'')),
                          h_ident2 = Some (ident_prefix (dotted ctx) (base @ ''(0)'') (CHR ''.''))\<rparr>]
                        []],
                     error_at ''generate range is not static'' s)))"
proof (intro conjI impI)
  assume "folded_bounds C (Range_to l rt) = None
      \<and> (folded_int C (eval_must_fold C ctx l) = None
           \<or> folded_int C (eval_must_fold C ctx rt) = None)"
  then show "elab_generate_range C (Range_to l rt) ctx s
        = Inr ((0, 0), error_at ''generate range is not static'' s)"
    by (auto simp: elab_generate_range_def elab_generate_bounds_def elab_eval_expr_def Let_def
             split: option.splits)
next
  assume "folded_bounds C (Range_downto l rt) = None
      \<and> (folded_int C (eval_must_fold C ctx l) = None
           \<or> folded_int C (eval_must_fold C ctx rt) = None)"
  then show "elab_generate_range C (Range_downto l rt) ctx s
        = Inr ((0, 0), error_at ''generate range is not static'' s)"
    by (auto simp: elab_generate_range_def elab_generate_bounds_def elab_eval_expr_def Let_def
             split: option.splits)
next
  assume "folded_int C (eval_must_fold C ctx (T_ATTR_REF ATTR_LOW ty nm)) = None
        \<or> folded_int C (eval_must_fold C ctx (T_ATTR_REF ATTR_HIGH ty nm)) = None"
  then show "elab_generate_range C (Range_expr ty (T_ATTR_REF k t nm)) ctx s
        = Inr ((0, 0), error_at ''generate range is not static'' s)"
    by (auto simp: elab_generate_range_def elab_eval_expr_def split: option.splits)
next
  let ?s = "error_at ''generate range is not static'' s"
  assume a: "elab_generate_range C r ctx s = Inr ((0, 0), ?s)"
  have e: "error_count ?s \<noteq> 0"
    by (simp add: error_count_def error_at_def diag_emit_def)
  have z: "PRIi64 0 = ''0''" by code_simp
  have u: "[0..0::int] = [0]" by (simp add: upto.simps)
  from a e z u show "elab_for_generate C rec base r g body ctx s
        = Some (Inr ([Elab_block (base @ ''(0)'') [g]
                        [\<lparr>p_subkind = P_POS, p_pos = 0,
                          p_value = T_LITERAL L_INT (g_type g) 0 0, p_name = None\<rparr>]
                        [\<lparr>h_subkind = T_FOR_GENERATE,
                          h_ident = Some (hpathf (inst_name ctx) (CHR '':'') (base @ ''(0)'')),
                          h_ident2 = Some (ident_prefix (dotted ctx) (base @ ''(0)'') (CHR ''.''))\<rparr>]
                        []], ?s))"
    by (simp add: elab_for_generate_def elab_generate_block_def Let_def generate_hier
                  generate_block_name_def generate_map_def get_int_lit_def)
qed

theorem elab_generate_range_not_static_witness:
  "elab_generate_range sample_collab (Range_to (sample_lit 1) sample_signal_ref) sample_inst_ctx
       (sample_state [])
     = Inr ((0, 0), error_at ''generate range is not static'' (sample_state []))
   \<and> elab_generate_range sample_collab (Range_downto (sample_lit 1) sample_signal_ref)
       sample_inst_ctx (sample_state [])
     = Inr ((0, 0), error_at ''generate range is not static'' (sample_state []))
   \<and> elab_generate_range sample_collab
       (Range_expr sample_integer (T_ATTR_REF ATTR_RANGE sample_integer sample_signal_ref))
       sample_inst_ctx (sample_state [])
     = Inr ((0, 0), error_at ''generate range is not static'' (sample_state []))
   \<and> elab_for_generate sample_collab sample_rec_never ''GEN''
       (Range_to (sample_lit 1) sample_signal_ref) sample_genvar [Process ''P'']
       sample_inst_ctx (sample_state [])
     = Some (Inr ([Elab_block (''GEN'' @ ''(0)'') [sample_genvar]
                     [\<lparr>p_subkind = P_POS, p_pos = 0,
                       p_value = T_LITERAL L_INT (g_type sample_genvar) 0 0, p_name = None\<rparr>]
                     [\<lparr>h_subkind = T_FOR_GENERATE,
                       h_ident = Some (hpathf (inst_name sample_inst_ctx) (CHR '':'')
                                         (''GEN'' @ ''(0)'')),
                       h_ident2 = Some (ident_prefix (dotted sample_inst_ctx) (''GEN'' @ ''(0)'')
                                          (CHR ''.''))\<rparr>]
                     []],
                  error_at ''generate range is not static'' (sample_state [])))"
proof -
  let ?s = "sample_state []"
  note main = elab_generate_range_not_static
      [where C = sample_collab and ctx = sample_inst_ctx and s = ?s and l = "sample_lit 1"
         and rt = sample_signal_ref and ty = sample_integer and nm = sample_signal_ref
         and k = ATTR_RANGE and t = sample_integer
         and r = "Range_to (sample_lit 1) sample_signal_ref" and rec = sample_rec_never
         and base = "''GEN''" and g = sample_genvar and body = "[Process ''P'']"]
  have fb: "folded_bounds sample_collab (Range_to (sample_lit 1) sample_signal_ref) = None"
    "folded_bounds sample_collab (Range_downto (sample_lit 1) sample_signal_ref) = None"
    by (simp_all add: sample_collab_def sample_signal_ref_def sample_lit_def)
  have fi: "folded_int sample_collab (eval_must_fold sample_collab sample_inst_ctx sample_signal_ref)
              = None"
    "folded_int sample_collab
       (eval_must_fold sample_collab sample_inst_ctx
          (T_ATTR_REF ATTR_LOW sample_integer sample_signal_ref)) = None"
    by (simp_all add: sample_collab_def sample_signal_ref_def)
  from main fb fi
  have w1: "elab_generate_range sample_collab (Range_to (sample_lit 1) sample_signal_ref)
              sample_inst_ctx ?s
     = Inr ((0, 0), error_at ''generate range is not static'' ?s)"
    by blast
  from main fb fi
  have w2: "elab_generate_range sample_collab (Range_downto (sample_lit 1) sample_signal_ref)
              sample_inst_ctx ?s
     = Inr ((0, 0), error_at ''generate range is not static'' ?s)"
    by blast
  from main fi
  have w3: "elab_generate_range sample_collab
       (Range_expr sample_integer (T_ATTR_REF ATTR_RANGE sample_integer sample_signal_ref))
       sample_inst_ctx ?s
     = Inr ((0, 0), error_at ''generate range is not static'' ?s)"
    by blast
  from main w1
  have w4: "elab_for_generate sample_collab sample_rec_never ''GEN''
       (Range_to (sample_lit 1) sample_signal_ref) sample_genvar [Process ''P'']
       sample_inst_ctx ?s
     = Some (Inr ([Elab_block (''GEN'' @ ''(0)'') [sample_genvar]
                     [\<lparr>p_subkind = P_POS, p_pos = 0,
                       p_value = T_LITERAL L_INT (g_type sample_genvar) 0 0, p_name = None\<rparr>]
                     [\<lparr>h_subkind = T_FOR_GENERATE,
                       h_ident = Some (hpathf (inst_name sample_inst_ctx) (CHR '':'')
                                         (''GEN'' @ ''(0)'')),
                       h_ident2 = Some (ident_prefix (dotted sample_inst_ctx) (''GEN'' @ ''(0)'')
                                          (CHR ''.''))\<rparr>]
                     []],
                  error_at ''generate range is not static'' ?s))"
    by blast
  from w1 w2 w3 w4 show ?thesis by blast
qed

section \<open>Properties of the driver\<close>

lemma warn_unused_diags:
  "diags (warn_unused go s)
     = diags s @ map (\<lambda>it. \<lparr>level = DIAG_WARN,
                             text_of = ''generic value for '' @ gl_name it @ '' not used''\<rparr>) go
   \<and> generic_override (warn_unused go s) = generic_override s"
  by (induction go arbitrary: s) (simp_all add: warnf_def diag_emit_def)

lemma warn_unused_error_count: "error_count (warn_unused go s) = error_count s"
  by (simp add: error_count_def warn_unused_diags)

lemma error_count_append:
  "diags s' = diags s @ new \<Longrightarrow>
     error_count s' = error_count s + length (filter (\<lambda>d. level d = DIAG_ERROR) new)"
  by (simp add: error_count_def)

lemma elab_returns_cases:
  assumes "elab vcb gcb tp work s = Some (Inr (r, s'))"
  shows "\<exists>name stmts s1.
           elab_name tp = Some name
           \<and> call_root_cb vcb gcb tp work s = Some (Inr (stmts, s1))
           \<and> ((0 < error_count s1 \<and> r = None \<and> s' = s1)
               \<or> (error_count s1 = 0 \<and> stmts \<noteq> []
                   \<and> r = Some \<lparr>e_ident = name, e_stmts = stmts\<rparr>
                   \<and> s' = warn_unused (generic_override s1) s1))"
  using assms
  by (auto simp: elab_def Let_def
           split: option.splits sum.splits prod.splits if_splits list.splits)

text \<open>
  Claim C8. When \<open>elab\<close> returns, its result is null exactly when the error count is not
  zero, that is, when the count was zero at the start, exactly when an error was
  recorded during the elaboration; and a result that is not null is the \<open>T_ELAB\<close> tree
  named after the top-level unit, with the statements the root callback added. The
  function returns whenever the root callback returns with an error recorded or with
  a statement added.
\<close>

theorem elab_null_iff_errors:
  "(\<forall>r s'. elab vcb gcb tp work s = Some (Inr (r, s')) \<longrightarrow>
      (r = None \<longleftrightarrow> 0 < error_count s')
      \<and> (\<forall>new. error_count s = 0 \<and> diags s' = diags s @ new \<longrightarrow>
             (r = None \<longleftrightarrow> (\<exists>d \<in> set new. level d = DIAG_ERROR)))
      \<and> (\<forall>e. r = Some e \<longrightarrow>
             elab_name tp = Some (e_ident e)
             \<and> e_stmts e \<noteq> []
             \<and> (\<exists>s1. call_root_cb vcb gcb tp work s = Some (Inr (e_stmts e, s1)))))
   \<and> (\<forall>name stmts s1. elab_name tp = Some name
        \<and> call_root_cb vcb gcb tp work s = Some (Inr (stmts, s1))
        \<and> (0 < error_count s1 \<or> stmts \<noteq> []) \<longrightarrow>
        (\<exists>r s'. elab vcb gcb tp work s = Some (Inr (r, s'))))"
proof (intro conjI allI impI)
  fix r s'
  assume a: "elab vcb gcb tp work s = Some (Inr (r, s'))"
  from elab_returns_cases [OF a] show "r = None \<longleftrightarrow> 0 < error_count s'"
    by (auto simp: warn_unused_error_count)
next
  fix r s' new
  assume a: "elab vcb gcb tp work s = Some (Inr (r, s'))"
    and b: "error_count s = 0 \<and> diags s' = diags s @ new"
  from elab_returns_cases [OF a] have "r = None \<longleftrightarrow> 0 < error_count s'"
    by (auto simp: warn_unused_error_count)
  moreover from b have "error_count s' = length (filter (\<lambda>d. level d = DIAG_ERROR) new)"
    by (simp add: error_count_append)
  ultimately show "r = None \<longleftrightarrow> (\<exists>d \<in> set new. level d = DIAG_ERROR)"
    by (simp add: filter_empty_conv)
next
  fix r s' e
  assume a: "elab vcb gcb tp work s = Some (Inr (r, s'))" and e: "r = Some e"
  from elab_returns_cases [OF a] e show "elab_name tp = Some (e_ident e)" by auto
next
  fix r s' e
  assume a: "elab vcb gcb tp work s = Some (Inr (r, s'))" and e: "r = Some e"
  from elab_returns_cases [OF a] e show "e_stmts e \<noteq> []" by auto
next
  fix r s' e
  assume a: "elab vcb gcb tp work s = Some (Inr (r, s'))" and e: "r = Some e"
  from elab_returns_cases [OF a] e
  show "\<exists>s1. call_root_cb vcb gcb tp work s = Some (Inr (e_stmts e, s1))" by auto
next
  fix name stmts s1
  assume "elab_name tp = Some name
        \<and> call_root_cb vcb gcb tp work s = Some (Inr (stmts, s1))
        \<and> (0 < error_count s1 \<or> stmts \<noteq> [])"
  then show "\<exists>r s'. elab vcb gcb tp work s = Some (Inr (r, s'))"
    by (cases stmts) (auto simp: elab_def Let_def)
qed

lemma sample_elab_ok:
  "elab_design 3 [] [Process ''P''] (sample_state [])
     = Some (Inr (Some \<lparr>e_ident = ''WORK.TOP.elab'', e_stmts = [sample_top_block]\<rparr>,
                  sample_state []))"
  by code_simp

lemma sample_elab_error:
  "elab_design 5 [sample_generic ''N'' sample_integer None] [Process ''P'']
       (sample_state [\<lparr>gl_name = ''UNUSED'', gl_value = ''7''\<rparr>])
     = Some (Inr (None, sample_missing_generic))"
  by code_simp

lemma sample_root_cb_ok:
  "call_root_cb
       (elab_vhdl_root_cb (design_collab [] [Process ''P''])
          (elab_stmts (design_collab [] [Process ''P'']) 3) (design_entity [])
          \<lparr>file_ref = 1, first_line = 1\<rparr>)
       (\<lambda>ctx s. Some (Inl (Unmodelled ''elab_verilog_root_cb'')))
       (Top_vhdl (design_entity []) \<lparr>file_ref = 1, first_line = 1\<rparr>)
       (design_lib [] [Process ''P'']) (sample_state [])
     = Some (Inr ([sample_top_block], sample_state []))"
  by code_simp

theorem elab_null_iff_errors_witness:
  "elab_design 3 [] [Process ''P''] (sample_state [])
     = Some (Inr (Some \<lparr>e_ident = ''WORK.TOP.elab'', e_stmts = [sample_top_block]\<rparr>,
                  sample_state []))
   \<and> \<not> 0 < error_count (sample_state [])
   \<and> elab_design 5 [sample_generic ''N'' sample_integer None] [Process ''P'']
       (sample_state [\<lparr>gl_name = ''UNUSED'', gl_value = ''7''\<rparr>])
     = Some (Inr (None, sample_missing_generic))
   \<and> 0 < error_count sample_missing_generic
   \<and> (\<exists>d \<in> set (diags sample_missing_generic). level d = DIAG_ERROR)
   \<and> elab_name (Top_vhdl (design_entity []) \<lparr>file_ref = 1, first_line = 1\<rparr>)
       = Some ''WORK.TOP.elab''
   \<and> (\<exists>r s'. elab_design 3 [] [Process ''P''] (sample_state []) = Some (Inr (r, s')))"
proof -
  let ?l = "\<lparr>file_ref = 1, first_line = 1\<rparr>"
  let ?g = "\<lambda>(ctx :: elab_ctx) (s :: elab_state).
              (Some (Inl (Unmodelled ''elab_verilog_root_cb'')) :: elab_result)"
  let ?C1 = "design_collab [] [Process ''P'']"
  let ?v1 = "elab_vhdl_root_cb ?C1 (elab_stmts ?C1 3) (design_entity []) ?l"
  let ?N = "[sample_generic ''N'' sample_integer None]"
  let ?C2 = "design_collab ?N [Process ''P'']"
  let ?v2 = "elab_vhdl_root_cb ?C2 (elab_stmts ?C2 5) (design_entity ?N) ?l"
  let ?s2 = "sample_state [\<lparr>gl_name = ''UNUSED'', gl_value = ''7''\<rparr>]"
  have ok: "elab ?v1 ?g (Top_vhdl (design_entity []) ?l) (design_lib [] [Process ''P''])
              (sample_state [])
     = Some (Inr (Some \<lparr>e_ident = ''WORK.TOP.elab'', e_stmts = [sample_top_block]\<rparr>,
                  sample_state []))"
    using sample_elab_ok unfolding elab_design_def elab_vhdl_def .
  have er: "elab ?v2 ?g (Top_vhdl (design_entity ?N) ?l) (design_lib ?N [Process ''P'']) ?s2
     = Some (Inr (None, sample_missing_generic))"
    using sample_elab_error unfolding elab_design_def elab_vhdl_def .
  note t1 = elab_null_iff_errors
      [where vcb = ?v1 and gcb = ?g and tp = "Top_vhdl (design_entity []) ?l"
         and work = "design_lib [] [Process ''P'']" and s = "sample_state []"]
  note t2 = elab_null_iff_errors
      [where vcb = ?v2 and gcb = ?g and tp = "Top_vhdl (design_entity ?N) ?l"
         and work = "design_lib ?N [Process ''P'']" and s = ?s2]
  note a1 = t1 [THEN conjunct1, rule_format, OF ok]
  note a2 = t2 [THEN conjunct1, rule_format, OF er]
  from a1 [THEN conjunct1] have w1: "\<not> 0 < error_count (sample_state [])" by simp
  from a2 [THEN conjunct1] have w2: "0 < error_count sample_missing_generic" by simp
  have ec: "error_count ?s2 = 0" by (simp add: error_count_def sample_state_def)
  have dg: "diags sample_missing_generic = diags ?s2 @ diags sample_missing_generic"
    by (simp add: sample_state_def)
  from a2 [THEN conjunct2, THEN conjunct1, rule_format, OF conjI, OF ec dg]
  have w3: "\<exists>d \<in> set (diags sample_missing_generic). level d = DIAG_ERROR" by simp
  from a1 [THEN conjunct2, THEN conjunct2, rule_format, OF refl, THEN conjunct1]
  have w4: "elab_name (Top_vhdl (design_entity []) ?l) = Some ''WORK.TOP.elab''" by simp
  have ne: "0 < error_count (sample_state []) \<or> [sample_top_block] \<noteq> []" by simp
  from t1 [THEN conjunct2, rule_format, OF conjI, OF w4 conjI, OF sample_root_cb_ok ne]
  have "\<exists>r s'. elab ?v1 ?g (Top_vhdl (design_entity []) ?l) (design_lib [] [Process ''P''])
                  (sample_state []) = Some (Inr (r, s'))" .
  then have w5: "\<exists>r s'. elab_design 3 [] [Process ''P''] (sample_state []) = Some (Inr (r, s'))"
    unfolding elab_design_def elab_vhdl_def .
  from sample_elab_ok w1 sample_elab_error w2 w3 w4 w5 show ?thesis by (intro conjI)
qed

section \<open>Consumption of generic overrides\<close>

lemma elab_find_generic_override_Some:
  assumes "elab_find_generic_override C g ctx s = Inr (Some v, s')"
  shows "\<exists>it. unlink_override (qualified_generic ctx (g_ident g)) (generic_override s)
                 = Some (it, generic_override s')
              \<and> elab_parse_generic_string C g (gl_value it) = Inr v
              \<and> diags s' = diags s"
  using assms
  by (auto simp: elab_find_generic_override_def Let_def
           split: if_splits option.splits sum.splits prod.splits)

lemma elab_find_generic_override_None:
  assumes "elab_find_generic_override C g ctx s = Inr (None, s')"
  shows "s' = s"
  using assms
  by (auto simp: elab_find_generic_override_def Let_def
           split: if_splits option.splits sum.splits prod.splits)

lemma unlink_override_distinct:
  assumes "unlink_override q go = Some (it, rest)" and "distinct (map gl_name go)"
  shows "q \<notin> gl_name ` set rest \<and> distinct (map gl_name rest)"
proof -
  from unlink_override_Some [OF assms(1)] obtain pre post where
    go: "go = pre @ it # post" and rest: "rest = pre @ post" and it: "gl_name it = q"
    and pre: "q \<notin> gl_name ` set pre"
    by blast
  from assms(2) go it have "q \<notin> gl_name ` set post" and "distinct (map gl_name (pre @ post))"
    by auto
  with pre rest show ?thesis by auto
qed

text \<open>
  Claim C6 as stated fails when elaboration records an error: here the top-level
  entity has a generic \<open>N\<close> without a default and the override table holds \<open>UNUSED\<close>.
  The driver returns null; \<open>UNUSED\<close> is still in the table, so it was not consumed, and
  no warning about it is among the diagnostics.
\<close>

theorem elab_unused_override_counterexample:
  "elab_design 5 [sample_generic ''N'' sample_integer None] [Process ''P'']
       (sample_state [\<lparr>gl_name = ''UNUSED'', gl_value = ''7''\<rparr>])
     = Some (Inr (None, sample_missing_generic))
   \<and> \<lparr>gl_name = ''UNUSED'', gl_value = ''7''\<rparr> \<in> set (generic_override sample_missing_generic)
   \<and> \<lparr>level = DIAG_WARN, text_of = ''generic value for UNUSED not used''\<rparr>
       \<notin> set (diags sample_missing_generic)"
  by (simp add: sample_elab_error) (simp add: sample_missing_generic_def)

text \<open>
  Claim C6, as amended. A lookup that finds an override unlinks exactly one node from
  the table, the first with the qualified name of the generic, and returns the value
  parsed from it; when the names of the table are distinct no node with that name is
  left, so the override cannot be consumed again. A lookup that finds none leaves the
  state as it is. When the driver returns the elaborated tree, no error having been
  recorded, it has emitted one warning "generic value for ... not used" for each
  override still in the table, in the order of the table, after the diagnostics of
  the root callback. When an error was recorded the driver returns null without these
  warnings: its state is the one the root callback left.
\<close>

theorem elab_overrides_consumed_or_reported:
  "(\<forall>v s'. elab_find_generic_override C g ctx s = Inr (Some v, s') \<longrightarrow>
      (\<exists>pre it post.
          generic_override s = pre @ it # post \<and> generic_override s' = pre @ post
          \<and> gl_name it = qualified_generic ctx (g_ident g)
          \<and> qualified_generic ctx (g_ident g) \<notin> gl_name ` set pre
          \<and> elab_parse_generic_string C g (gl_value it) = Inr v)
      \<and> diags s' = diags s
      \<and> (distinct (map gl_name (generic_override s)) \<longrightarrow>
           qualified_generic ctx (g_ident g) \<notin> gl_name ` set (generic_override s')
           \<and> distinct (map gl_name (generic_override s'))))
   \<and> (\<forall>s'. elab_find_generic_override C g ctx s = Inr (None, s') \<longrightarrow> s' = s)
   \<and> (\<forall>e s'. elab vcb gcb tp work s = Some (Inr (Some e, s')) \<longrightarrow>
        (\<exists>stmts s1. call_root_cb vcb gcb tp work s = Some (Inr (stmts, s1))
            \<and> error_count s1 = 0
            \<and> generic_override s' = generic_override s1
            \<and> diags s'
                = diags s1
                  @ map (\<lambda>it. \<lparr>level = DIAG_WARN,
                                text_of = ''generic value for '' @ gl_name it @ '' not used''\<rparr>)
                        (generic_override s1)))
   \<and> (\<forall>s'. elab vcb gcb tp work s = Some (Inr (None, s')) \<longrightarrow>
        0 < error_count s'
        \<and> (\<exists>stmts. call_root_cb vcb gcb tp work s = Some (Inr (stmts, s'))))"
proof (intro conjI allI impI)
  fix v s'
  assume a: "elab_find_generic_override C g ctx s = Inr (Some v, s')"
  from elab_find_generic_override_Some [OF a] obtain it where
    u: "unlink_override (qualified_generic ctx (g_ident g)) (generic_override s)
          = Some (it, generic_override s')"
    and p: "elab_parse_generic_string C g (gl_value it) = Inr v"
    by blast
  from unlink_override_Some [OF u] p
  show "\<exists>pre it post.
          generic_override s = pre @ it # post \<and> generic_override s' = pre @ post
          \<and> gl_name it = qualified_generic ctx (g_ident g)
          \<and> qualified_generic ctx (g_ident g) \<notin> gl_name ` set pre
          \<and> elab_parse_generic_string C g (gl_value it) = Inr v"
    by blast
next
  fix v s'
  assume a: "elab_find_generic_override C g ctx s = Inr (Some v, s')"
  from elab_find_generic_override_Some [OF a] show "diags s' = diags s" by blast
next
  fix v s'
  assume a: "elab_find_generic_override C g ctx s = Inr (Some v, s')"
    and d: "distinct (map gl_name (generic_override s))"
  from elab_find_generic_override_Some [OF a] obtain it where
    u: "unlink_override (qualified_generic ctx (g_ident g)) (generic_override s)
          = Some (it, generic_override s')"
    by blast
  from unlink_override_distinct [OF u d]
  show "qualified_generic ctx (g_ident g) \<notin> gl_name ` set (generic_override s')" by simp
next
  fix v s'
  assume a: "elab_find_generic_override C g ctx s = Inr (Some v, s')"
    and d: "distinct (map gl_name (generic_override s))"
  from elab_find_generic_override_Some [OF a] obtain it where
    u: "unlink_override (qualified_generic ctx (g_ident g)) (generic_override s)
          = Some (it, generic_override s')"
    by blast
  from unlink_override_distinct [OF u d]
  show "distinct (map gl_name (generic_override s'))" by simp
next
  fix s'
  assume "elab_find_generic_override C g ctx s = Inr (None, s')"
  then show "s' = s" by (rule elab_find_generic_override_None)
next
  fix e s'
  assume a: "elab vcb gcb tp work s = Some (Inr (Some e, s'))"
  from elab_returns_cases [OF a] obtain stmts s1 where
    cb: "call_root_cb vcb gcb tp work s = Some (Inr (stmts, s1))"
    and z: "error_count s1 = 0" and s': "s' = warn_unused (generic_override s1) s1"
    by auto
  from s' have "generic_override s' = generic_override s1
            \<and> diags s'
                = diags s1
                  @ map (\<lambda>it. \<lparr>level = DIAG_WARN,
                                text_of = ''generic value for '' @ gl_name it @ '' not used''\<rparr>)
                        (generic_override s1)"
    by (simp add: warn_unused_diags)
  with cb z show "\<exists>stmts s1. call_root_cb vcb gcb tp work s = Some (Inr (stmts, s1))
            \<and> error_count s1 = 0
            \<and> generic_override s' = generic_override s1
            \<and> diags s'
                = diags s1
                  @ map (\<lambda>it. \<lparr>level = DIAG_WARN,
                                text_of = ''generic value for '' @ gl_name it @ '' not used''\<rparr>)
                        (generic_override s1)"
    by blast
next
  fix s'
  assume a: "elab vcb gcb tp work s = Some (Inr (None, s'))"
  from elab_returns_cases [OF a] show "0 < error_count s'" by auto
next
  fix s'
  assume a: "elab vcb gcb tp work s = Some (Inr (None, s'))"
  from elab_returns_cases [OF a]
  show "\<exists>stmts. call_root_cb vcb gcb tp work s = Some (Inr (stmts, s'))" by auto
qed

lemma sample_elab_unused:
  "elab_design 5 [sample_generic ''WIDTH'' sample_integer (Some (sample_lit 8))] [Process ''P'']
       (sample_state [\<lparr>gl_name = ''UNUSED'', gl_value = ''7''\<rparr>,
                      \<lparr>gl_name = ''WIDTH'', gl_value = ''16''\<rparr>])
     = Some (Inr (Some \<lparr>e_ident = ''WORK.TOP.elab'',
                        e_stmts = [Elab_block ''TOP''
                           [sample_generic ''WIDTH'' sample_integer (Some (sample_lit 8))]
                           [sample_pos 0 (sample_lit 16)]
                           [\<lparr>h_subkind = T_ARCH, h_ident = Some '':top(rtl)'',
                             h_ident2 = Some ''WORK.TOP''\<rparr>]
                           [Elab_stmt (Process ''P'')]]\<rparr>,
                  \<lparr>diags = [\<lparr>level = DIAG_WARN,
                             text_of = ''generic value for UNUSED not used''\<rparr>],
                   generic_override = [\<lparr>gl_name = ''UNUSED'', gl_value = ''7''\<rparr>]\<rparr>))"
  by code_simp

lemma sample_find_override:
  "elab_find_generic_override sample_collab
       (sample_generic ''WIDTH'' sample_integer (Some (sample_lit 8))) sample_inst_ctx
       (sample_state [\<lparr>gl_name = ''UNUSED'', gl_value = ''7''\<rparr>,
                      \<lparr>gl_name = ''U1.WIDTH'', gl_value = ''16''\<rparr>])
     = Inr (Some (sample_lit 16), sample_state [\<lparr>gl_name = ''UNUSED'', gl_value = ''7''\<rparr>])"
  by code_simp

lemma sample_find_no_override:
  "elab_find_generic_override sample_collab
       (sample_generic ''WIDTH'' sample_integer (Some (sample_lit 8))) sample_inst_ctx
       (sample_state [\<lparr>gl_name = ''UNUSED'', gl_value = ''7''\<rparr>])
     = Inr (None, sample_state [\<lparr>gl_name = ''UNUSED'', gl_value = ''7''\<rparr>])"
  by code_simp

theorem elab_overrides_consumed_or_reported_witness:
  "elab_find_generic_override sample_collab
       (sample_generic ''WIDTH'' sample_integer (Some (sample_lit 8))) sample_inst_ctx
       (sample_state [\<lparr>gl_name = ''UNUSED'', gl_value = ''7''\<rparr>,
                      \<lparr>gl_name = ''U1.WIDTH'', gl_value = ''16''\<rparr>])
     = Inr (Some (sample_lit 16), sample_state [\<lparr>gl_name = ''UNUSED'', gl_value = ''7''\<rparr>])
   \<and> distinct (map gl_name (generic_override
         (sample_state [\<lparr>gl_name = ''UNUSED'', gl_value = ''7''\<rparr>,
                        \<lparr>gl_name = ''U1.WIDTH'', gl_value = ''16''\<rparr>])))
   \<and> qualified_generic sample_inst_ctx
         (g_ident (sample_generic ''WIDTH'' sample_integer (Some (sample_lit 8))))
       \<notin> gl_name ` set (generic_override
                         (sample_state [\<lparr>gl_name = ''UNUSED'', gl_value = ''7''\<rparr>]))
   \<and> elab_find_generic_override sample_collab
       (sample_generic ''WIDTH'' sample_integer (Some (sample_lit 8))) sample_inst_ctx
       (sample_state [\<lparr>gl_name = ''UNUSED'', gl_value = ''7''\<rparr>])
     = Inr (None, sample_state [\<lparr>gl_name = ''UNUSED'', gl_value = ''7''\<rparr>])
   \<and> (\<exists>e s'. elab_design 5 [sample_generic ''WIDTH'' sample_integer (Some (sample_lit 8))]
                  [Process ''P'']
                  (sample_state [\<lparr>gl_name = ''UNUSED'', gl_value = ''7''\<rparr>,
                                 \<lparr>gl_name = ''WIDTH'', gl_value = ''16''\<rparr>])
                = Some (Inr (Some e, s'))
              \<and> generic_override s' = [\<lparr>gl_name = ''UNUSED'', gl_value = ''7''\<rparr>]
              \<and> diags s' = [\<lparr>level = DIAG_WARN,
                              text_of = ''generic value for UNUSED not used''\<rparr>])
   \<and> (\<exists>sa. error_count sa = 0
            \<and> generic_override sa = [\<lparr>gl_name = ''UNUSED'', gl_value = ''7''\<rparr>]
            \<and> diags sa = [])
   \<and> elab_design 5 [sample_generic ''N'' sample_integer None] [Process ''P'']
       (sample_state [\<lparr>gl_name = ''UNUSED'', gl_value = ''7''\<rparr>])
     = Some (Inr (None, sample_missing_generic))
   \<and> 0 < error_count sample_missing_generic"
proof -
  let ?l = "\<lparr>file_ref = 1, first_line = 1\<rparr>"
  let ?gcb = "\<lambda>(ctx :: elab_ctx) (s :: elab_state).
              (Some (Inl (Unmodelled ''elab_verilog_root_cb'')) :: elab_result)"
  let ?u = "\<lparr>gl_name = ''UNUSED'', gl_value = ''7''\<rparr>"
  let ?g = "sample_generic ''WIDTH'' sample_integer (Some (sample_lit 8))"
  let ?W = "[?g]"
  let ?C1 = "design_collab ?W [Process ''P'']"
  let ?v1 = "elab_vhdl_root_cb ?C1 (elab_stmts ?C1 5) (design_entity ?W) ?l"
  let ?s1 = "sample_state [?u, \<lparr>gl_name = ''WIDTH'', gl_value = ''16''\<rparr>]"
  let ?N = "[sample_generic ''N'' sample_integer None]"
  let ?C2 = "design_collab ?N [Process ''P'']"
  let ?v2 = "elab_vhdl_root_cb ?C2 (elab_stmts ?C2 5) (design_entity ?N) ?l"
  let ?s2 = "sample_state [?u]"
  let ?s0 = "sample_state [?u, \<lparr>gl_name = ''U1.WIDTH'', gl_value = ''16''\<rparr>]"
  have ok: "elab ?v1 ?gcb (Top_vhdl (design_entity ?W) ?l) (design_lib ?W [Process ''P'']) ?s1
     = Some (Inr (Some \<lparr>e_ident = ''WORK.TOP.elab'',
                        e_stmts = [Elab_block ''TOP'' [?g] [sample_pos 0 (sample_lit 16)]
                           [\<lparr>h_subkind = T_ARCH, h_ident = Some '':top(rtl)'',
                             h_ident2 = Some ''WORK.TOP''\<rparr>]
                           [Elab_stmt (Process ''P'')]]\<rparr>,
                  \<lparr>diags = [\<lparr>level = DIAG_WARN,
                             text_of = ''generic value for UNUSED not used''\<rparr>],
                   generic_override = [?u]\<rparr>))"
    using sample_elab_unused unfolding elab_design_def elab_vhdl_def .
  have er: "elab ?v2 ?gcb (Top_vhdl (design_entity ?N) ?l) (design_lib ?N [Process ''P'']) ?s2
     = Some (Inr (None, sample_missing_generic))"
    using sample_elab_error unfolding elab_design_def elab_vhdl_def .
  note t1 = elab_overrides_consumed_or_reported
      [where C = sample_collab and g = ?g and ctx = sample_inst_ctx and s = ?s0
         and vcb = ?v1 and gcb = ?gcb and tp = "Top_vhdl (design_entity ?W) ?l"
         and work = "design_lib ?W [Process ''P'']"]
  note t2 = elab_overrides_consumed_or_reported
      [where C = sample_collab and g = ?g and ctx = sample_inst_ctx and s = ?s2
         and vcb = ?v2 and gcb = ?gcb and tp = "Top_vhdl (design_entity ?N) ?l"
         and work = "design_lib ?N [Process ''P'']"]
  note t3 = elab_overrides_consumed_or_reported
      [where C = sample_collab and g = ?g and ctx = sample_inst_ctx and s = ?s1
         and vcb = ?v1 and gcb = ?gcb and tp = "Top_vhdl (design_entity ?W) ?l"
         and work = "design_lib ?W [Process ''P'']"]
  have d: "distinct (map gl_name (generic_override ?s0))" by (simp add: sample_state_def)
  note a = t1 [THEN conjunct1, rule_format, OF sample_find_override]
  note w1 = a [THEN conjunct2, THEN conjunct2, rule_format, OF d, THEN conjunct1]
  note b = t2 [THEN conjunct2, THEN conjunct1, rule_format, OF sample_find_no_override]
  note c = t3 [THEN conjunct2, THEN conjunct2, THEN conjunct1, rule_format, OF ok]
  from c have w3: "\<exists>sa. error_count sa = 0 \<and> generic_override sa = [?u] \<and> diags sa = []"
  proof (elim exE conjE)
    fix stmts sa
    assume e0: "error_count sa = 0"
      and go: "generic_override
                 \<lparr>diags = [\<lparr>level = DIAG_WARN,
                            text_of = ''generic value for UNUSED not used''\<rparr>],
                  generic_override = [?u]\<rparr> = generic_override sa"
      and dg: "diags \<lparr>diags = [\<lparr>level = DIAG_WARN,
                            text_of = ''generic value for UNUSED not used''\<rparr>],
                  generic_override = [?u]\<rparr>
               = diags sa @ map (\<lambda>it. \<lparr>level = DIAG_WARN,
                                text_of = ''generic value for '' @ gl_name it @ '' not used''\<rparr>)
                        (generic_override sa)"
    from go have g: "generic_override sa = [?u]" by simp
    from dg g have "diags sa = []" by simp
    with e0 g show ?thesis by blast
  qed
  have w2: "\<exists>e s'. elab_design 5 ?W [Process ''P''] ?s1 = Some (Inr (Some e, s'))
              \<and> generic_override s' = [?u]
              \<and> diags s' = [\<lparr>level = DIAG_WARN,
                              text_of = ''generic value for UNUSED not used''\<rparr>]"
    using sample_elab_unused by simp
  note e = t2 [THEN conjunct2, THEN conjunct2, THEN conjunct2, rule_format, OF er, THEN conjunct1]
  from sample_find_override d w1 sample_find_no_override w2 w3 sample_elab_error e
  show ?thesis by (intro conjI)
qed

section \<open>The instantiation depth cap\<close>

lemma elab_inherit_context_depth:
  "depth (elab_inherit_context c par) = depth par + 1"
  by (simp add: elab_inherit_context_def)

lemma elab_inherit_context_library:
  "library par = Some lb \<Longrightarrow> library c = None \<Longrightarrow> library (elab_inherit_context c par) = Some lb"
  by (simp add: elab_inherit_context_def orelse_def)

lemma elab_generics_none:
  "elab_generics C [] genmaps ctx s
     = Inr (\<lparr>out_generics = [], out_genmaps = [], ctx_generics = []\<rparr>, s)"
  by (simp add: elab_generics_def)

lemma elab_stmts_nothing:
  "elab_stmts C (Suc m) ctx [] s = Some (Inr ([], s))"
  by simp

lemma design_pick_arch:
  assumes "library ctx = Some (design_lib [] ss)"
  shows "elab_pick_arch (lib_require (design_collab [] ss)) lc (design_entity []) ctx s
           = Inr (Some (design_arch [] ss), s)"
proof -
  have u: "ident_until ''WORK.TOP'' (CHR ''.'') = ''WORK''" by (simp add: ident_until_def)
  have sn: "search_name (design_lib [] ss) ''WORK.TOP'' = ''WORK.TOP''"
    by (simp add: search_name_def design_lib_def ident_rfrom_def ident_prefix_def)
  have w: "lib_walk_index (design_lib [] ss) (lib_index (design_lib [] ss))
             (\<lparr>search = ''WORK.TOP'', chosen = None, mtime = 0\<rparr>, s)
           = (\<lparr>search = ''WORK.TOP'', chosen = Some ''WORK.TOP-RTL'', mtime = 10\<rparr>, s)"
    by (simp add: design_lib_def elab_find_arch_cb_def ident_until_def)
  have g: "lib_get (design_lib [] ss) ''WORK.TOP-RTL'' = Some (design_arch [] ss)"
    by (simp add: design_lib_def)
  show ?thesis
    using assms
    by (simp add: elab_pick_arch_def elab_find_lib_def design_entity_def u sn w g)
qed

lemma depth_below_cap:
  assumes "unat (w :: 32 word) + Suc k = 127"
  shows "w \<noteq> MAX_DEPTH" and "unat (w + 1) + k = 127"
proof -
  from assms show "w \<noteq> MAX_DEPTH" by (auto simp: MAX_DEPTH_def)
  from assms have "unat w + unat (1 :: 32 word) < 2 ^ LENGTH(32)" by simp
  then have "unat (w + 1) = unat w + unat (1 :: 32 word)" by (simp only: unat_add_lem)
  with assms show "unat (w + 1) + k = 127" by simp
qed

lemma depth_at_cap: "unat (w :: 32 word) = 127 \<Longrightarrow> w = MAX_DEPTH"
  unfolding MAX_DEPTH_def by unat_arith

lemma block_design_never_returns:
  assumes "odd (depth ctx)" and "library ctx = Some (design_lib [] block_design)"
    and "error_count s = 0"
  shows "elab_stmts (design_collab [] block_design) n ctx block_design s = None"
  using assms
proof (induction n arbitrary: ctx s rule: less_induct)
  case (less n)
  let ?C = "design_collab [] block_design"
  let ?L = "design_lib [] block_design"
  show ?case
  proof (cases n)
    case 0
    then show ?thesis by simp
  next
    case (Suc m)
    define bctx where
      "bctx = elab_inherit_context
                (new_ctx None (Some (hpathf (inst_name ctx) (CHR '':'') ''B''))
                   (Some (ident_prefix (dotted ctx) ''B'' (CHR ''.'')))) ctx"
    have bd: "depth bctx = depth ctx + 1" by (simp add: bctx_def elab_inherit_context_depth)
    have bl: "library bctx = Some ?L"
      unfolding bctx_def using less.prems(2)
      by (intro elab_inherit_context_library) (simp_all add: new_ctx_def)
    from less.prems(1) bd have be: "even (depth bctx)" by simp
    then have bm: "depth bctx \<noteq> MAX_DEPTH" by (auto simp: MAX_DEPTH_def)
    have inner: "elab_stmts ?C m bctx [self_instance] s = None"
    proof (cases m)
      case 0
      then show ?thesis by simp
    next
      case (Suc k)
      define actx where
        "actx = set_library
                  (elab_inherit_context
                     (new_ctx (Some ''U'')
                        (Some (hpathf (inst_name bctx) (CHR '':'')
                                 (''U'' @ ''@'' @ simple_name ''WORK.TOP''
                                  @ ''('' @ simple_name ''WORK.TOP-RTL'' @ '')'')))
                        (Some (ident_prefix (dotted bctx) ''U'' (CHR ''.'')))) bctx) ?L"
      have ad: "depth actx = depth bctx + 1"
        by (simp add: actx_def set_library_def elab_inherit_context_depth)
      have al: "library actx = Some ?L" by (simp add: actx_def set_library_def)
      from be ad have ao: "odd (depth actx)" by simp
      have k: "k < n" using \<open>n = Suc m\<close> Suc by simp
      have body: "elab_stmts ?C k actx block_design s = None"
        by (rule less.IH [OF k ao al less.prems(3)])
      have ent: "elab_stmts ?C k actx [] s = None \<or> elab_stmts ?C k actx [] s = Some (Inr ([], s))"
        by (cases k) simp_all
      have tr: "tree_ref ?C ''WORK.TOP'' = Some (design_entity [])"
        by (simp add: design_collab_def design_lib_def)
      have uk: "unit_kind (design_entity []) = T_ENTITY" by (simp add: design_entity_def)
      have lr: "lib_require ?C (ident_until ''WORK.TOP-RTL'' (CHR ''.'')) = Some ?L"
        by (simp add: design_collab_def ident_until_def)
      have sg: "simplify_global ?C [] block_design = block_design"
        by (simp add: design_collab_def sample_collab_def)
      have unf: "elab_architecture ?C (elab_stmts ?C k)
                    \<lparr>bt_kind = T_INSTANCE, bt_ident = ''U'', bt_genmaps = []\<rparr>
                    (design_arch [] block_design) bctx s
                 = (case elab_stmts ?C k actx [] s of
                      None \<Rightarrow> None
                    | Some (Inl e) \<Rightarrow> Some (Inl e)
                    | Some (Inr (o1, s2)) \<Rightarrow>
                        (case elab_stmts ?C k actx block_design s2 of
                           None \<Rightarrow> None
                         | Some (Inl e) \<Rightarrow> Some (Inl e)
                         | Some (Inr (o2, s3)) \<Rightarrow>
                             Some (Inr ([Elab_block ''U'' [] []
                                           [elab_push_scope T_ARCH actx] (o1 @ o2)], s3))))"
        by (simp add: elab_architecture_def design_arch_def design_entity_def lr
                      elab_generics_none less.prems(3) sg actx_def Let_def
                 cong: option.case_cong sum.case_cong prod.case_cong)
      from ent body have arch: "elab_architecture ?C (elab_stmts ?C k)
                    \<lparr>bt_kind = T_INSTANCE, bt_ident = ''U'', bt_genmaps = []\<rparr>
                    (design_arch [] block_design) bctx s = None"
        unfolding unf by auto
      show ?thesis
        unfolding Suc
        by (simp add: self_instance_def elab_stmt_def elab_instance_def bm tr uk Let_def
                      design_pick_arch [OF bl] arch)
    qed
    have "elab_block ?C (elab_stmts ?C m) ''B'' [] [] [self_instance] ctx s
            = (case elab_stmts ?C m bctx [self_instance] s of
                 None \<Rightarrow> None
               | Some (Inl e) \<Rightarrow> Some (Inl e)
               | Some (Inr (stmts, s2)) \<Rightarrow>
                   Some (Inr ([Elab_block ''B'' [] [] [elab_push_scope T_BLOCK bctx] stmts], s2)))"
      by (simp add: elab_block_def elab_generics_none bctx_def Let_def
               cong: option.case_cong sum.case_cong prod.case_cong)
    with inner have "elab_block ?C (elab_stmts ?C m) ''B'' [] [] [self_instance] ctx s = None"
      by simp
    then show ?thesis
      unfolding \<open>n = Suc m\<close>
      by (simp add: block_design_def [of] elab_stmt_def)
  qed
qed

lemma elab_stmts_single_instance:
  "elab_stmts C (Suc m) ctx [Instance l r g lc] s
     = (case elab_instance C (elab_stmts C m) l r g lc ctx s of
          None \<Rightarrow> None
        | Some (Inl e) \<Rightarrow> Some (Inl e)
        | Some (Inr (o1, s1)) \<Rightarrow> Some (Inr (o1, s1)))"
  by (simp add: elab_stmt_def split: option.splits sum.splits)

lemma direct_design_instance:
  "direct_design = [Instance ''U'' ''WORK.TOP'' [] \<lparr>file_ref = 1, first_line = 7\<rparr>]"
  by (simp add: direct_design_def self_instance_def)

lemma direct_design_capped:
  assumes "unat (depth ctx) + k = 127" and "k < n"
    and "library ctx = Some (design_lib [] direct_design)" and "error_count s = 0"
  shows "\<exists>out. elab_stmts (design_collab [] direct_design) n ctx direct_design s
           = Some (Inr (out, diag_emit DIAG_ERROR ''maximum instantiation depth of 127 reached'' s))"
  using assms
proof (induction k arbitrary: ctx n)
  case 0
  from 0(1) have c: "depth ctx = MAX_DEPTH" by (simp add: depth_at_cap)
  from 0(2) obtain m where n: "n = Suc m" by (cases n) auto
  have "elab_instance (design_collab [] direct_design)
          (elab_stmts (design_collab [] direct_design) m) ''U'' ''WORK.TOP'' []
          \<lparr>file_ref = 1, first_line = 7\<rparr> ctx s
        = Some (Inr ([], diag_emit DIAG_ERROR ''maximum instantiation depth of 127 reached'' s))"
    by (simp add: elab_instance_def c)
  then show ?case
    unfolding n
      elab_stmts_single_instance [of "design_collab [] direct_design" m ctx "''U''" "''WORK.TOP''" "[]"
         "\<lparr>file_ref = 1, first_line = 7\<rparr>" s, folded direct_design_instance]
    by simp
next
  case (Suc k)
  let ?C = "design_collab [] direct_design"
  let ?L = "design_lib [] direct_design"
  let ?s' = "diag_emit DIAG_ERROR ''maximum instantiation depth of 127 reached'' s"
  from Suc.prems(2) obtain m where n: "n = Suc m" and km: "k < m" by (cases n) auto
  from km obtain j where m: "m = Suc j" by (cases m) auto
  define actx where
    "actx = set_library
              (elab_inherit_context
                 (new_ctx (Some ''U'')
                    (Some (hpathf (inst_name ctx) (CHR '':'')
                             (''U'' @ ''@'' @ simple_name ''WORK.TOP''
                              @ ''('' @ simple_name ''WORK.TOP-RTL'' @ '')'')))
                    (Some (ident_prefix (dotted ctx) ''U'' (CHR ''.'')))) ctx) ?L"
  have ad: "depth actx = depth ctx + 1"
    by (simp add: actx_def set_library_def elab_inherit_context_depth)
  have al: "library actx = Some ?L" by (simp add: actx_def set_library_def)
  from depth_below_cap [OF Suc.prems(1)] ad
  have bm: "depth ctx \<noteq> MAX_DEPTH" and ak: "unat (depth actx) + k = 127" by simp_all
  from Suc.IH [OF ak km al Suc.prems(4)] obtain out where
    body: "elab_stmts ?C m actx direct_design s = Some (Inr (out, ?s'))"
    by blast
  have ent: "elab_stmts ?C m actx [] s = Some (Inr ([], s))" unfolding m by simp
  have tr: "tree_ref ?C ''WORK.TOP'' = Some (design_entity [])"
    by (simp add: design_collab_def design_lib_def)
  have uk: "unit_kind (design_entity []) = T_ENTITY" by (simp add: design_entity_def)
  have lr: "lib_require ?C (ident_until ''WORK.TOP-RTL'' (CHR ''.'')) = Some ?L"
    by (simp add: design_collab_def ident_until_def)
  have sg: "simplify_global ?C [] direct_design = direct_design"
    by (simp add: design_collab_def sample_collab_def)
  have unf: "elab_architecture ?C (elab_stmts ?C m)
                    \<lparr>bt_kind = T_INSTANCE, bt_ident = ''U'', bt_genmaps = []\<rparr>
                    (design_arch [] direct_design) ctx s
                 = (case elab_stmts ?C m actx [] s of
                      None \<Rightarrow> None
                    | Some (Inl e) \<Rightarrow> Some (Inl e)
                    | Some (Inr (o1, s2)) \<Rightarrow>
                        (case elab_stmts ?C m actx direct_design s2 of
                           None \<Rightarrow> None
                         | Some (Inl e) \<Rightarrow> Some (Inl e)
                         | Some (Inr (o2, s3)) \<Rightarrow>
                             Some (Inr ([Elab_block ''U'' [] []
                                           [elab_push_scope T_ARCH actx] (o1 @ o2)], s3))))"
    by (simp add: elab_architecture_def design_arch_def design_entity_def lr
                  elab_generics_none Suc.prems(4) sg actx_def Let_def
             cong: option.case_cong sum.case_cong prod.case_cong)
  have arch: "elab_architecture ?C (elab_stmts ?C m)
                    \<lparr>bt_kind = T_INSTANCE, bt_ident = ''U'', bt_genmaps = []\<rparr>
                    (design_arch [] direct_design) ctx s
                = Some (Inr ([Elab_block ''U'' [] [] [elab_push_scope T_ARCH actx] out], ?s'))"
    unfolding unf by (simp add: ent body)
  have "elab_instance ?C (elab_stmts ?C m) ''U'' ''WORK.TOP'' []
          \<lparr>file_ref = 1, first_line = 7\<rparr> ctx s
        = Some (Inr ([Elab_block ''U'' [] [] [elab_push_scope T_ARCH actx] out], ?s'))"
    by (simp add: elab_instance_def bm tr uk Let_def design_pick_arch [OF Suc.prems(3)] arch)
  then show ?case
    unfolding n
      elab_stmts_single_instance [of ?C m ctx "''U''" "''WORK.TOP''" "[]"
         "\<lparr>file_ref = 1, first_line = 7\<rparr>" s, folded direct_design_instance]
    by simp
qed

lemma direct_design_returns_null:
  assumes "127 \<le> n"
  shows "elab_design n [] direct_design (sample_state []) = Some (Inr (None, sample_depth_error))"
proof -
  let ?C = "design_collab [] direct_design"
  let ?L = "design_lib [] direct_design"
  let ?s = "sample_state []"
  let ?s' = "diag_emit DIAG_ERROR ''maximum instantiation depth of 127 reached'' ?s"
  define ctx1 where
    "ctx1 = set_inst_name (root_ctx ?L)
              (hpathf None (CHR '':'')
                 ('':'' @ simple_name ''WORK.TOP'' @ ''('' @ simple_name ''WORK.TOP-RTL'' @ '')''))"
  define actx where
    "actx = set_library
              (elab_inherit_context
                 (new_ctx None None
                    (Some (ident_prefix (dotted ctx1) (ident_rfrom ''WORK.TOP'' (CHR ''.''))
                             (CHR ''.'')))) ctx1) ?L"
  have e0: "error_count ?s = 0" by (simp add: error_count_def sample_state_def)
  have se: "?s' = sample_depth_error"
    by (simp add: diag_emit_def sample_state_def sample_depth_error_def)
  have e1: "0 < error_count sample_depth_error"
    by (simp add: error_count_def sample_depth_error_def)
  have ad: "unat (depth actx) + 126 = 127"
    by (simp add: actx_def ctx1_def set_library_def set_inst_name_def root_ctx_def
                  elab_inherit_context_def)
  have al: "library actx = Some ?L" by (simp add: actx_def set_library_def)
  from assms have kn: "126 < n" by simp
  from direct_design_capped [OF ad kn al e0] se obtain out where
    body: "elab_stmts ?C n actx direct_design ?s = Some (Inr (out, sample_depth_error))"
    by auto
  from assms obtain j where "n = Suc j" by (cases n) auto
  then have ent: "elab_stmts ?C n actx [] ?s = Some (Inr ([], ?s))" by simp
  have rl: "library (root_ctx ?L) = Some ?L" by (simp add: root_ctx_def)
  have uk: "unit_kind (design_entity []) = T_ENTITY" by (simp add: design_entity_def)
  have lr: "lib_require ?C (ident_until ''WORK.TOP-RTL'' (CHR ''.'')) = Some ?L"
    by (simp add: design_collab_def ident_until_def)
  have sg: "simplify_global ?C [] direct_design = direct_design"
    by (simp add: design_collab_def sample_collab_def)
  have tb: "elab_top_level_binding ?C (design_arch [] direct_design) ctx1 ?s
              = Inr (\<lparr>bt_kind = T_BINDING, bt_ident = ''WORK.TOP-RTL'', bt_genmaps = []\<rparr>, ?s)"
    by (simp add: elab_top_level_binding_def design_arch_def design_entity_def)
  have unf: "elab_architecture ?C (elab_stmts ?C n)
               \<lparr>bt_kind = T_BINDING, bt_ident = ''WORK.TOP-RTL'', bt_genmaps = []\<rparr>
               (design_arch [] direct_design) ctx1 ?s
             = (case elab_stmts ?C n actx [] ?s of
                  None \<Rightarrow> None
                | Some (Inl e) \<Rightarrow> Some (Inl e)
                | Some (Inr (o1, s2)) \<Rightarrow>
                    (case elab_stmts ?C n actx direct_design s2 of
                       None \<Rightarrow> None
                     | Some (Inl e) \<Rightarrow> Some (Inl e)
                     | Some (Inr (o2, s3)) \<Rightarrow>
                         Some (Inr ([Elab_block (ident_rfrom ''WORK.TOP'' (CHR ''.'')) [] []
                                       [elab_push_scope T_ARCH actx] (o1 @ o2)], s3))))"
    by (simp add: elab_architecture_def design_arch_def design_entity_def lr
                  elab_generics_none e0 sg actx_def Let_def
             cong: option.case_cong sum.case_cong prod.case_cong)
  have arch: "elab_architecture ?C (elab_stmts ?C n)
               \<lparr>bt_kind = T_BINDING, bt_ident = ''WORK.TOP-RTL'', bt_genmaps = []\<rparr>
               (design_arch [] direct_design) ctx1 ?s
             = Some (Inr ([Elab_block (ident_rfrom ''WORK.TOP'' (CHR ''.'')) [] []
                             [elab_push_scope T_ARCH actx] out], sample_depth_error))"
    unfolding unf by (simp add: ent body)
  have cb: "elab_vhdl_root_cb ?C (elab_stmts ?C n) (design_entity [])
              \<lparr>file_ref = 1, first_line = 1\<rparr> (root_ctx ?L) ?s
            = Some (Inr ([Elab_block (ident_rfrom ''WORK.TOP'' (CHR ''.'')) [] []
                            [elab_push_scope T_ARCH actx] out], sample_depth_error))"
    using tb arch unfolding elab_vhdl_root_cb_def uk
    by (simp add: design_pick_arch [OF rl] design_arch_def e0 ctx1_def Let_def)
  show ?thesis
    using cb e1
    by (simp add: elab_design_def elab_vhdl_def elab_def elab_name_def call_root_cb_def)
qed

text \<open>
  Claim C3, the part the code fulfils. A child context, which every block, generate
  block and architecture makes with \<open>elab_inherit_context\<close>, has the depth of its parent
  plus one. An instance reached in a context of depth 127 adds exactly one diagnostic,
  the error "maximum instantiation depth of 127 reached", adds nothing to the output
  and makes no recursive call: its result is the same for every recursor. When the
  architecture of the top-level entity instantiates that entity directly,
  \<open>u: entity work.top;\<close>, the driver returns, given fuel for the 127 levels, a null
  result and a state whose only diagnostic is that error.
\<close>

theorem elab_instance_depth_cap:
  "depth (elab_inherit_context c par) = depth par + 1
   \<and> (depth ctx = MAX_DEPTH \<longrightarrow>
        elab_instance C rec label rf genmaps lc ctx s
          = Some (Inr ([], s\<lparr>diags := diags s
                               @ [\<lparr>level = DIAG_ERROR,
                                   text_of = ''maximum instantiation depth of 127 reached''\<rparr>]\<rparr>))
        \<and> (\<forall>rec'. elab_instance C rec' label rf genmaps lc ctx s
                     = elab_instance C rec label rf genmaps lc ctx s))
   \<and> (127 \<le> n \<longrightarrow>
        elab_design n [] direct_design (sample_state []) = Some (Inr (None, sample_depth_error)))"
  by (simp add: elab_inherit_context_def elab_instance_def diag_emit_def
                direct_design_returns_null)

theorem elab_instance_depth_cap_witness:
  "depth (elab_inherit_context (new_ctx None None None) sample_deep_ctx) = 128
   \<and> elab_instance sample_collab sample_rec_never ''U'' ''WORK.TOP'' []
        \<lparr>file_ref = 1, first_line = 7\<rparr> sample_deep_ctx (sample_state [])
      = Some (Inr ([], sample_depth_error))
   \<and> elab_instance sample_collab sample_rec_nothing ''U'' ''WORK.TOP'' []
        \<lparr>file_ref = 1, first_line = 7\<rparr> sample_deep_ctx (sample_state [])
      = Some (Inr ([], sample_depth_error))
   \<and> elab_design 127 [] direct_design (sample_state []) = Some (Inr (None, sample_depth_error))"
proof -
  note t = elab_instance_depth_cap
      [where c = "new_ctx None None None" and par = sample_deep_ctx and ctx = sample_deep_ctx
         and C = sample_collab and rec = sample_rec_never and label = "''U''"
         and rf = "''WORK.TOP''" and genmaps = "[]"
         and lc = "\<lparr>file_ref = 1, first_line = 7\<rparr>" and s = "sample_state []" and n = 127]
  have d: "depth sample_deep_ctx = MAX_DEPTH" by (simp add: sample_deep_ctx_def MAX_DEPTH_def)
  have se: "sample_state []\<lparr>diags := diags (sample_state [])
               @ [\<lparr>level = DIAG_ERROR,
                   text_of = ''maximum instantiation depth of 127 reached''\<rparr>]\<rparr>
            = sample_depth_error"
    by (simp add: sample_state_def sample_depth_error_def)
  from t [THEN conjunct1] have w1:
    "depth (elab_inherit_context (new_ctx None None None) sample_deep_ctx) = 128"
    by (simp add: sample_deep_ctx_def)
  note a = t [THEN conjunct2, THEN conjunct1, rule_format, OF d]
  from a [THEN conjunct1] se have w2:
    "elab_instance sample_collab sample_rec_never ''U'' ''WORK.TOP'' []
        \<lparr>file_ref = 1, first_line = 7\<rparr> sample_deep_ctx (sample_state [])
      = Some (Inr ([], sample_depth_error))"
    by simp
  from a [THEN conjunct2, rule_format, of sample_rec_nothing] w2 have w3:
    "elab_instance sample_collab sample_rec_nothing ''U'' ''WORK.TOP'' []
        \<lparr>file_ref = 1, first_line = 7\<rparr> sample_deep_ctx (sample_state [])
      = Some (Inr ([], sample_depth_error))"
    by simp
  have le: "(127 :: nat) \<le> 127" by simp
  note w4 = t [THEN conjunct2, THEN conjunct2, rule_format, OF le]
  from w1 w2 w3 w4 show ?thesis by (intro conjI)
qed

text \<open>
  Claim C3 fails on the top-level architecture whose body is
  \<open>b: block begin u: entity work.top; end block;\<close>. Block contexts add one to the depth
  as instance contexts do, so the instances are reached at the depths 2, 4, 6, ... and
  the test \<open>depth = 127\<close> is never true: for every amount of fuel the driver does not
  return, neither a null result nor a diagnostic.
\<close>

theorem elab_block_self_instance_never_returns:
  "\<forall>n. elab_design n [] block_design (sample_state []) = None"
proof
  fix n
  let ?C = "design_collab [] block_design"
  let ?L = "design_lib [] block_design"
  let ?s = "sample_state []"
  define ctx1 where
    "ctx1 = set_inst_name (root_ctx ?L)
              (hpathf None (CHR '':'')
                 ('':'' @ simple_name ''WORK.TOP'' @ ''('' @ simple_name ''WORK.TOP-RTL'' @ '')''))"
  define actx where
    "actx = set_library
              (elab_inherit_context
                 (new_ctx None None
                    (Some (ident_prefix (dotted ctx1) (ident_rfrom ''WORK.TOP'' (CHR ''.''))
                             (CHR ''.'')))) ctx1) ?L"
  have e0: "error_count ?s = 0" by (simp add: error_count_def sample_state_def)
  have ao: "odd (depth actx)"
    by (simp add: actx_def ctx1_def set_library_def set_inst_name_def root_ctx_def
                  elab_inherit_context_def)
  have al: "library actx = Some ?L" by (simp add: actx_def set_library_def)
  have body: "elab_stmts ?C n actx block_design ?s = None"
    by (rule block_design_never_returns [OF ao al e0])
  have ent: "elab_stmts ?C n actx [] ?s = None \<or> elab_stmts ?C n actx [] ?s = Some (Inr ([], ?s))"
    by (cases n) simp_all
  have rl: "library (root_ctx ?L) = Some ?L" by (simp add: root_ctx_def)
  have uk: "unit_kind (design_entity []) = T_ENTITY" by (simp add: design_entity_def)
  have lr: "lib_require ?C (ident_until ''WORK.TOP-RTL'' (CHR ''.'')) = Some ?L"
    by (simp add: design_collab_def ident_until_def)
  have sg: "simplify_global ?C [] block_design = block_design"
    by (simp add: design_collab_def sample_collab_def)
  have tb: "elab_top_level_binding ?C (design_arch [] block_design) ctx1 ?s
              = Inr (\<lparr>bt_kind = T_BINDING, bt_ident = ''WORK.TOP-RTL'', bt_genmaps = []\<rparr>, ?s)"
    by (simp add: elab_top_level_binding_def design_arch_def design_entity_def)
  have unf: "elab_architecture ?C (elab_stmts ?C n)
               \<lparr>bt_kind = T_BINDING, bt_ident = ''WORK.TOP-RTL'', bt_genmaps = []\<rparr>
               (design_arch [] block_design) ctx1 ?s
             = (case elab_stmts ?C n actx [] ?s of
                  None \<Rightarrow> None
                | Some (Inl e) \<Rightarrow> Some (Inl e)
                | Some (Inr (o1, s2)) \<Rightarrow>
                    (case elab_stmts ?C n actx block_design s2 of
                       None \<Rightarrow> None
                     | Some (Inl e) \<Rightarrow> Some (Inl e)
                     | Some (Inr (o2, s3)) \<Rightarrow>
                         Some (Inr ([Elab_block (ident_rfrom ''WORK.TOP'' (CHR ''.'')) [] []
                                       [elab_push_scope T_ARCH actx] (o1 @ o2)], s3))))"
    by (simp add: elab_architecture_def design_arch_def design_entity_def lr
                  elab_generics_none e0 sg actx_def Let_def
             cong: option.case_cong sum.case_cong prod.case_cong)
  from ent body have arch: "elab_architecture ?C (elab_stmts ?C n)
               \<lparr>bt_kind = T_BINDING, bt_ident = ''WORK.TOP-RTL'', bt_genmaps = []\<rparr>
               (design_arch [] block_design) ctx1 ?s = None"
    unfolding unf by auto
  have cb: "elab_vhdl_root_cb ?C (elab_stmts ?C n) (design_entity [])
              \<lparr>file_ref = 1, first_line = 1\<rparr> (root_ctx ?L) ?s = None"
    using tb arch unfolding elab_vhdl_root_cb_def uk
    by (simp add: design_pick_arch [OF rl] design_arch_def e0 ctx1_def Let_def)
  show "elab_design n [] block_design ?s = None"
    using cb by (simp add: elab_design_def elab_vhdl_def elab_def elab_name_def call_root_cb_def)
qed

end
